theory Spec2Isabelle
  imports Complex_Main
begin

section \<open>Python values, exceptions and arithmetic\<close>

text \<open>
  The cost model of \<^verbatim>\<open>design.py\<close> computes with Python floats.  They are modelled as
  real numbers: rounding, overflow, infinities and NaN are outside the model.  Every
  operation of the source that can raise is a function into \<open>error + 'a\<close>;
  \<open>sys.exit(1)\<close> is the value \<open>SystemExit\<close>, and a loop that does not return
  is the value \<open>Diverges\<close>.
\<close>

datatype error =
    SystemExit
  | ZeroDivisionError
  | ValueError
  | IndexError
  | KeyError
  | TypeError
  | AttributeError
  | UnboundLocalError
  | ComplexResult
  | Diverges

type_synonym 'a result = "error + 'a"

definition and_then :: "'a result \<Rightarrow> ('a \<Rightarrow> 'b result) \<Rightarrow> 'b result" where
  "and_then m f = (case m of Inl e \<Rightarrow> Inl e | Inr v \<Rightarrow> f v)"

text \<open>An object that a parameter may hold before it is converted: the constructors
  receive strings, booleans, numbers or \<open>None\<close>.\<close>

datatype pyval = PyNone | PyBool bool | PyStr string | PyNum real

fun truthy :: "pyval \<Rightarrow> bool" where
  "truthy PyNone = False"
| "truthy (PyBool b) = b"
| "truthy (PyStr s) = (s \<noteq> [])"
| "truthy (PyNum x) = (x \<noteq> 0)"

text \<open>\<open>a / b\<close> on floats raises on a zero divisor.\<close>

definition py_div :: "real \<Rightarrow> real \<Rightarrow> real result" where
  "py_div a b = (if b = 0 then Inl ZeroDivisionError else Inr (a / b))"

text \<open>\<open>a // b\<close> on floats: the floor of the quotient, as a float.\<close>

definition py_floordiv :: "real \<Rightarrow> real \<Rightarrow> real result" where
  "py_floordiv a b = (if b = 0 then Inl ZeroDivisionError else Inr (of_int \<lfloor>a / b\<rfloor>))"

text \<open>\<open>math.sqrt\<close> raises \<open>ValueError\<close> on a negative argument.\<close>

definition py_sqrt :: "real \<Rightarrow> real result" where
  "py_sqrt x = (if x < 0 then Inl ValueError else Inr (sqrt x))"

text \<open>\<open>math.log\<close> raises \<open>ValueError\<close> unless the argument is positive.\<close>

definition py_log :: "real \<Rightarrow> real result" where
  "py_log x = (if x \<le> 0 then Inl ValueError else Inr (ln x))"

text \<open>
  \<open>x ** y\<close> with a float base.  A zero base with a negative exponent raises
  \<open>ZeroDivisionError\<close>; \<open>0.0 ** 0\<close> is \<open>1.0\<close>; a negative base has a real power
  only for an integral exponent, otherwise Python answers with a complex number, which
  the real-valued model records as \<open>ComplexResult\<close>.
\<close>

definition py_pow :: "real \<Rightarrow> real \<Rightarrow> real result" where
  "py_pow x y =
     (if 0 < x then Inr (x powr y)
      else if x = 0 then
        (if y < 0 then Inl ZeroDivisionError else if y = 0 then Inr 1 else Inr 0)
      else if y = of_int \<lfloor>y\<rfloor> then Inr (x powi \<lfloor>y\<rfloor>)
      else Inl ComplexResult)"

text \<open>Reading \<open>xs[i]\<close> for an index produced by \<open>range\<close> (never negative).\<close>

definition py_index :: "'a list \<Rightarrow> nat \<Rightarrow> 'a result" where
  "py_index xs i = (if i < length xs then Inr (xs ! i) else Inl IndexError)"

text \<open>A \<open>for\<close> loop whose body can raise: the first failure ends the loop.\<close>

fun for_each :: "('a \<Rightarrow> 's \<Rightarrow> 's result) \<Rightarrow> 'a list \<Rightarrow> 's \<Rightarrow> 's result" where
  "for_each body [] s = Inr s"
| "for_each body (x # xs) s = and_then (body x s) (for_each body xs)"

text \<open>Evaluating a list of computations in order, as a loop that appends does.\<close>

fun collect :: "'a result list \<Rightarrow> 'a list result" where
  "collect [] = Inr []"
| "collect (r # rs) = and_then r (\<lambda>v. and_then (collect rs) (\<lambda>vs. Inr (v # vs)))"


section \<open>Wafer process\<close>

record WaferProcess =
  name :: string
  wafer_diameter :: real
  edge_exclusion :: real
  wafer_process_yield :: real
  dicing_distance :: real
  reticle_x :: real
  reticle_y :: real
  wafer_fill_grid :: bool
  nre_front_end_cost_per_mm2_memory :: real
  nre_back_end_cost_per_mm2_memory :: real
  nre_front_end_cost_per_mm2_logic :: real
  nre_back_end_cost_per_mm2_logic :: real
  nre_front_end_cost_per_mm2_analog :: real
  nre_back_end_cost_per_mm2_analog :: real
  static :: bool

text \<open>Every setter returns its status code together with the object after the call.\<close>

definition WaferProcess_set_name :: "WaferProcess \<Rightarrow> string \<Rightarrow> int \<times> WaferProcess" where
  "WaferProcess_set_name self v =
     (if WaferProcess.static self then (1, self) else (0, self\<lparr>WaferProcess.name := v\<rparr>))"

definition WaferProcess_set_wafer_diameter :: "WaferProcess \<Rightarrow> real \<Rightarrow> int \<times> WaferProcess" where
  "WaferProcess_set_wafer_diameter self v =
     (if WaferProcess.static self then (1, self) else (0, self\<lparr>wafer_diameter := v\<rparr>))"

definition WaferProcess_set_edge_exclusion :: "WaferProcess \<Rightarrow> real \<Rightarrow> int \<times> WaferProcess" where
  "WaferProcess_set_edge_exclusion self v =
     (if WaferProcess.static self then (1, self)
      else (0, self\<lparr>WaferProcess.edge_exclusion := v\<rparr>))"

definition WaferProcess_set_wafer_process_yield ::
  "WaferProcess \<Rightarrow> real \<Rightarrow> int \<times> WaferProcess" where
  "WaferProcess_set_wafer_process_yield self v =
     (if WaferProcess.static self then (1, self)
      else if v < 0 \<or> v > 1 then (1, self)
      else (0, self\<lparr>wafer_process_yield := v\<rparr>))"

definition WaferProcess_set_dicing_distance :: "WaferProcess \<Rightarrow> real \<Rightarrow> int \<times> WaferProcess" where
  "WaferProcess_set_dicing_distance self v =
     (if WaferProcess.static self then (1, self) else (0, self\<lparr>dicing_distance := v\<rparr>))"

definition WaferProcess_set_reticle_x :: "WaferProcess \<Rightarrow> real \<Rightarrow> int \<times> WaferProcess" where
  "WaferProcess_set_reticle_x self v =
     (if WaferProcess.static self then (1, self) else (0, self\<lparr>reticle_x := v\<rparr>))"

definition WaferProcess_set_reticle_y :: "WaferProcess \<Rightarrow> real \<Rightarrow> int \<times> WaferProcess" where
  "WaferProcess_set_reticle_y self v =
     (if WaferProcess.static self then (1, self) else (0, self\<lparr>reticle_y := v\<rparr>))"

definition WaferProcess_set_wafer_fill_grid :: "WaferProcess \<Rightarrow> pyval \<Rightarrow> int \<times> WaferProcess" where
  "WaferProcess_set_wafer_fill_grid self v =
     (if WaferProcess.static self then (1, self)
      else if v = PyStr ''True'' \<or> v = PyStr ''true''
        then (0, self\<lparr>wafer_fill_grid := True\<rparr>)
        else (0, self\<lparr>wafer_fill_grid := False\<rparr>))"

definition WaferProcess_set_nre_front_end_cost_per_mm2_memory ::
  "WaferProcess \<Rightarrow> real \<Rightarrow> int \<times> WaferProcess" where
  "WaferProcess_set_nre_front_end_cost_per_mm2_memory self v =
     (if WaferProcess.static self then (1, self)
      else (0, self\<lparr>nre_front_end_cost_per_mm2_memory := v\<rparr>))"

definition WaferProcess_set_nre_back_end_cost_per_mm2_memory ::
  "WaferProcess \<Rightarrow> real \<Rightarrow> int \<times> WaferProcess" where
  "WaferProcess_set_nre_back_end_cost_per_mm2_memory self v =
     (if WaferProcess.static self then (1, self)
      else (0, self\<lparr>nre_back_end_cost_per_mm2_memory := v\<rparr>))"

definition WaferProcess_set_nre_front_end_cost_per_mm2_logic ::
  "WaferProcess \<Rightarrow> real \<Rightarrow> int \<times> WaferProcess" where
  "WaferProcess_set_nre_front_end_cost_per_mm2_logic self v =
     (if WaferProcess.static self then (1, self)
      else (0, self\<lparr>nre_front_end_cost_per_mm2_logic := v\<rparr>))"

definition WaferProcess_set_nre_back_end_cost_per_mm2_logic ::
  "WaferProcess \<Rightarrow> real \<Rightarrow> int \<times> WaferProcess" where
  "WaferProcess_set_nre_back_end_cost_per_mm2_logic self v =
     (if WaferProcess.static self then (1, self)
      else (0, self\<lparr>nre_back_end_cost_per_mm2_logic := v\<rparr>))"

definition WaferProcess_set_nre_front_end_cost_per_mm2_analog ::
  "WaferProcess \<Rightarrow> real \<Rightarrow> int \<times> WaferProcess" where
  "WaferProcess_set_nre_front_end_cost_per_mm2_analog self v =
     (if WaferProcess.static self then (1, self)
      else (0, self\<lparr>nre_front_end_cost_per_mm2_analog := v\<rparr>))"

definition WaferProcess_set_nre_back_end_cost_per_mm2_analog ::
  "WaferProcess \<Rightarrow> real \<Rightarrow> int \<times> WaferProcess" where
  "WaferProcess_set_nre_back_end_cost_per_mm2_analog self v =
     (if WaferProcess.static self then (1, self)
      else (0, self\<lparr>nre_back_end_cost_per_mm2_analog := v\<rparr>))"


section \<open>Process layer\<close>

record Layer =
  name :: string
  active :: bool
  cost_per_mm2 :: real
  defect_density :: real
  critical_area_ratio :: real
  clustering_factor :: real
  litho_percent :: real
  mask_cost :: real
  stitching_yield :: real
  static :: bool

definition Layer_set_name :: "Layer \<Rightarrow> string \<Rightarrow> int \<times> Layer" where
  "Layer_set_name self v =
     (if Layer.static self then (1, self) else (0, self\<lparr>Layer.name := v\<rparr>))"

definition Layer_set_active :: "Layer \<Rightarrow> bool \<Rightarrow> int \<times> Layer" where
  "Layer_set_active self v =
     (if Layer.static self then (1, self) else (0, self\<lparr>active := v\<rparr>))"

definition Layer_set_cost_per_mm2 :: "Layer \<Rightarrow> real \<Rightarrow> int \<times> Layer" where
  "Layer_set_cost_per_mm2 self v =
     (if Layer.static self then (1, self) else (0, self\<lparr>cost_per_mm2 := v\<rparr>))"

definition Layer_set_defect_density :: "Layer \<Rightarrow> real \<Rightarrow> int \<times> Layer" where
  "Layer_set_defect_density self v =
     (if Layer.static self then (1, self) else (0, self\<lparr>defect_density := v\<rparr>))"

definition Layer_set_critical_area_ratio :: "Layer \<Rightarrow> real \<Rightarrow> int \<times> Layer" where
  "Layer_set_critical_area_ratio self v =
     (if Layer.static self then (1, self) else (0, self\<lparr>critical_area_ratio := v\<rparr>))"

definition Layer_set_clustering_factor :: "Layer \<Rightarrow> real \<Rightarrow> int \<times> Layer" where
  "Layer_set_clustering_factor self v =
     (if Layer.static self then (1, self) else (0, self\<lparr>clustering_factor := v\<rparr>))"

definition Layer_set_litho_percent :: "Layer \<Rightarrow> real \<Rightarrow> int \<times> Layer" where
  "Layer_set_litho_percent self v =
     (if Layer.static self then (1, self) else (0, self\<lparr>litho_percent := v\<rparr>))"

definition Layer_set_mask_cost :: "Layer \<Rightarrow> real \<Rightarrow> int \<times> Layer" where
  "Layer_set_mask_cost self v =
     (if Layer.static self then (1, self) else (0, self\<lparr>mask_cost := v\<rparr>))"

definition Layer_set_stitching_yield :: "Layer \<Rightarrow> real \<Rightarrow> int \<times> Layer" where
  "Layer_set_stitching_yield self v =
     (if Layer.static self then (1, self) else (0, self\<lparr>stitching_yield := v\<rparr>))"

subsection \<open>Layer yield\<close>

definition layer_yield :: "Layer \<Rightarrow> real \<Rightarrow> real result" where
  "layer_yield self area =
     (let num_stitches = (0::int) in
      and_then (py_div (defect_density self * area * critical_area_ratio self)
                       (clustering_factor self)) (\<lambda>q.
      and_then (py_pow (1 + q) (-1 * clustering_factor self)) (\<lambda>defect_yield.
      and_then (py_pow (stitching_yield self) (of_int num_stitches)) (\<lambda>stitching_yield.
      Inr (stitching_yield * defect_yield)))))"

subsection \<open>Reticle utilization\<close>

text \<open>The loop \<open>while reticle_area < area: reticle_area += reticle_x*reticle_y\<close>.  It
  does not return when the reticle has no positive area and is smaller than the chip.\<close>

partial_function (option) grow_reticle_area :: "real \<Rightarrow> real \<Rightarrow> real \<Rightarrow> real option" where
  "grow_reticle_area reticle_area area step =
     (if reticle_area < area then grow_reticle_area (reticle_area + step) area step
      else Some reticle_area)"

definition reticle_utilization :: "Layer \<Rightarrow> real \<Rightarrow> real \<Rightarrow> real \<Rightarrow> real result" where
  "reticle_utilization self area reticle_x' reticle_y' =
     (case grow_reticle_area (reticle_x' * reticle_y') area (reticle_x' * reticle_y') of
        None \<Rightarrow> Inl Diverges
      | Some reticle_area \<Rightarrow>
          and_then (py_floordiv reticle_area area) (\<lambda>number_chips_in_reticle.
          let unutilized_reticle = reticle_area - number_chips_in_reticle * area in
          py_div (reticle_area - unutilized_reticle) reticle_area))"

subsection \<open>Cost per square millimetre: dies on a wafer\<close>

text \<open>
  The body of both row loops after the chord has been computed.  The state is the number
  of squares counted so far and \<open>starting_distance_from_left\<close> (\<open>None\<close> until the
  first grid row has been placed).
\<close>

definition add_row ::
  "bool \<Rightarrow> real \<Rightarrow> real \<Rightarrow> real \<Rightarrow> int \<times> real option \<Rightarrow> (int \<times> real option) result" where
  "add_row grid_fill usable_wafer_diameter square_side chord_length st =
     (case st of (num_squares, starting_distance_from_left) \<Rightarrow>
      if \<not> grid_fill then
        and_then (py_div chord_length square_side) (\<lambda>q.
        Inr (num_squares + 2 * \<lfloor>q\<rfloor>, starting_distance_from_left))
      else
        (case starting_distance_from_left of
           None \<Rightarrow>
             and_then (py_div chord_length square_side) (\<lambda>q.
             Inr (num_squares + 2 * \<lfloor>q\<rfloor>, Some ((usable_wafer_diameter - chord_length) / 2)))
         | Some sdl \<Rightarrow>
             (let location_of_first_fit_candidate = (usable_wafer_diameter - chord_length) / 2 in
              and_then (py_div (location_of_first_fit_candidate - sdl) square_side) (\<lambda>q1.
              let starting_location = of_int \<lceil>q1\<rceil> * square_side + sdl;
                  effective_cord_length =
                    chord_length - (starting_location - location_of_first_fit_candidate) in
              and_then (py_div effective_cord_length square_side) (\<lambda>q2.
              Inr (num_squares + 2 * \<lfloor>q2\<rfloor>, Some sdl))))))"

definition chord :: "real \<Rightarrow> real \<Rightarrow> real result" where
  "chord usable_wafer_diameter row_chord_height =
     and_then (py_sqrt ((usable_wafer_diameter / 2)\<^sup>2 - row_chord_height\<^sup>2)) (\<lambda>r. Inr (r * 2))"

text \<open>Case 1, rows centred on the diameter: the loop resets
  \<open>starting_distance_from_left\<close> to \<open>None\<close> at the start of every iteration.\<close>

partial_function (option) rows_case_1 ::
  "bool \<Rightarrow> real \<Rightarrow> real \<Rightarrow> real \<Rightarrow> int \<times> real option \<Rightarrow> (int \<times> real option) result option"
where
  "rows_case_1 grid_fill usable_wafer_diameter square_side row_chord_height st =
     (if row_chord_height < usable_wafer_diameter / 2 then
        (case and_then (chord usable_wafer_diameter row_chord_height) (\<lambda>chord_length.
                add_row grid_fill usable_wafer_diameter square_side chord_length (fst st, None)) of
           Inl e \<Rightarrow> Some (Inl e)
         | Inr st' \<Rightarrow>
             rows_case_1 grid_fill usable_wafer_diameter square_side
               (row_chord_height + square_side) st')
      else Some (Inr st))"

text \<open>Case 2, rows above and below the diameter: the starting distance is kept from
  one row to the next.\<close>

partial_function (option) rows_case_2 ::
  "bool \<Rightarrow> real \<Rightarrow> real \<Rightarrow> real \<Rightarrow> int \<times> real option \<Rightarrow> (int \<times> real option) result option"
where
  "rows_case_2 grid_fill usable_wafer_diameter square_side row_chord_height st =
     (if row_chord_height < usable_wafer_diameter / 2 then
        (case and_then (chord usable_wafer_diameter row_chord_height) (\<lambda>chord_length.
                add_row grid_fill usable_wafer_diameter square_side chord_length st) of
           Inl e \<Rightarrow> Some (Inl e)
         | Inr st' \<Rightarrow>
             rows_case_2 grid_fill usable_wafer_diameter square_side
               (row_chord_height + square_side) st')
      else Some (Inr st))"

definition run_loop :: "'a result option \<Rightarrow> 'a result" where
  "run_loop r = (case r of None \<Rightarrow> Inl Diverges | Some v \<Rightarrow> v)"

definition compute_cost_per_mm2 :: "Layer \<Rightarrow> real \<Rightarrow> WaferProcess \<Rightarrow> real result" where
  "compute_cost_per_mm2 self square_area wafer_process =
     (let wafer_diameter = WaferProcess.wafer_diameter wafer_process;
          grid_fill = wafer_fill_grid wafer_process;
          usable_wafer_diameter = wafer_diameter - 2 * WaferProcess.edge_exclusion wafer_process in
      and_then (py_sqrt square_area) (\<lambda>root.
      let square_side = root + dicing_distance wafer_process in
      if square_side * sqrt 2 > usable_wafer_diameter / 2 then Inr 1000000000
      else
        and_then (chord usable_wafer_diameter (square_side / 2)) (\<lambda>chord_length_1.
        and_then (py_div chord_length_1 square_side) (\<lambda>q1.
        and_then (run_loop (rows_case_1 grid_fill usable_wafer_diameter square_side
                     (square_side / 2 + square_side) (\<lfloor>q1\<rfloor>, None))) (\<lambda>st1.
        let num_squares_case_1 = fst st1 in
        and_then (chord usable_wafer_diameter square_side) (\<lambda>chord_length_2.
        and_then (py_div chord_length_2 square_side) (\<lambda>q2.
        and_then (run_loop (rows_case_2 grid_fill usable_wafer_diameter square_side
                     (square_side + square_side) (2 * \<lfloor>q2\<rfloor>, None))) (\<lambda>st2.
        let num_squares_case_2 = fst st2;
            num_squares = max num_squares_case_1 num_squares_case_2 in
        if square_area = 0 then Inl SystemExit
        else if num_squares = 0 then Inl SystemExit
        else
          let used_area = of_int num_squares * square_area;
              circle_area = pi * (wafer_diameter / 2)\<^sup>2 in
          py_div (cost_per_mm2 self * circle_area) used_area))))))))"

subsection \<open>Layer cost\<close>

definition layer_cost :: "Layer \<Rightarrow> real \<Rightarrow> WaferProcess \<Rightarrow> real result" where
  "layer_cost self area wafer_process =
     (if area = 0 then Inr 0
      else if area > 0 then
        and_then (compute_cost_per_mm2 self area wafer_process) (\<lambda>c.
        let layer_cost = area * c in
        and_then
          (if litho_percent self = 0 then Inr 1
           else if litho_percent self > 0 then
             reticle_utilization self area (reticle_x wafer_process) (reticle_y wafer_process)
           else Inl SystemExit) (\<lambda>reticle_utilization.
        and_then (py_div (layer_cost * litho_percent self) reticle_utilization) (\<lambda>scaled.
        Inr (layer_cost * (1 - litho_percent self) + scaled))))
      else Inl SystemExit)"


section \<open>Interconnect types\<close>

text \<open>The field \<open>bidirectional\<close> holds whatever object was stored in it.\<close>

record IO =
  type :: string
  rx_area :: real
  tx_area :: real
  shoreline :: real
  bandwidth :: real
  wire_count :: int
  bidirectional :: pyval
  energy_per_bit :: real
  reach :: real
  static :: bool

text \<open>
  The constructor.  A parameter left at its default is \<open>None\<close>.  The boolean parsed
  from \<open>bidirectional\<close> is stored first and then overwritten by the parameter itself.
  When a parameter is \<open>None\<close> the warning that is printed reads \<open>self.area\<close>, an
  attribute no \<open>IO\<close> has, so that the call raises \<open>AttributeError\<close>.
\<close>

definition IO_init ::
  "string option \<Rightarrow> real option \<Rightarrow> real option \<Rightarrow> real option \<Rightarrow> real option \<Rightarrow> int option
     \<Rightarrow> pyval \<Rightarrow> real option \<Rightarrow> real option \<Rightarrow> bool \<Rightarrow> IO result" where
  "IO_init type' rx_area' tx_area' shoreline' bandwidth' wire_count' bidirectional'
      energy_per_bit' reach' static' =
     (if type' = None \<or> rx_area' = None \<or> tx_area' = None \<or> shoreline' = None
         \<or> bandwidth' = None \<or> wire_count' = None \<or> bidirectional' = PyNone
         \<or> energy_per_bit' = None \<or> reach' = None
      then Inl AttributeError
      else
        let parsed = (if bidirectional' = PyStr ''True'' \<or> bidirectional' = PyStr ''true''
                      then PyBool True else PyBool False);
            self = \<lparr>IO.type = the type', rx_area = the rx_area', tx_area = the tx_area',
                    shoreline = the shoreline', bandwidth = the bandwidth',
                    wire_count = the wire_count', bidirectional = parsed,
                    energy_per_bit = the energy_per_bit', reach = the reach',
                    IO.static = static'\<rparr>
        in Inr (self\<lparr>bidirectional := bidirectional'\<rparr>))"

definition get_bidirectional :: "IO \<Rightarrow> pyval" where
  "get_bidirectional self = bidirectional self"

definition IO_set_type :: "IO \<Rightarrow> string \<Rightarrow> int \<times> IO" where
  "IO_set_type self v =
     (if IO.static self then (1, self) else (0, self\<lparr>IO.type := v\<rparr>))"

definition IO_set_rx_area :: "IO \<Rightarrow> real \<Rightarrow> int \<times> IO" where
  "IO_set_rx_area self v =
     (if IO.static self then (1, self) else (0, self\<lparr>rx_area := v\<rparr>))"

definition IO_set_tx_area :: "IO \<Rightarrow> real \<Rightarrow> int \<times> IO" where
  "IO_set_tx_area self v =
     (if IO.static self then (1, self) else (0, self\<lparr>tx_area := v\<rparr>))"

definition IO_set_shoreline :: "IO \<Rightarrow> real \<Rightarrow> int \<times> IO" where
  "IO_set_shoreline self v =
     (if IO.static self then (1, self) else (0, self\<lparr>shoreline := v\<rparr>))"

definition IO_set_bandwidth :: "IO \<Rightarrow> real \<Rightarrow> int \<times> IO" where
  "IO_set_bandwidth self v =
     (if IO.static self then (1, self) else (0, self\<lparr>bandwidth := v\<rparr>))"

definition IO_set_wire_count :: "IO \<Rightarrow> int \<Rightarrow> int \<times> IO" where
  "IO_set_wire_count self v =
     (if IO.static self then (1, self) else (0, self\<lparr>wire_count := v\<rparr>))"

definition IO_set_bidirectional :: "IO \<Rightarrow> pyval \<Rightarrow> int \<times> IO" where
  "IO_set_bidirectional self v =
     (if IO.static self then (1, self)
      else if v = PyStr ''True'' \<or> v = PyStr ''true''
        then (0, self\<lparr>bidirectional := PyBool True\<rparr>)
        else (0, self\<lparr>bidirectional := PyBool False\<rparr>))"

definition IO_set_energy_per_bit :: "IO \<Rightarrow> real \<Rightarrow> int \<times> IO" where
  "IO_set_energy_per_bit self v =
     (if IO.static self then (1, self) else (0, self\<lparr>energy_per_bit := v\<rparr>))"

definition IO_set_reach :: "IO \<Rightarrow> real \<Rightarrow> int \<times> IO" where
  "IO_set_reach self v =
     (if IO.static self then (1, self) else (0, self\<lparr>reach := v\<rparr>))"


section \<open>Assembly process\<close>

text \<open>
  The numeric attributes have type \<open>'r\<close>: \<open>real\<close> for a process whose attributes
  are all defined (what the definition-file reader produces and what the computations
  read), \<open>real option\<close> for the raw arguments of the constructor, where \<open>None\<close> is a
  parameter left at its default.  The two costs per second are \<open>None\<close> until computed.
\<close>

record 'r Assembly =
  name :: string
  materials_cost_per_mm2 :: "'r"
  picknplace_machine_cost :: "'r"
  picknplace_machine_lifetime :: "'r"
  picknplace_machine_uptime :: "'r"
  picknplace_technician_yearly_cost :: "'r"
  picknplace_time :: "'r"
  picknplace_group :: "'r"
  bonding_machine_cost :: "'r"
  bonding_machine_lifetime :: "'r"
  bonding_machine_uptime :: "'r"
  bonding_machine_technician_yearly_cost :: "'r"
  bonding_time :: "'r"
  bonding_group :: "'r"
  die_separation :: "'r"
  edge_exclusion :: "'r"
  max_pad_current_density :: "'r"
  bonding_pitch :: "'r"
  picknplace_cost_per_second :: "real option"
  bonding_cost_per_second :: "real option"
  bonding_yield :: "'r"
  alignment_yield :: "'r"
  dielectric_bond_defect_density :: "'r"
  static :: bool

definition Assembly_set_name ::
  "'r Assembly \<Rightarrow> string \<Rightarrow> int \<times> 'r Assembly" where
  "Assembly_set_name self v =
     (if Assembly.static self then (1, self) else (0, self\<lparr>Assembly.name := v\<rparr>))"

definition Assembly_set_materials_cost_per_mm2 ::
  "'r Assembly \<Rightarrow> 'r \<Rightarrow> int \<times> 'r Assembly" where
  "Assembly_set_materials_cost_per_mm2 self v =
     (if Assembly.static self then (1, self) else (0, self\<lparr>materials_cost_per_mm2 := v\<rparr>))"

definition Assembly_set_picknplace_machine_cost ::
  "'r Assembly \<Rightarrow> 'r \<Rightarrow> int \<times> 'r Assembly" where
  "Assembly_set_picknplace_machine_cost self v =
     (if Assembly.static self then (1, self) else (0, self\<lparr>picknplace_machine_cost := v\<rparr>))"

definition Assembly_set_picknplace_machine_lifetime ::
  "'r Assembly \<Rightarrow> 'r \<Rightarrow> int \<times> 'r Assembly" where
  "Assembly_set_picknplace_machine_lifetime self v =
     (if Assembly.static self then (1, self) else (0, self\<lparr>picknplace_machine_lifetime := v\<rparr>))"

definition Assembly_set_picknplace_machine_uptime ::
  "'r Assembly \<Rightarrow> 'r \<Rightarrow> int \<times> 'r Assembly" where
  "Assembly_set_picknplace_machine_uptime self v =
     (if Assembly.static self then (1, self) else (0, self\<lparr>picknplace_machine_uptime := v\<rparr>))"

definition Assembly_set_picknplace_technician_yearly_cost ::
  "'r Assembly \<Rightarrow> 'r \<Rightarrow> int \<times> 'r Assembly" where
  "Assembly_set_picknplace_technician_yearly_cost self v =
     (if Assembly.static self then (1, self) else (0, self\<lparr>picknplace_technician_yearly_cost := v\<rparr>))"

definition Assembly_set_picknplace_time ::
  "'r Assembly \<Rightarrow> 'r \<Rightarrow> int \<times> 'r Assembly" where
  "Assembly_set_picknplace_time self v =
     (if Assembly.static self then (1, self) else (0, self\<lparr>picknplace_time := v\<rparr>))"

definition Assembly_set_picknplace_group ::
  "'r Assembly \<Rightarrow> 'r \<Rightarrow> int \<times> 'r Assembly" where
  "Assembly_set_picknplace_group self v =
     (if Assembly.static self then (1, self) else (0, self\<lparr>picknplace_group := v\<rparr>))"

definition Assembly_set_bonding_machine_cost ::
  "'r Assembly \<Rightarrow> 'r \<Rightarrow> int \<times> 'r Assembly" where
  "Assembly_set_bonding_machine_cost self v =
     (if Assembly.static self then (1, self) else (0, self\<lparr>bonding_machine_cost := v\<rparr>))"

definition Assembly_set_bonding_machine_lifetime ::
  "'r Assembly \<Rightarrow> 'r \<Rightarrow> int \<times> 'r Assembly" where
  "Assembly_set_bonding_machine_lifetime self v =
     (if Assembly.static self then (1, self) else (0, self\<lparr>bonding_machine_lifetime := v\<rparr>))"

definition Assembly_set_bonding_machine_uptime ::
  "'r Assembly \<Rightarrow> 'r \<Rightarrow> int \<times> 'r Assembly" where
  "Assembly_set_bonding_machine_uptime self v =
     (if Assembly.static self then (1, self) else (0, self\<lparr>bonding_machine_uptime := v\<rparr>))"

definition Assembly_set_bonding_technician_yearly_cost ::
  "'r Assembly \<Rightarrow> 'r \<Rightarrow> int \<times> 'r Assembly" where
  "Assembly_set_bonding_technician_yearly_cost self v =
     (if Assembly.static self then (1, self)
      else (0, self\<lparr>bonding_machine_technician_yearly_cost := v\<rparr>))"

definition Assembly_set_bonding_time ::
  "'r Assembly \<Rightarrow> 'r \<Rightarrow> int \<times> 'r Assembly" where
  "Assembly_set_bonding_time self v =
     (if Assembly.static self then (1, self) else (0, self\<lparr>bonding_time := v\<rparr>))"

definition Assembly_set_bonding_group ::
  "'r Assembly \<Rightarrow> 'r \<Rightarrow> int \<times> 'r Assembly" where
  "Assembly_set_bonding_group self v =
     (if Assembly.static self then (1, self) else (0, self\<lparr>bonding_group := v\<rparr>))"

definition Assembly_set_die_separation ::
  "'r Assembly \<Rightarrow> 'r \<Rightarrow> int \<times> 'r Assembly" where
  "Assembly_set_die_separation self v =
     (if Assembly.static self then (1, self) else (0, self\<lparr>die_separation := v\<rparr>))"

definition Assembly_set_edge_exclusion ::
  "'r Assembly \<Rightarrow> 'r \<Rightarrow> int \<times> 'r Assembly" where
  "Assembly_set_edge_exclusion self v =
     (if Assembly.static self then (1, self) else (0, self\<lparr>Assembly.edge_exclusion := v\<rparr>))"

definition Assembly_set_bonding_pitch ::
  "'r Assembly \<Rightarrow> 'r \<Rightarrow> int \<times> 'r Assembly" where
  "Assembly_set_bonding_pitch self v =
     (if Assembly.static self then (1, self) else (0, self\<lparr>bonding_pitch := v\<rparr>))"

definition Assembly_set_max_pad_current_density ::
  "'r Assembly \<Rightarrow> 'r \<Rightarrow> int \<times> 'r Assembly" where
  "Assembly_set_max_pad_current_density self v =
     (if Assembly.static self then (1, self) else (0, self\<lparr>max_pad_current_density := v\<rparr>))"

definition Assembly_set_alignment_yield ::
  "'r Assembly \<Rightarrow> 'r \<Rightarrow> int \<times> 'r Assembly" where
  "Assembly_set_alignment_yield self v =
     (if Assembly.static self then (1, self) else (0, self\<lparr>alignment_yield := v\<rparr>))"

definition Assembly_set_bonding_yield ::
  "'r Assembly \<Rightarrow> 'r \<Rightarrow> int \<times> 'r Assembly" where
  "Assembly_set_bonding_yield self v =
     (if Assembly.static self then (1, self) else (0, self\<lparr>bonding_yield := v\<rparr>))"

definition Assembly_set_dielectric_bond_defect_density ::
  "'r Assembly \<Rightarrow> 'r \<Rightarrow> int \<times> 'r Assembly" where
  "Assembly_set_dielectric_bond_defect_density self v =
     (if Assembly.static self then (1, self) else (0, self\<lparr>dielectric_bond_defect_density := v\<rparr>))"
text \<open>The setters that recompute a cached cost take no value and do not look at
  \<open>static\<close>; the computation they call can raise.\<close>

text \<open>\<open>float_of\<close> reads the float held in an attribute: the attribute itself for a
  defined process, \<open>TypeError\<close> for \<open>None\<close> in raw constructor arguments.\<close>

definition need :: "real option \<Rightarrow> real result" where
  "need v = (case v of None \<Rightarrow> Inl TypeError | Some x \<Rightarrow> Inr x)"

definition cost_per_second_of ::
  "('r \<Rightarrow> real result) \<Rightarrow> 'r \<Rightarrow> 'r \<Rightarrow> 'r \<Rightarrow> 'r \<Rightarrow> real result" where
  "cost_per_second_of float_of machine_cost machine_lifetime technician_yearly_cost machine_uptime =
     and_then (float_of machine_cost) (\<lambda>cost.
     and_then (float_of machine_lifetime) (\<lambda>lifetime.
     and_then (py_div cost lifetime) (\<lambda>machine_cost_per_year.
     and_then (float_of technician_yearly_cost) (\<lambda>technician_cost_per_year.
     let cost_per_year = machine_cost_per_year + technician_cost_per_year in
     and_then (float_of machine_uptime) (\<lambda>uptime.
     Inr (cost_per_year / (365 * 24 * 60 * 60) * uptime))))))"

definition compute_picknplace_cost_per_second_of ::
  "('r \<Rightarrow> real result) \<Rightarrow> 'r Assembly \<Rightarrow> (real \<times> 'r Assembly) result" where
  "compute_picknplace_cost_per_second_of float_of self =
     and_then (cost_per_second_of float_of (picknplace_machine_cost self)
                 (picknplace_machine_lifetime self) (picknplace_technician_yearly_cost self)
                 (picknplace_machine_uptime self)) (\<lambda>picknplace_cost_per_second.
     Inr (picknplace_cost_per_second,
          self\<lparr>picknplace_cost_per_second := Some picknplace_cost_per_second\<rparr>))"

definition compute_bonding_cost_per_second_of ::
  "('r \<Rightarrow> real result) \<Rightarrow> 'r Assembly \<Rightarrow> (real \<times> 'r Assembly) result" where
  "compute_bonding_cost_per_second_of float_of self =
     and_then (cost_per_second_of float_of (bonding_machine_cost self)
                 (bonding_machine_lifetime self) (bonding_machine_technician_yearly_cost self)
                 (bonding_machine_uptime self)) (\<lambda>bonding_cost_per_second.
     Inr (bonding_cost_per_second,
          self\<lparr>bonding_cost_per_second := Some bonding_cost_per_second\<rparr>))"

definition compute_picknplace_cost_per_second ::
  "real Assembly \<Rightarrow> (real \<times> real Assembly) result" where
  "compute_picknplace_cost_per_second = compute_picknplace_cost_per_second_of Inr"

definition compute_bonding_cost_per_second ::
  "real Assembly \<Rightarrow> (real \<times> real Assembly) result" where
  "compute_bonding_cost_per_second = compute_bonding_cost_per_second_of Inr"

text \<open>The getters fill the cache on first use and return the cached value.\<close>

definition get_picknplace_cost_per_second ::
  "real Assembly \<Rightarrow> (real \<times> real Assembly) result" where
  "get_picknplace_cost_per_second self =
     (case picknplace_cost_per_second self of
        None \<Rightarrow> compute_picknplace_cost_per_second self
      | Some v \<Rightarrow> Inr (v, self))"

definition get_bonding_cost_per_second ::
  "real Assembly \<Rightarrow> (real \<times> real Assembly) result" where
  "get_bonding_cost_per_second self =
     (case bonding_cost_per_second self of
        None \<Rightarrow> compute_bonding_cost_per_second self
      | Some v \<Rightarrow> Inr (v, self))"

definition Assembly_set_picknplace_cost_per_second ::
  "real Assembly \<Rightarrow> (int \<times> real Assembly) result" where
  "Assembly_set_picknplace_cost_per_second self =
     and_then (compute_picknplace_cost_per_second self) (\<lambda>(v, self').
     Inr (0, self'\<lparr>picknplace_cost_per_second := Some v\<rparr>))"

definition Assembly_set_bonding_cost_per_second ::
  "real Assembly \<Rightarrow> (int \<times> real Assembly) result" where
  "Assembly_set_bonding_cost_per_second self =
     and_then (compute_bonding_cost_per_second self) (\<lambda>(v, self').
     Inr (0, self'\<lparr>bonding_cost_per_second := Some v\<rparr>))"

definition Assembly_set_static :: "'r Assembly \<Rightarrow> int \<times> 'r Assembly" where
  "Assembly_set_static self = (0, self\<lparr>Assembly.static := True\<rparr>)"

subsection \<open>The constructor\<close>

text \<open>
  The argument is the object after the plain assignments \<open>self.x = x\<close> of the
  constructor, \<open>static\<close> included.  The completeness test that follows is a chain of
  \<open>or\<close>, evaluated from the left until one operand is true.  Its second to fifth
  operands read \<open>machine_cost_list\<close>, \<open>machine_lifetime_list\<close>,
  \<open>machine_uptime_list\<close> and \<open>technician_yearly_cost_list\<close>, whose assignments
  are commented out: no \<open>Assembly\<close> has these attributes.
\<close>

definition unassigned_list_attribute :: "'r Assembly \<Rightarrow> real list result" where
  "unassigned_list_attribute self = Inl AttributeError"

definition Assembly_not_fully_defined :: "real option Assembly \<Rightarrow> bool result" where
  "Assembly_not_fully_defined self =
     (if Assembly.name self = '''' then Inr True
      else and_then (unassigned_list_attribute self) (\<lambda>machine_cost_list.
      if machine_cost_list = [] then Inr True
      else and_then (unassigned_list_attribute self) (\<lambda>machine_lifetime_list.
      if machine_lifetime_list = [] then Inr True
      else and_then (unassigned_list_attribute self) (\<lambda>machine_uptime_list.
      if machine_uptime_list = [] then Inr True
      else and_then (unassigned_list_attribute self) (\<lambda>technician_yearly_cost_list.
      if technician_yearly_cost_list = [] then Inr True
      else Inr (materials_cost_per_mm2 self = None \<or> picknplace_time self = None
                \<or> picknplace_group self = None \<or> bonding_time self = None
                \<or> bonding_group self = None))))))"

definition Assembly_init_branches :: "bool \<Rightarrow> real option Assembly \<Rightarrow> real option Assembly result" where
  "Assembly_init_branches not_fully_defined self =
     (if not_fully_defined then Inr (self\<lparr>Assembly.static := False\<rparr>)
      else
        and_then (compute_picknplace_cost_per_second_of need self) (\<lambda>(_, self).
        and_then (compute_bonding_cost_per_second_of need self) (\<lambda>(_, self).
        Inr (self\<lparr>Assembly.static := False\<rparr>))))"

definition Assembly_init :: "real option Assembly \<Rightarrow> real option Assembly result" where
  "Assembly_init args =
     (let self = args\<lparr>picknplace_cost_per_second := None, bonding_cost_per_second := None\<rparr> in
      and_then (Assembly_not_fully_defined self) (\<lambda>not_fully_defined.
      Assembly_init_branches not_fully_defined self))"

subsection \<open>Assembly time, cost and yield\<close>

definition compute_picknplace_time :: "real Assembly \<Rightarrow> real \<Rightarrow> real result" where
  "compute_picknplace_time self n_chips =
     and_then (py_div n_chips (picknplace_group self)) (\<lambda>q.
     let picknplace_steps = \<lceil>q\<rceil> in
     Inr (picknplace_time self * of_int picknplace_steps))"

definition compute_bonding_time :: "real Assembly \<Rightarrow> real \<Rightarrow> real result" where
  "compute_bonding_time self n_chips =
     and_then (py_div n_chips (bonding_group self)) (\<lambda>q.
     let bonding_steps = \<lceil>q\<rceil> in
     Inr (bonding_time self * of_int bonding_steps))"

text \<open>The cost reads both costs per second through their getters; the cache that the
  getters fill is passed on inside the function, and only the cost is returned.\<close>

definition assembly_cost :: "real Assembly \<Rightarrow> real \<Rightarrow> real \<Rightarrow> real result" where
  "assembly_cost self n_chips area =
     and_then (get_picknplace_cost_per_second self) (\<lambda>(picknplace_rate, self).
     and_then (compute_picknplace_time self n_chips) (\<lambda>picknplace_time.
     and_then (get_bonding_cost_per_second self) (\<lambda>(bonding_rate, self).
     and_then (compute_bonding_time self n_chips) (\<lambda>bonding_time.
     let assembly_cost = picknplace_rate * picknplace_time + bonding_rate * bonding_time in
     Inr (assembly_cost + materials_cost_per_mm2 self * area)))))"

definition assembly_yield :: "real Assembly \<Rightarrow> real \<Rightarrow> real \<Rightarrow> real \<Rightarrow> real result" where
  "assembly_yield self n_chips n_bonds area =
     (let assem_yield = 1 in
      and_then (py_pow (alignment_yield self) n_chips) (\<lambda>a.
      let assem_yield = assem_yield * a in
      and_then (py_pow (bonding_yield self) n_bonds) (\<lambda>b.
      let assem_yield = assem_yield * b;
          dielectric_bond_area = area;
          dielectric_bond_yield = 1 - dielectric_bond_defect_density self * dielectric_bond_area
      in Inr (assem_yield * dielectric_bond_yield))))"

definition get_power_per_pad :: "real Assembly \<Rightarrow> real \<Rightarrow> real" where
  "get_power_per_pad self core_voltage =
     (let pad_area = pi * (bonding_pitch self / 4)\<^sup>2;
          current_per_pad = max_pad_current_density self * pad_area
      in current_per_pad * core_voltage)"

section \<open>Test process\<close>

record Test =
  name :: string
  static :: bool
  test_self :: bool
  test_assembly :: bool
  self_defect_coverage :: real
  assembly_defect_coverage :: real
  self_test_cost_per_mm2 :: real
  assembly_test_cost_per_mm2 :: real
  self_pattern_count :: int
  assembly_pattern_count :: int
  self_test_failure_dist :: int
  assembly_test_failure_dist :: int

definition Test_set_name :: "Test \<Rightarrow> string \<Rightarrow> int \<times> Test" where
  "Test_set_name self v =
     (if Test.static self then (1, self) else (0, self\<lparr>Test.name := v\<rparr>))"

definition Test_set_test_self :: "Test \<Rightarrow> bool \<Rightarrow> int \<times> Test" where
  "Test_set_test_self self v =
     (if Test.static self then (1, self) else (0, self\<lparr>test_self := v\<rparr>))"

definition Test_set_test_assembly ::
  "Test \<Rightarrow> bool \<Rightarrow> int \<times> Test" where
  "Test_set_test_assembly self v =
     (if Test.static self then (1, self) else (0, self\<lparr>test_assembly := v\<rparr>))"

definition Test_set_self_defect_coverage ::
  "Test \<Rightarrow> real \<Rightarrow> int \<times> Test" where
  "Test_set_self_defect_coverage self v =
     (if Test.static self then (1, self) else (0, self\<lparr>self_defect_coverage := v\<rparr>))"

definition Test_set_assembly_defect_coverage ::
  "Test \<Rightarrow> real \<Rightarrow> int \<times> Test" where
  "Test_set_assembly_defect_coverage self v =
     (if Test.static self then (1, self) else (0, self\<lparr>assembly_defect_coverage := v\<rparr>))"

definition Test_set_self_test_cost_per_mm2 ::
  "Test \<Rightarrow> real \<Rightarrow> int \<times> Test" where
  "Test_set_self_test_cost_per_mm2 self v =
     (if Test.static self then (1, self) else (0, self\<lparr>self_test_cost_per_mm2 := v\<rparr>))"

definition Test_set_assembly_test_cost_per_mm2 ::
  "Test \<Rightarrow> real \<Rightarrow> int \<times> Test" where
  "Test_set_assembly_test_cost_per_mm2 self v =
     (if Test.static self then (1, self) else (0, self\<lparr>assembly_test_cost_per_mm2 := v\<rparr>))"

definition Test_set_self_pattern_count ::
  "Test \<Rightarrow> int \<Rightarrow> int \<times> Test" where
  "Test_set_self_pattern_count self v =
     (if Test.static self then (1, self) else (0, self\<lparr>self_pattern_count := v\<rparr>))"

definition Test_set_assembly_pattern_count ::
  "Test \<Rightarrow> int \<Rightarrow> int \<times> Test" where
  "Test_set_assembly_pattern_count self v =
     (if Test.static self then (1, self) else (0, self\<lparr>assembly_pattern_count := v\<rparr>))"

definition Test_set_self_test_failure_dist ::
  "Test \<Rightarrow> int \<Rightarrow> int \<times> Test" where
  "Test_set_self_test_failure_dist self v =
     (if Test.static self then (1, self) else (0, self\<lparr>self_test_failure_dist := v\<rparr>))"

definition Test_set_assembly_test_failure_dist ::
  "Test \<Rightarrow> int \<Rightarrow> int \<times> Test" where
  "Test_set_assembly_test_failure_dist self v =
     (if Test.static self then (1, self) else (0, self\<lparr>assembly_test_failure_dist := v\<rparr>))"


section \<open>Chips\<close>

subsection \<open>Inputs of the constructor\<close>

text \<open>
  The test-cost functions multiply the cost by a derating factor drawn from Python's
  \<open>random\<close> module.  The random source is an input of the model: a function from the
  distribution asked for to the sample returned.
\<close>

datatype draw = Gauss real real | Expovariate real | Lognormvariate real real

text \<open>
  A chip definition: the attributes of one \<open>chip\<close> element after \<open>float()\<close> and
  \<open>int()\<close> have been applied (a black-box attribute, the aspect ratio and the location
  are \<open>None\<close> for the empty string; \<open>stackup\<close> is the list of
  \<open>count:layer_name\<close> pairs), and the two random sources used when the test costs of
  this chip are computed.
\<close>

record chip_definition =
  name :: string
  bb_area :: "real option"
  bb_cost :: "real option"
  bb_quality :: "real option"
  bb_power :: "real option"
  aspect_ratio :: "real option"
  x_location :: "real option"
  y_location :: "real option"
  core_area :: real
  fraction_memory :: real
  fraction_logic :: real
  fraction_analog :: real
  reticle_share :: real
  quantity :: int
  buried :: string
  assembly_process :: string
  test_process :: string
  wafer_process :: string
  stackup :: "(int \<times> string) list"
  power :: real
  core_voltage :: real
  self_test_sample :: "draw \<Rightarrow> real"
  assembly_test_sample :: "draw \<Rightarrow> real"

text \<open>An element with its child elements whose tag contains \<open>chip\<close>.\<close>

datatype etree = Element chip_definition "etree list"

text \<open>The catalogues and the netlist handed to every constructor call.  A dictionary
  is the list of its items in insertion order; iterating over it and indexing it with the
  key visits each item once.\<close>

record design =
  wafer_process_list :: "WaferProcess list"
  assembly_process_list :: "real Assembly list"
  test_process_list :: "Test list"
  layers :: "Layer list"
  ios :: "IO list"
  adjacency_matrix_definitions :: "(string \<times> real list list) list"
  average_bandwidth_utilization :: "(string \<times> real list list) list"
  block_names :: "string list"
  static :: bool

subsection \<open>The chip object\<close>

text \<open>
  The attributes of a chip other than its list of stacked chips.  The parent chip is read
  only through its assembly process, so \<open>parent_chip\<close> holds that assembly process
  (\<open>None\<close> for the root).  The derived attributes from \<open>stack_power\<close> on are
  assigned one after the other by the constructor; none is read before it is assigned.
\<close>

record Chip_attrs =
  static :: bool
  parent_chip :: "real Assembly option"
  wafer_process :: WaferProcess
  assembly_process :: "real Assembly"
  test_process :: Test
  stackup :: "Layer list"
  bb_area :: "real option"
  bb_cost :: "real option"
  bb_quality :: "real option"
  bb_power :: "real option"
  aspect_ratio :: real
  x_location :: "real option"
  y_location :: "real option"
  name :: string
  core_area :: real
  fraction_memory :: real
  fraction_logic :: real
  fraction_analog :: real
  reticle_share :: real
  quantity :: int
  buried :: bool
  global_adjacency_matrix :: "(string \<times> real list list) list"
  average_bandwidth_utilization :: "(string \<times> real list list) list"
  block_names :: "string list"
  io_list :: "IO list"
  power :: real
  core_voltage :: real
  self_test_sample :: "draw \<Rightarrow> real"
  assembly_test_sample :: "draw \<Rightarrow> real"
  stack_power :: real
  io_power :: real
  total_power :: real
  nre_design_cost :: real
  area :: real
  self_true_yield :: real
  self_test_yield :: real
  self_quality :: real
  chip_true_yield :: real
  chip_test_yield :: real
  quality :: real
  self_cost :: real
  cost :: real

datatype Chip = Chip (attrs: Chip_attrs) (chips: "Chip list")

definition with_attrs :: "Chip \<Rightarrow> Chip_attrs \<Rightarrow> Chip" where
  "with_attrs self a = Chip a (chips self)"
subsection \<open>Getters\<close>

abbreviation get_name :: "Chip \<Rightarrow> string" where
  "get_name self \<equiv> Chip_attrs.name (attrs self)"

abbreviation get_aspect_ratio :: "Chip \<Rightarrow> real" where
  "get_aspect_ratio self \<equiv> Chip_attrs.aspect_ratio (attrs self)"

abbreviation get_core_area :: "Chip \<Rightarrow> real" where
  "get_core_area self \<equiv> Chip_attrs.core_area (attrs self)"

abbreviation get_fraction_memory :: "Chip \<Rightarrow> real" where
  "get_fraction_memory self \<equiv> Chip_attrs.fraction_memory (attrs self)"

abbreviation get_fraction_logic :: "Chip \<Rightarrow> real" where
  "get_fraction_logic self \<equiv> Chip_attrs.fraction_logic (attrs self)"

abbreviation get_fraction_analog :: "Chip \<Rightarrow> real" where
  "get_fraction_analog self \<equiv> Chip_attrs.fraction_analog (attrs self)"

abbreviation get_reticle_share :: "Chip \<Rightarrow> real" where
  "get_reticle_share self \<equiv> Chip_attrs.reticle_share (attrs self)"

abbreviation get_buried :: "Chip \<Rightarrow> bool" where
  "get_buried self \<equiv> Chip_attrs.buried (attrs self)"

abbreviation get_self_cost :: "Chip \<Rightarrow> real" where
  "get_self_cost self \<equiv> Chip_attrs.self_cost (attrs self)"

abbreviation get_cost :: "Chip \<Rightarrow> real" where
  "get_cost self \<equiv> Chip_attrs.cost (attrs self)"

abbreviation get_self_true_yield :: "Chip \<Rightarrow> real" where
  "get_self_true_yield self \<equiv> Chip_attrs.self_true_yield (attrs self)"

abbreviation get_chip_true_yield :: "Chip \<Rightarrow> real" where
  "get_chip_true_yield self \<equiv> Chip_attrs.chip_true_yield (attrs self)"

abbreviation get_self_test_yield :: "Chip \<Rightarrow> real" where
  "get_self_test_yield self \<equiv> Chip_attrs.self_test_yield (attrs self)"

abbreviation get_chip_test_yield :: "Chip \<Rightarrow> real" where
  "get_chip_test_yield self \<equiv> Chip_attrs.chip_test_yield (attrs self)"

abbreviation get_self_quality :: "Chip \<Rightarrow> real" where
  "get_self_quality self \<equiv> Chip_attrs.self_quality (attrs self)"

abbreviation get_quality :: "Chip \<Rightarrow> real" where
  "get_quality self \<equiv> Chip_attrs.quality (attrs self)"

abbreviation get_assembly_process :: "Chip \<Rightarrow> real Assembly" where
  "get_assembly_process self \<equiv> Chip_attrs.assembly_process (attrs self)"

abbreviation get_stackup :: "Chip \<Rightarrow> Layer list" where
  "get_stackup self \<equiv> Chip_attrs.stackup (attrs self)"

abbreviation get_test_process :: "Chip \<Rightarrow> Test" where
  "get_test_process self \<equiv> Chip_attrs.test_process (attrs self)"

abbreviation get_power :: "Chip \<Rightarrow> real" where
  "get_power self \<equiv> Chip_attrs.power (attrs self)"

abbreviation get_core_voltage :: "Chip \<Rightarrow> real" where
  "get_core_voltage self \<equiv> Chip_attrs.core_voltage (attrs self)"

abbreviation get_stack_power :: "Chip \<Rightarrow> real" where
  "get_stack_power self \<equiv> Chip_attrs.stack_power (attrs self)"

abbreviation get_io_power :: "Chip \<Rightarrow> real" where
  "get_io_power self \<equiv> Chip_attrs.io_power (attrs self)"

abbreviation get_total_power :: "Chip \<Rightarrow> real" where
  "get_total_power self \<equiv> Chip_attrs.total_power (attrs self)"

abbreviation get_area :: "Chip \<Rightarrow> real" where
  "get_area self \<equiv> Chip_attrs.area (attrs self)"

abbreviation get_quantity :: "Chip \<Rightarrow> int" where
  "get_quantity self \<equiv> Chip_attrs.quantity (attrs self)"

abbreviation get_nre_design_cost :: "Chip \<Rightarrow> real" where
  "get_nre_design_cost self \<equiv> Chip_attrs.nre_design_cost (attrs self)"

abbreviation get_chips_len :: "Chip \<Rightarrow> nat" where
  "get_chips_len self \<equiv> length (chips self)"

abbreviation get_wafer_process_yield :: "Chip \<Rightarrow> real" where
  "get_wafer_process_yield self \<equiv> wafer_process_yield (Chip_attrs.wafer_process (attrs self))"

subsection \<open>Setters guarded by \<open>static\<close>\<close>

definition Chip_set_name :: "Chip \<Rightarrow> string \<Rightarrow> int \<times> Chip" where
  "Chip_set_name self v =
     (if Chip_attrs.static (attrs self) then (1, self)
      else (0, with_attrs self ((attrs self)\<lparr>Chip_attrs.name := v\<rparr>)))"

definition Chip_set_aspect_ratio :: "Chip \<Rightarrow> real \<Rightarrow> int \<times> Chip" where
  "Chip_set_aspect_ratio self v =
     (if Chip_attrs.static (attrs self) then (1, self)
      else (0, with_attrs self ((attrs self)\<lparr>Chip_attrs.aspect_ratio := v\<rparr>)))"

definition Chip_set_x_location :: "Chip \<Rightarrow> real option \<Rightarrow> int \<times> Chip" where
  "Chip_set_x_location self v =
     (if Chip_attrs.static (attrs self) then (1, self)
      else (0, with_attrs self ((attrs self)\<lparr>Chip_attrs.x_location := v\<rparr>)))"

definition Chip_set_y_location :: "Chip \<Rightarrow> real option \<Rightarrow> int \<times> Chip" where
  "Chip_set_y_location self v =
     (if Chip_attrs.static (attrs self) then (1, self)
      else (0, with_attrs self ((attrs self)\<lparr>Chip_attrs.y_location := v\<rparr>)))"

definition Chip_set_core_area :: "Chip \<Rightarrow> real \<Rightarrow> int \<times> Chip" where
  "Chip_set_core_area self v =
     (if Chip_attrs.static (attrs self) then (1, self)
      else (0, with_attrs self ((attrs self)\<lparr>Chip_attrs.core_area := v\<rparr>)))"

definition Chip_set_fraction_memory :: "Chip \<Rightarrow> real \<Rightarrow> int \<times> Chip" where
  "Chip_set_fraction_memory self v =
     (if Chip_attrs.static (attrs self) then (1, self)
      else (0, with_attrs self ((attrs self)\<lparr>Chip_attrs.fraction_memory := v\<rparr>)))"

definition Chip_set_fraction_logic :: "Chip \<Rightarrow> real \<Rightarrow> int \<times> Chip" where
  "Chip_set_fraction_logic self v =
     (if Chip_attrs.static (attrs self) then (1, self)
      else (0, with_attrs self ((attrs self)\<lparr>Chip_attrs.fraction_logic := v\<rparr>)))"

definition Chip_set_fraction_analog :: "Chip \<Rightarrow> real \<Rightarrow> int \<times> Chip" where
  "Chip_set_fraction_analog self v =
     (if Chip_attrs.static (attrs self) then (1, self)
      else (0, with_attrs self ((attrs self)\<lparr>Chip_attrs.fraction_analog := v\<rparr>)))"

definition Chip_set_reticle_share :: "Chip \<Rightarrow> real \<Rightarrow> int \<times> Chip" where
  "Chip_set_reticle_share self v =
     (if Chip_attrs.static (attrs self) then (1, self)
      else (0, with_attrs self ((attrs self)\<lparr>Chip_attrs.reticle_share := v\<rparr>)))"

definition Chip_set_buried :: "Chip \<Rightarrow> bool \<Rightarrow> int \<times> Chip" where
  "Chip_set_buried self v =
     (if Chip_attrs.static (attrs self) then (1, self)
      else (0, with_attrs self ((attrs self)\<lparr>Chip_attrs.buried := v\<rparr>)))"

definition Chip_set_self_cost :: "Chip \<Rightarrow> real \<Rightarrow> int \<times> Chip" where
  "Chip_set_self_cost self v =
     (if Chip_attrs.static (attrs self) then (1, self)
      else (0, with_attrs self ((attrs self)\<lparr>Chip_attrs.self_cost := v\<rparr>)))"

definition Chip_set_cost :: "Chip \<Rightarrow> real \<Rightarrow> int \<times> Chip" where
  "Chip_set_cost self v =
     (if Chip_attrs.static (attrs self) then (1, self)
      else (0, with_attrs self ((attrs self)\<lparr>Chip_attrs.cost := v\<rparr>)))"

definition Chip_set_self_true_yield :: "Chip \<Rightarrow> real \<Rightarrow> int \<times> Chip" where
  "Chip_set_self_true_yield self v =
     (if Chip_attrs.static (attrs self) then (1, self)
      else (0, with_attrs self ((attrs self)\<lparr>Chip_attrs.self_true_yield := v\<rparr>)))"

definition Chip_set_chip_true_yield :: "Chip \<Rightarrow> real \<Rightarrow> int \<times> Chip" where
  "Chip_set_chip_true_yield self v =
     (if Chip_attrs.static (attrs self) then (1, self)
      else (0, with_attrs self ((attrs self)\<lparr>Chip_attrs.chip_true_yield := v\<rparr>)))"

definition Chip_set_self_test_yield :: "Chip \<Rightarrow> real \<Rightarrow> int \<times> Chip" where
  "Chip_set_self_test_yield self v =
     (if Chip_attrs.static (attrs self) then (1, self)
      else (0, with_attrs self ((attrs self)\<lparr>Chip_attrs.self_test_yield := v\<rparr>)))"

definition Chip_set_chip_test_yield :: "Chip \<Rightarrow> real \<Rightarrow> int \<times> Chip" where
  "Chip_set_chip_test_yield self v =
     (if Chip_attrs.static (attrs self) then (1, self)
      else (0, with_attrs self ((attrs self)\<lparr>Chip_attrs.chip_test_yield := v\<rparr>)))"

definition Chip_set_self_quality :: "Chip \<Rightarrow> real \<Rightarrow> int \<times> Chip" where
  "Chip_set_self_quality self v =
     (if Chip_attrs.static (attrs self) then (1, self)
      else (0, with_attrs self ((attrs self)\<lparr>Chip_attrs.self_quality := v\<rparr>)))"

definition Chip_set_quality :: "Chip \<Rightarrow> real \<Rightarrow> int \<times> Chip" where
  "Chip_set_quality self v =
     (if Chip_attrs.static (attrs self) then (1, self)
      else (0, with_attrs self ((attrs self)\<lparr>Chip_attrs.quality := v\<rparr>)))"

definition Chip_set_assembly_process :: "Chip \<Rightarrow> real Assembly \<Rightarrow> int \<times> Chip" where
  "Chip_set_assembly_process self v =
     (if Chip_attrs.static (attrs self) then (1, self)
      else (0, with_attrs self ((attrs self)\<lparr>Chip_attrs.assembly_process := v\<rparr>)))"

definition Chip_set_stackup :: "Chip \<Rightarrow> Layer list \<Rightarrow> int \<times> Chip" where
  "Chip_set_stackup self v =
     (if Chip_attrs.static (attrs self) then (1, self)
      else (0, with_attrs self ((attrs self)\<lparr>Chip_attrs.stackup := v\<rparr>)))"

definition Chip_set_test_process :: "Chip \<Rightarrow> Test \<Rightarrow> int \<times> Chip" where
  "Chip_set_test_process self v =
     (if Chip_attrs.static (attrs self) then (1, self)
      else (0, with_attrs self ((attrs self)\<lparr>Chip_attrs.test_process := v\<rparr>)))"

definition Chip_set_power :: "Chip \<Rightarrow> real \<Rightarrow> int \<times> Chip" where
  "Chip_set_power self v =
     (if Chip_attrs.static (attrs self) then (1, self)
      else (0, with_attrs self ((attrs self)\<lparr>Chip_attrs.power := v\<rparr>)))"

definition Chip_set_core_voltage :: "Chip \<Rightarrow> real \<Rightarrow> int \<times> Chip" where
  "Chip_set_core_voltage self v =
     (if Chip_attrs.static (attrs self) then (1, self)
      else (0, with_attrs self ((attrs self)\<lparr>Chip_attrs.core_voltage := v\<rparr>)))"

definition Chip_set_io_power :: "Chip \<Rightarrow> real \<Rightarrow> int \<times> Chip" where
  "Chip_set_io_power self v =
     (if Chip_attrs.static (attrs self) then (1, self)
      else (0, with_attrs self ((attrs self)\<lparr>Chip_attrs.io_power := v\<rparr>)))"

definition Chip_set_total_power :: "Chip \<Rightarrow> real \<Rightarrow> int \<times> Chip" where
  "Chip_set_total_power self v =
     (if Chip_attrs.static (attrs self) then (1, self)
      else (0, with_attrs self ((attrs self)\<lparr>Chip_attrs.total_power := v\<rparr>)))"

definition Chip_set_quantity :: "Chip \<Rightarrow> int \<Rightarrow> int \<times> Chip" where
  "Chip_set_quantity self v =
     (if Chip_attrs.static (attrs self) then (1, self)
      else (0, with_attrs self ((attrs self)\<lparr>Chip_attrs.quantity := v\<rparr>)))"

text \<open>\<open>set_chip_definitions\<close> calls \<open>self.buildChips\<close>, a method no chip has.\<close>

definition Chip_set_chip_definitions :: "Chip \<Rightarrow> etree list \<Rightarrow> (int \<times> Chip) result" where
  "Chip_set_chip_definitions self chip_definitions =
     (if Chip_attrs.static (attrs self) then Inr (1, self) else Inl AttributeError)"

definition Chip_set_static :: "Chip \<Rightarrow> int \<times> Chip" where
  "Chip_set_static self = (0, with_attrs self ((attrs self)\<lparr>Chip_attrs.static := True\<rparr>))"


subsection \<open>Setters that recompute, and the power of the stack\<close>

definition compute_stack_power :: "Chip \<Rightarrow> real" where
  "compute_stack_power self =
     fold (\<lambda>chip stack_power. stack_power + get_total_power chip) (chips self) 0"

text \<open>\<open>set_stack_power\<close> ignores both its argument and \<open>static\<close>.\<close>

definition Chip_set_stack_power :: "Chip \<Rightarrow> real \<Rightarrow> int \<times> Chip" where
  "Chip_set_stack_power self v =
     (0, with_attrs self ((attrs self)\<lparr>stack_power := compute_stack_power self\<rparr>))"

definition compute_nre_front_end_cost :: "Chip \<Rightarrow> real" where
  "compute_nre_front_end_cost self =
     (let wp = Chip_attrs.wafer_process (attrs self) in
      get_core_area self *
        (nre_front_end_cost_per_mm2_memory wp * get_fraction_memory self +
         nre_front_end_cost_per_mm2_logic wp * get_fraction_logic self +
         nre_front_end_cost_per_mm2_analog wp * get_fraction_analog self))"

definition compute_nre_back_end_cost :: "Chip \<Rightarrow> real" where
  "compute_nre_back_end_cost self =
     (let wp = Chip_attrs.wafer_process (attrs self) in
      get_core_area self *
        (nre_back_end_cost_per_mm2_memory wp * get_fraction_memory self +
         nre_back_end_cost_per_mm2_logic wp * get_fraction_logic self +
         nre_back_end_cost_per_mm2_analog wp * get_fraction_analog self))"

definition compute_nre_design_cost :: "Chip \<Rightarrow> real" where
  "compute_nre_design_cost self = compute_nre_front_end_cost self + compute_nre_back_end_cost self"

definition Chip_set_nre_design_cost :: "Chip \<Rightarrow> int \<times> Chip" where
  "Chip_set_nre_design_cost self =
     (0, with_attrs self ((attrs self)\<lparr>nre_design_cost := compute_nre_design_cost self\<rparr>))"

subsection \<open>Names of the chips in a stack\<close>

text \<open>\<open>get_chip_list\<close> appends the list of each stacked chip as one element, then
  the chip's own name: the result is a list of lists and names.\<close>

datatype chip_list_entry = Block string | Sublist "chip_list_entry list"

fun get_chip_list :: "Chip \<Rightarrow> chip_list_entry list" where
  "get_chip_list (Chip a cs) =
     map (\<lambda>chip. Sublist (get_chip_list chip)) cs @ [Block (Chip_attrs.name a)]"

subsection \<open>Reading the netlist\<close>

text \<open>The index left in \<open>block_index\<close> by a search loop with \<open>break\<close> (the first
  match) and by one without (the last match).\<close>

definition first_block_index :: "string list \<Rightarrow> string \<Rightarrow> nat option" where
  "first_block_index names n =
     (case filter (\<lambda>i. names ! i = n) [0..<length names] of
        [] \<Rightarrow> None | i # _ \<Rightarrow> Some i)"

definition last_block_index :: "string list \<Rightarrow> string \<Rightarrow> nat option" where
  "last_block_index names n =
     (case rev (filter (\<lambda>i. names ! i = n) [0..<length names]) of
        [] \<Rightarrow> None | i # _ \<Rightarrow> Some i)"

text \<open>The indices of the block names that are elements of \<open>internal_block_list\<close>.  A
  name is never equal to a nested list.\<close>

definition internal_indices :: "string list \<Rightarrow> chip_list_entry list \<Rightarrow> nat list" where
  "internal_indices names internal_block_list =
     filter (\<lambda>i. Block (names ! i) \<in> set internal_block_list) [0..<length names]"

text \<open>
  The variable \<open>io\<close> after \<open>for io in self.io_list: if io.get_type() == io_type:
  break\<close>: the first interconnect of that type, else the last one of the list; with an
  empty list the variable was never bound, and its first use raises.
\<close>

fun io_after_search :: "IO list \<Rightarrow> string \<Rightarrow> IO option \<Rightarrow> IO option" where
  "io_after_search [] io_type bound = bound"
| "io_after_search (io # rest) io_type bound =
     (if IO.type io = io_type then Some io else io_after_search rest io_type (Some io))"

definition io_of_type :: "IO list \<Rightarrow> string \<Rightarrow> IO result" where
  "io_of_type io_list' io_type =
     (case io_after_search io_list' io_type None of
        None \<Rightarrow> Inl UnboundLocalError | Some io \<Rightarrow> Inr io)"

text \<open>\<open>xs[:]\<close> is the whole sequence again.\<close>

definition py_slice_all :: "'a list \<Rightarrow> 'a list" where
  "py_slice_all xs = xs"

text \<open>The product of two one-dimensional arrays: element by element, one element
  against all when an array has length one, an error for other unequal lengths.\<close>

definition np_multiply :: "real list \<Rightarrow> real list \<Rightarrow> real list result" where
  "np_multiply xs ys =
     (if length xs = length ys then Inr (map2 (*) xs ys)
      else if length xs = 1 then Inr (map (\<lambda>y. hd xs * y) ys)
      else if length ys = 1 then Inr (map (\<lambda>x. x * hd ys) xs)
      else Inl ValueError)"

definition dict_get :: "('k \<times> 'v) list \<Rightarrow> 'k \<Rightarrow> 'v result" where
  "dict_get d k = (case map_of d k of None \<Rightarrow> Inl KeyError | Some v \<Rightarrow> Inr v)"

text \<open>\<open>d[k] += v\<close> when the key is present, \<open>d[k] = v\<close> otherwise.\<close>

definition dict_add :: "('k \<times> real) list \<Rightarrow> 'k \<Rightarrow> real \<Rightarrow> ('k \<times> real) list" where
  "dict_add d k v =
     (if k \<in> fst ` set d then map (\<lambda>(k', v'). if k' = k then (k', v' + v) else (k', v')) d
      else d @ [(k, v)])"

subsection \<open>Area of the interconnect pads\<close>

definition get_io_area :: "Chip \<Rightarrow> real result" where
  "get_io_area self =
     (case first_block_index (Chip_attrs.block_names (attrs self)) (get_name self) of
        None \<Rightarrow> Inr 0
      | Some block_index \<Rightarrow>
          for_each (\<lambda>(io_type, matrix) io_area.
              let found = io_of_type (io_list (attrs self)) io_type in
              and_then (py_index matrix block_index) (\<lambda>row.
              and_then found (\<lambda>io.
              and_then (py_index (py_slice_all matrix) block_index) (\<lambda>column.
              Inr (io_area + (sum_list (py_slice_all row) * tx_area io
                              + sum_list column * rx_area io))))))
            (global_adjacency_matrix (attrs self)) 0)"

subsection \<open>Signal count and signal power\<close>

definition get_signal_count ::
  "Chip \<Rightarrow> chip_list_entry list \<Rightarrow> (real \<times> (real \<times> real) list) result" where
  "get_signal_count self internal_block_list =
     (let block_index = last_block_index (Chip_attrs.block_names (attrs self)) (get_name self);
          internal_block_list_indices =
            internal_indices (Chip_attrs.block_names (attrs self)) internal_block_list
      in case block_index of
        None \<Rightarrow> Inr (0, [])
      | Some block_index \<Rightarrow>
          for_each (\<lambda>(io_type, matrix) counts.
              and_then (io_of_type (io_list (attrs self)) io_type) (\<lambda>io.
              let bidirectional_factor = (if truthy (get_bidirectional io) then 1 / 2 else 1) in
              and_then (py_index matrix block_index) (\<lambda>row.
              for_each (\<lambda>j (signal_count, signal_with_reach_count).
                  if j \<in> set internal_block_list_indices
                  then Inr (signal_count, signal_with_reach_count)
                  else
                    and_then (py_index row j) (\<lambda>sent.
                    and_then (py_index matrix j) (\<lambda>row_j.
                    and_then (py_index row_j block_index) (\<lambda>received.
                    let wires = (sent + received) * of_int (wire_count io) * bidirectional_factor
                    in Inr (signal_count + wires,
                            dict_add signal_with_reach_count (reach io) wires)))))
                [0..<length (py_slice_all row)] counts)))
            (global_adjacency_matrix (attrs self)) (0, []))"

definition get_signal_power :: "Chip \<Rightarrow> chip_list_entry list \<Rightarrow> real result" where
  "get_signal_power self internal_block_list =
     (let internal_block_list_indices =
            internal_indices (Chip_attrs.block_names (attrs self)) internal_block_list
      in for_each (\<lambda>(io_type, matrix) signal_power.
             and_then (io_of_type (io_list (attrs self)) io_type) (\<lambda>io.
             let bidirectional_factor = (if truthy (get_bidirectional io) then 1 / 2 else 1) in
             and_then
               (for_each (\<lambda>index link_weighted_sum.
                    and_then (py_index (py_slice_all matrix) index) (\<lambda>column.
                    and_then (dict_get (Chip_attrs.average_bandwidth_utilization (attrs self))
                                io_type) (\<lambda>utilization.
                    and_then (py_index (py_slice_all utilization) index) (\<lambda>column_utilization.
                    and_then (np_multiply column column_utilization) (\<lambda>column_weighted.
                    and_then (py_index matrix index) (\<lambda>row.
                    and_then (py_index utilization index) (\<lambda>row_utilization.
                    and_then (np_multiply (py_slice_all row) (py_slice_all row_utilization))
                      (\<lambda>row_weighted.
                    let v = sum_list column_weighted + sum_list row_weighted
                    in Inr (link_weighted_sum + v)))))))))
                  internal_block_list_indices 0) (\<lambda>link_weighted_sum.
             Inr (signal_power
                  + link_weighted_sum * bandwidth io * energy_per_bit io * bidirectional_factor))))
           (global_adjacency_matrix (attrs self)) 0)"

definition get_chips_signal_count :: "Chip \<Rightarrow> real result" where
  "get_chips_signal_count self =
     (let internal_chip_list = get_chip_list self in
      for_each (\<lambda>chip signal_count.
          and_then (get_signal_count chip internal_chip_list) (\<lambda>counted.
          Inr (signal_count + fst counted)))
        (chips self) 0)"

subsection \<open>Areas\<close>

definition expandedArea :: "real \<Rightarrow> real \<Rightarrow> real \<Rightarrow> real result" where
  "expandedArea area' border aspect_ratio' =
     and_then (py_sqrt (area' * aspect_ratio')) (\<lambda>x.
     and_then (py_div area' aspect_ratio') (\<lambda>q.
     and_then (py_sqrt q) (\<lambda>y.
     Inr ((x + 2 * border) * (y + 2 * border)))))"

definition get_stacked_die_area :: "Chip \<Rightarrow> real result" where
  "get_stacked_die_area self =
     and_then
       (for_each (\<lambda>chip stacked_die_area.
            if \<not> get_buried chip then
              and_then (expandedArea (get_area chip)
                          (die_separation (get_assembly_process self) / 2)
                          (get_aspect_ratio chip)) (\<lambda>expanded.
              Inr (stacked_die_area + expanded))
            else Inr stacked_die_area)
          (chips self) 0) (\<lambda>stacked_die_area.
     expandedArea stacked_die_area (Assembly.edge_exclusion (get_assembly_process self)) 1)"

definition get_power_pads :: "Chip \<Rightarrow> int result" where
  "get_power_pads self =
     and_then (py_div (get_total_power self)
                 (get_power_per_pad (get_assembly_process self) (get_core_voltage self))) (\<lambda>q.
     let power_pads = \<lceil>q\<rceil> in Inr (power_pads * 2))"


subsection \<open>Area of the pad grid\<close>

text \<open>One round of the loop over the reaches, smallest first.  The state is
  \<open>(current_x, current_y, current_count)\<close>.\<close>

definition pad_reach_step ::
  "Chip \<Rightarrow> (real \<times> real) list \<Rightarrow> real \<Rightarrow> real \<Rightarrow> real \<Rightarrow> real \<times> real \<times> real
     \<Rightarrow> (real \<times> real \<times> real) result" where
  "pad_reach_step self signal_with_reach_count bonding_pitch' area_per_pad reach' st =
     (case st of (current_x, current_y, current_count) \<Rightarrow>
      let reach_with_separation =
            (case parent_chip (attrs self) of
               Some parent_assembly \<Rightarrow> reach' - die_separation parent_assembly
             | None \<Rightarrow> reach' - die_separation (get_assembly_process self))
      in
      if reach_with_separation < 0 then Inl SystemExit
      else
        and_then (dict_get signal_with_reach_count reach') (\<lambda>count_for_reach.
        let current_count = current_count + count_for_reach;
            required_area = current_count * area_per_pad;
            usable_area =
              (if reach_with_separation < current_x \<and> reach_with_separation < current_y
               then reach_with_separation * (current_x + current_y) - reach_with_separation\<^sup>2
               else current_x * current_y)
        in
        if usable_area \<le> required_area then
          and_then (py_sqrt (required_area * get_aspect_ratio self)) (\<lambda>required_x.
          and_then (py_div required_area (get_aspect_ratio self)) (\<lambda>q.
          and_then (py_sqrt q) (\<lambda>required_y.
          and_then
            (if required_x > reach_with_separation \<and> required_y > reach_with_separation then
               and_then (py_div (2 * required_area) reach_with_separation) (\<lambda>q1.
               and_then (py_div (q1 + 2 * reach_with_separation)
                           (2 * get_aspect_ratio self + 2)) (\<lambda>new_req_y.
               Inr (get_aspect_ratio self * new_req_y, new_req_y)))
             else Inr (required_x, required_y)) (\<lambda>(new_req_x, new_req_y).
          and_then (py_div new_req_x bonding_pitch') (\<lambda>qx.
          let new_req_x = of_int \<lceil>qx\<rceil> * bonding_pitch' in
          and_then (py_div new_req_y bonding_pitch') (\<lambda>qy.
          let new_req_y = of_int \<lceil>qy\<rceil> * bonding_pitch' in
          Inr (if new_req_x > current_x then new_req_x else current_x,
               if new_req_y > current_y then new_req_y else current_y,
               current_count)))))))
        else Inr (current_x, current_y, current_count)))"

text \<open>The final grid, in pads along each side.\<close>

definition pad_grid :: "real \<Rightarrow> real \<Rightarrow> real \<Rightarrow> real \<Rightarrow> (int \<times> int) result" where
  "pad_grid required_area current_x current_y bonding_pitch' =
     (if required_area \<le> current_x * current_y then
        and_then (py_div current_x bonding_pitch') (\<lambda>qx.
        and_then (py_div current_y bonding_pitch') (\<lambda>qy.
        Inr (\<lceil>qx\<rceil>, \<lceil>qy\<rceil>)))
      else if current_x < current_y then
        (if current_y\<^sup>2 \<le> required_area then
           and_then (py_div current_y bonding_pitch') (\<lambda>qy.
           and_then (py_div required_area current_y) (\<lambda>side.
           and_then (py_div side bonding_pitch') (\<lambda>qx.
           Inr (\<lceil>qx\<rceil>, \<lceil>qy\<rceil>))))
         else
           and_then (py_sqrt required_area) (\<lambda>required_side.
           and_then (py_div required_side bonding_pitch') (\<lambda>q.
           Inr (\<lceil>q\<rceil>, \<lceil>q\<rceil>))))
      else if current_y < current_x then
        (if current_x\<^sup>2 \<le> required_area then
           and_then (py_div current_x bonding_pitch') (\<lambda>qx.
           and_then (py_div required_area current_x) (\<lambda>side.
           and_then (py_div side bonding_pitch') (\<lambda>qy.
           Inr (\<lceil>qx\<rceil>, \<lceil>qy\<rceil>))))
         else
           and_then (py_sqrt required_area) (\<lambda>required_side.
           and_then (py_div required_side bonding_pitch') (\<lambda>q.
           Inr (\<lceil>q\<rceil>, \<lceil>q\<rceil>))))
      else
        and_then (py_sqrt required_area) (\<lambda>required_side.
        and_then (py_div required_side bonding_pitch') (\<lambda>q.
        Inr (\<lceil>q\<rceil>, \<lceil>q\<rceil>))))"

definition get_pad_area :: "Chip \<Rightarrow> real result" where
  "get_pad_area self =
     and_then (get_power_pads self) (\<lambda>num_power_pads.
     and_then (get_signal_count self (get_chip_list self))
       (\<lambda>(signal_pads, signal_with_reach_count).
     let num_pads = signal_pads + of_int num_power_pads;
         bonding_pitch' =
           (case parent_chip (attrs self) of
              Some parent_assembly \<Rightarrow> bonding_pitch parent_assembly
            | None \<Rightarrow> bonding_pitch (get_assembly_process self));
         area_per_pad = bonding_pitch'\<^sup>2;
         reaches = sort (map fst signal_with_reach_count)
     in
     and_then (for_each (pad_reach_step self signal_with_reach_count bonding_pitch' area_per_pad)
                 reaches (0, 0, 0)) (\<lambda>(current_x, current_y, current_count).
     let required_area = area_per_pad * num_pads in
     and_then (pad_grid required_area current_x current_y bonding_pitch') (\<lambda>(grid_x, grid_y).
     Inr (of_int grid_x * of_int grid_y * area_per_pad)))))"

definition compute_area :: "Chip \<Rightarrow> real result" where
  "compute_area self =
     (case Chip_attrs.bb_area (attrs self) of
        Some v \<Rightarrow> Inr v
      | None \<Rightarrow>
          and_then (get_io_area self) (\<lambda>io_area.
          let chip_io_area = get_core_area self + io_area in
          and_then (get_pad_area self) (\<lambda>pad_required_area.
          and_then (get_stacked_die_area self) (\<lambda>stacked_die_bound_area.
          Inr (max (max stacked_die_bound_area pad_required_area) chip_io_area)))))"

text \<open>\<open>set_area\<close> takes no value and does not look at \<open>static\<close>.\<close>

definition Chip_set_area :: "Chip \<Rightarrow> (int \<times> Chip) result" where
  "Chip_set_area self =
     and_then (compute_area self) (\<lambda>v.
     Inr (0, with_attrs self ((attrs self)\<lparr>area := v\<rparr>)))"

subsection \<open>Yields\<close>

definition compute_layer_aware_yield :: "Chip \<Rightarrow> real result" where
  "compute_layer_aware_yield self =
     for_each (\<lambda>layer layer_yield'.
         and_then (get_io_area self) (\<lambda>io_area.
         and_then (layer_yield layer (get_core_area self + io_area)) (\<lambda>y.
         Inr (layer_yield' * y))))
       (get_stackup self) 1"

definition quality_yield :: "Chip \<Rightarrow> real" where
  "quality_yield self =
     fold (\<lambda>chip quality_yield'. quality_yield' * get_quality chip) (chips self) 1"

definition compute_chip_yield :: "Chip \<Rightarrow> real result" where
  "compute_chip_yield self =
     (let chip_true_yield' = get_self_quality self;
          quality_yield' = quality_yield self
      in
      and_then (get_chips_signal_count self) (\<lambda>signal_count.
      and_then (get_stacked_die_area self) (\<lambda>stacked_die_area.
      and_then (assembly_yield (get_assembly_process self) (of_nat (get_chips_len self))
                  signal_count stacked_die_area) (\<lambda>assembly_yield'.
      Inr (chip_true_yield'
           * (quality_yield' * assembly_yield' * get_wafer_process_yield self))))))"

subsection \<open>Test yield, quality and cost\<close>

definition compute_self_test_yield :: "Test \<Rightarrow> Chip \<Rightarrow> real" where
  "compute_self_test_yield self chip =
     (if test_self self = True then
        (let true_yield = get_self_true_yield chip
         in 1 - (1 - true_yield) * self_defect_coverage self)
      else 1)"

definition compute_self_quality :: "Test \<Rightarrow> Chip \<Rightarrow> real result" where
  "compute_self_quality self chip =
     (let test_yield = get_self_test_yield chip;
          true_yield = get_self_true_yield chip
      in py_div true_yield test_yield)"

definition compute_assembly_test_yield :: "Test \<Rightarrow> Chip \<Rightarrow> real" where
  "compute_assembly_test_yield self chip =
     (let assembly_true_yield = get_chip_true_yield chip in
      if test_assembly self = True
      then 1 - (1 - assembly_true_yield) * assembly_defect_coverage self
      else 1)"

definition compute_assembly_quality :: "Test \<Rightarrow> Chip \<Rightarrow> real result" where
  "compute_assembly_quality self chip =
     (let assembly_true_yield = get_chip_true_yield chip;
          assembly_test_yield = get_chip_test_yield chip
      in py_div assembly_true_yield assembly_test_yield)"

definition compute_self_test_cost :: "Test \<Rightarrow> Chip \<Rightarrow> real result" where
  "compute_self_test_cost self chip =
     (if test_self self = False then Inr 0
      else
        let test_cost = get_core_area chip * self_test_cost_per_mm2 self
                          * of_int (self_pattern_count self);
            sample = Chip_attrs.self_test_sample (attrs chip);
            true_yield = get_chip_true_yield chip
        in
        and_then
          (if self_test_failure_dist self = 1 then
             Inr (sample (Gauss true_yield (true_yield * (5 / 100))))
           else if self_test_failure_dist self = 2 then Inr 1
           else if self_test_failure_dist self = 3 then
             and_then (py_div 1 true_yield) (\<lambda>rate. Inr (sample (Expovariate rate)))
           else if self_test_failure_dist self = 4 then
             and_then (py_log true_yield) (\<lambda>mu. Inr (sample (Lognormvariate mu (5 / 100))))
           else Inl UnboundLocalError) (\<lambda>derating_factor.
        Inr (derating_factor * test_cost)))"

text \<open>The second test of the chain repeats the first, so that its branch is never
  taken, and no branch answers the selector \<open>4\<close>.\<close>

definition compute_assembly_test_cost :: "Test \<Rightarrow> Chip \<Rightarrow> real result" where
  "compute_assembly_test_cost self chip =
     (if test_assembly self = False then Inr 0
      else
        let area' = fold (\<lambda>c a. a + get_core_area c) (chips chip) (get_core_area chip);
            test_cost = area' * assembly_test_cost_per_mm2 self
                          * of_int (assembly_pattern_count self);
            sample = Chip_attrs.assembly_test_sample (attrs chip);
            true_yield = get_chip_true_yield chip
        in
        and_then
          (if assembly_test_failure_dist self = 1 then
             Inr (sample (Gauss true_yield (true_yield * (5 / 100))))
           else if assembly_test_failure_dist self = 1 then Inr 1
           else if assembly_test_failure_dist self = 2 then
             and_then (py_div 1 true_yield) (\<lambda>rate. Inr (sample (Expovariate rate)))
           else if assembly_test_failure_dist self = 3 then
             and_then (py_log true_yield) (\<lambda>mu. Inr (sample (Lognormvariate mu (5 / 100))))
           else Inl UnboundLocalError) (\<lambda>derating_factor.
        Inr (derating_factor * test_cost)))"

subsection \<open>Costs\<close>

definition get_layer_aware_cost :: "Chip \<Rightarrow> real result" where
  "get_layer_aware_cost self =
     for_each (\<lambda>layer cost'.
         and_then (layer_cost layer (get_area self) (Chip_attrs.wafer_process (attrs self)))
           (\<lambda>c. Inr (cost' + c)))
       (get_stackup self) 0"

definition get_mask_cost :: "Chip \<Rightarrow> real" where
  "get_mask_cost self =
     fold (\<lambda>layer cost'. cost' + mask_cost layer) (get_stackup self) 0 * get_reticle_share self"

definition compute_nre_cost :: "Chip \<Rightarrow> real result" where
  "compute_nre_cost self =
     py_div (get_nre_design_cost self + get_mask_cost self) (of_int (get_quantity self))"

definition compute_self_cost :: "Chip \<Rightarrow> real result" where
  "compute_self_cost self =
     (case Chip_attrs.bb_cost (attrs self) of
        Some v \<Rightarrow> Inr v
      | None \<Rightarrow>
          and_then (get_layer_aware_cost self) (\<lambda>self_layer_cost.
          and_then (compute_nre_cost self) (\<lambda>nre_cost.
          and_then (compute_self_test_cost (get_test_process self) self) (\<lambda>self_test_cost.
          py_div (0 + self_layer_cost + nre_cost + self_test_cost) (get_self_test_yield self)))))"

definition compute_cost :: "Chip \<Rightarrow> real result" where
  "compute_cost self =
     (let cost' = get_self_cost self;
          stack_cost = fold (\<lambda>chip stack_cost. stack_cost + get_cost chip) (chips self) 0;
          cost' = cost' + stack_cost
      in
      and_then (get_stacked_die_area self) (\<lambda>stacked_die_area.
      and_then (assembly_cost (get_assembly_process self) (of_nat (get_chips_len self))
                  stacked_die_area) (\<lambda>assembly_cost'.
      let cost' = cost' + assembly_cost' in
      and_then (compute_assembly_test_cost (get_test_process self) self) (\<lambda>assembly_test_cost.
      let cost' = cost' + assembly_test_cost in
      py_div cost' (get_chip_test_yield self)))))"


subsection \<open>The constructor\<close>

definition find_process :: "('p \<Rightarrow> string) \<Rightarrow> string \<Rightarrow> 'p list \<Rightarrow> 'p option" where
  "find_process get_name' process_name process_list =
     List.find (\<lambda>p. get_name' p = process_name) process_list"

definition find_wafer_process :: "string \<Rightarrow> WaferProcess list \<Rightarrow> WaferProcess result" where
  "find_wafer_process wafer_process_name wafer_process_list' =
     (case find_process WaferProcess.name wafer_process_name wafer_process_list' of
        None \<Rightarrow> Inl SystemExit | Some p \<Rightarrow> Inr p)"

definition find_assembly_process :: "string \<Rightarrow> real Assembly list \<Rightarrow> real Assembly result" where
  "find_assembly_process assembly_process_name assembly_process_list' =
     (case find_process Assembly.name assembly_process_name assembly_process_list' of
        None \<Rightarrow> Inl SystemExit | Some p \<Rightarrow> Inr p)"

definition find_test_process :: "string \<Rightarrow> Test list \<Rightarrow> Test result" where
  "find_test_process test_process_name test_process_list' =
     (case find_process Test.name test_process_name test_process_list' of
        None \<Rightarrow> Inl SystemExit | Some p \<Rightarrow> Inr p)"

definition build_stackup :: "(int \<times> string) list \<Rightarrow> Layer list \<Rightarrow> Layer list result" where
  "build_stackup stackup_string layers' =
     and_then
       (for_each (\<lambda>(count, layer_name) stackup_names.
            if count \<ge> 0 then Inr (stackup_names @ replicate (nat count) layer_name)
            else Inl SystemExit)
          stackup_string []) (\<lambda>stackup_names.
     for_each (\<lambda>layer stackup'.
         case find_process Layer.name layer layers' of
           Some l \<Rightarrow> Inr (stackup' @ [l])
         | None \<Rightarrow> Inl SystemExit)
       stackup_names [])"

text \<open>The constructor after the stacked chips have been built and the attributes of the
  definition stored: power, area and the yield of the chip's own layers.\<close>

definition Chip_init_power :: "Chip \<Rightarrow> Chip result" where
  "Chip_init_power self =
     (let self = snd (Chip_set_stack_power self (compute_stack_power self)) in
      and_then (get_signal_power self (get_chip_list self)) (\<lambda>signal_power.
      let self = snd (Chip_set_io_power self signal_power);
          self = snd (Chip_set_total_power self
                   (case Chip_attrs.bb_power (attrs self) of
                      None \<Rightarrow> get_power self + get_io_power self + get_stack_power self
                    | Some bb \<Rightarrow> bb + get_stack_power self));
          self = snd (Chip_set_nre_design_cost self)
      in Inr self))"

definition Chip_init_area :: "Chip \<Rightarrow> Chip result" where
  "Chip_init_area self =
     and_then (Chip_set_area self) (\<lambda>(_, self).
     and_then (compute_layer_aware_yield self) (\<lambda>layer_aware_yield.
     let self = snd (Chip_set_self_true_yield self layer_aware_yield);
         self = snd (Chip_set_self_test_yield self
                  (compute_self_test_yield (get_test_process self) self))
     in
     and_then (case Chip_attrs.bb_quality (attrs self) of
                 None \<Rightarrow> compute_self_quality (get_test_process self) self
               | Some bb \<Rightarrow> Inr bb) (\<lambda>q.
     Inr (snd (Chip_set_self_quality self q)))))"

text \<open>The yield of the assembled chip, its test yield and its quality.\<close>

definition Chip_init_yield :: "Chip \<Rightarrow> Chip result" where
  "Chip_init_yield self =
     and_then (compute_chip_yield self) (\<lambda>y.
     let self = snd (Chip_set_chip_true_yield self y);
         self = snd (Chip_set_chip_test_yield self
                  (compute_assembly_test_yield (get_test_process self) self))
     in
     and_then (compute_assembly_quality (get_test_process self) self) (\<lambda>q.
     Inr (snd (Chip_set_quality self q))))"

text \<open>The costs, and last the \<open>static\<close> flag asked for.\<close>

definition Chip_init_cost :: "bool \<Rightarrow> Chip \<Rightarrow> Chip result" where
  "Chip_init_cost static' self =
     and_then (compute_self_cost self) (\<lambda>c.
     let self = snd (Chip_set_self_cost self c) in
     and_then (compute_cost self) (\<lambda>c.
     let self = snd (Chip_set_cost self c) in
     Inr (with_attrs self ((attrs self)\<lparr>Chip_attrs.static := static'\<rparr>))))"

text \<open>
  The attributes stored from the definition, the catalogues and the netlist before
  anything is computed.  Attributes not yet assigned are written \<open>0\<close>.
\<close>

definition stored_attributes ::
  "design \<Rightarrow> real Assembly option \<Rightarrow> chip_definition \<Rightarrow> WaferProcess \<Rightarrow> real Assembly \<Rightarrow> Test
     \<Rightarrow> Layer list \<Rightarrow> bool \<Rightarrow> Chip_attrs" where
  "stored_attributes d parent node wp ap tp st b =
     \<lparr>Chip_attrs.static = False, parent_chip = parent, wafer_process = wp,
      assembly_process = ap, test_process = tp, stackup = st,
      bb_area = chip_definition.bb_area node, bb_cost = chip_definition.bb_cost node,
      bb_quality = chip_definition.bb_quality node,
      bb_power = chip_definition.bb_power node,
      aspect_ratio = (case chip_definition.aspect_ratio node of None \<Rightarrow> 1 | Some r \<Rightarrow> r),
      x_location = chip_definition.x_location node,
      y_location = chip_definition.y_location node,
      name = chip_definition.name node, core_area = chip_definition.core_area node,
      fraction_memory = chip_definition.fraction_memory node,
      fraction_logic = chip_definition.fraction_logic node,
      fraction_analog = chip_definition.fraction_analog node,
      reticle_share = chip_definition.reticle_share node,
      quantity = chip_definition.quantity node, buried = b,
      global_adjacency_matrix = adjacency_matrix_definitions d,
      average_bandwidth_utilization = design.average_bandwidth_utilization d,
      block_names = design.block_names d, io_list = ios d,
      power = chip_definition.power node, core_voltage = chip_definition.core_voltage node,
      self_test_sample = chip_definition.self_test_sample node,
      assembly_test_sample = chip_definition.assembly_test_sample node,
      stack_power = 0, io_power = 0, total_power = 0, nre_design_cost = 0, area = 0,
      self_true_yield = 0, self_test_yield = 0, self_quality = 0, chip_true_yield = 0,
      chip_test_yield = 0, quality = 0, self_cost = 0, cost = 0\<rparr>"

text \<open>
  The whole constructor, for a call with an element tree and all catalogues given.  The
  processes and the stackup are looked up first; the stacked chips are built with this
  chip's assembly process as their parent's; then the attributes are stored, and the
  derived attributes are computed in the order of the source.
\<close>

fun Chip_init :: "design \<Rightarrow> real Assembly option \<Rightarrow> etree \<Rightarrow> Chip result" where
  "Chip_init d parent (Element node kids) =
     and_then (find_wafer_process (chip_definition.wafer_process node) (wafer_process_list d))
       (\<lambda>wp.
     and_then (find_assembly_process (chip_definition.assembly_process node)
                 (assembly_process_list d)) (\<lambda>ap.
     and_then (find_test_process (chip_definition.test_process node) (test_process_list d))
       (\<lambda>tp.
     and_then (build_stackup (chip_definition.stackup node) (layers d)) (\<lambda>st.
     and_then (collect (map (Chip_init d (Some ap)) kids)) (\<lambda>cs.
     and_then (if chip_definition.buried node = ''True'' then Inr True
               else if chip_definition.buried node = ''False'' then Inr False
               else Inl SystemExit) (\<lambda>b.
     if chip_definition.name node = '''' then Inl SystemExit
     else
       and_then (Chip_init_power (Chip (stored_attributes d parent node wp ap tp st b) cs))
         (\<lambda>self.
       and_then (Chip_init_area self) (\<lambda>self.
       and_then (Chip_init_yield self) (\<lambda>self.
       Chip_init_cost (design.static d) self)))))))))"


section \<open>Notions used to state the properties\<close>

text \<open>The power \<open>x^y\<close> of a non-negative base, with \<open>0^0 = 1\<close> as in Python.\<close>

definition nonneg_power :: "real \<Rightarrow> real \<Rightarrow> real" where
  "nonneg_power x y = (if x = 0 then (if y = 0 then 1 else 0) else x powr y)"


text \<open>The wires between block \<open>bi\<close> and the blocks that are not internal, sent
  and received.\<close>

definition counted_wires :: "real list list \<Rightarrow> nat \<Rightarrow> nat list \<Rightarrow> real" where
  "counted_wires M bi internal =
     (\<Sum>j \<leftarrow> [0..<length (M ! bi)]. if j \<in> set internal then 0 else M ! bi ! j + M ! j ! bi)"

text \<open>The interconnect of a type, the names of the blocks inside a chip's own subtree,
  and the pad area of a chip's wires: towards the blocks outside its subtree, and towards
  all blocks.  Row entries are weighted by the tx pad area, column entries by the rx pad
  area.\<close>

definition interconnect_of :: "IO list \<Rightarrow> string \<Rightarrow> IO" where
  "interconnect_of ios' io_type = the (List.find (\<lambda>io. IO.type io = io_type) ios')"

fun subtree_names :: "Chip \<Rightarrow> string list" where
  "subtree_names (Chip a cs) = Chip_attrs.name a # concat (map subtree_names cs)"

definition external_io_area :: "Chip \<Rightarrow> nat \<Rightarrow> real" where
  "external_io_area self bi =
     (\<Sum>(io_type, M) \<leftarrow> global_adjacency_matrix (attrs self).
        \<Sum>j \<leftarrow> [0..<length (Chip_attrs.block_names (attrs self))].
          if Chip_attrs.block_names (attrs self) ! j \<in> set (subtree_names self) then 0
          else M ! bi ! j * tx_area (interconnect_of (io_list (attrs self)) io_type)
             + M ! j ! bi * rx_area (interconnect_of (io_list (attrs self)) io_type))"

definition all_blocks_io_area :: "Chip \<Rightarrow> nat \<Rightarrow> real" where
  "all_blocks_io_area self bi =
     (\<Sum>(io_type, M) \<leftarrow> global_adjacency_matrix (attrs self).
        \<Sum>j \<leftarrow> [0..<length (Chip_attrs.block_names (attrs self))].
            M ! bi ! j * tx_area (interconnect_of (io_list (attrs self)) io_type)
          + M ! j ! bi * rx_area (interconnect_of (io_list (attrs self)) io_type))"


section \<open>Example inputs\<close>

text \<open>The catalogue entries of the unit tests, with decimal fractions written as quotients.\<close>


definition example_layer :: Layer where
  "example_layer =
     \<lparr>Layer.name = ''test_layer_process'', active = True, cost_per_mm2 = 1234 / 10000,
      defect_density = 543 / 100000, critical_area_ratio = 1 / 2, clustering_factor = 2,
      litho_percent = 3 / 10, mask_cost = 100000, stitching_yield = 98 / 100,
      Layer.static = True\<rparr>"

definition zero_ratio_layer :: Layer where
  "zero_ratio_layer = example_layer\<lparr>critical_area_ratio := 0\<rparr>"

definition example_wafer_process :: WaferProcess where
  "example_wafer_process =
     \<lparr>WaferProcess.name = ''test_wafer_process'', wafer_diameter = 234,
      WaferProcess.edge_exclusion = 12 / 10, wafer_process_yield = 98 / 100,
      dicing_distance = 87 / 100, reticle_x = 32, reticle_y = 23, wafer_fill_grid = False,
      nre_front_end_cost_per_mm2_memory = 1 / 10, nre_back_end_cost_per_mm2_memory = 2 / 10,
      nre_front_end_cost_per_mm2_logic = 3 / 10, nre_back_end_cost_per_mm2_logic = 4 / 10,
      nre_front_end_cost_per_mm2_analog = 5 / 10, nre_back_end_cost_per_mm2_analog = 6 / 10,
      WaferProcess.static = True\<rparr>"


definition example_assembly :: "real Assembly" where
  "example_assembly =
     \<lparr>Assembly.name = ''test_assembly_process'', materials_cost_per_mm2 = 1 / 10,
      picknplace_machine_cost = 1000000, picknplace_machine_lifetime = 5,
      picknplace_machine_uptime = 9 / 10, picknplace_technician_yearly_cost = 200000,
      picknplace_time = 10, picknplace_group = 1, bonding_machine_cost = 2000000,
      bonding_machine_lifetime = 5, bonding_machine_uptime = 8 / 10,
      bonding_machine_technician_yearly_cost = 210000, bonding_time = 20, bonding_group = 2,
      die_separation = 2 / 10, Assembly.edge_exclusion = 3 / 10,
      max_pad_current_density = 4 / 10, bonding_pitch = 5 / 10,
      picknplace_cost_per_second = None, bonding_cost_per_second = None,
      bonding_yield = 999 / 1000, alignment_yield = 987 / 1000,
      dielectric_bond_defect_density = 3 / 10000, Assembly.static = True\<rparr>"

definition example_assembly_arguments :: "string \<Rightarrow> real option Assembly" where
  "example_assembly_arguments name' =
     \<lparr>Assembly.name = name', materials_cost_per_mm2 = Some (1 / 10),
      picknplace_machine_cost = Some 1000000, picknplace_machine_lifetime = Some 5,
      picknplace_machine_uptime = Some (9 / 10),
      picknplace_technician_yearly_cost = Some 200000,
      picknplace_time = Some 10, picknplace_group = Some 1,
      bonding_machine_cost = Some 2000000, bonding_machine_lifetime = Some 5,
      bonding_machine_uptime = Some (8 / 10),
      bonding_machine_technician_yearly_cost = Some 210000, bonding_time = Some 20,
      bonding_group = Some 2, die_separation = Some (2 / 10),
      Assembly.edge_exclusion = Some (3 / 10), max_pad_current_density = Some (4 / 10),
      bonding_pitch = Some (5 / 10), picknplace_cost_per_second = None,
      bonding_cost_per_second = None, bonding_yield = Some (999 / 1000),
      alignment_yield = Some (987 / 1000),
      dielectric_bond_defect_density = Some (3 / 10000), Assembly.static = True\<rparr>"


definition negative_litho_layer :: Layer where
  "negative_litho_layer = example_layer\<lparr>litho_percent := - 1\<rparr>"


definition example_io :: IO where
  "example_io =
     \<lparr>IO.type = ''test_io_process'', rx_area = 1, tx_area = 2, shoreline = 1 / 2,
      bandwidth = 3, wire_count = 4, bidirectional = PyStr ''True'', energy_per_bit = 9 / 10,
      reach = 5, IO.static = True\<rparr>"

definition example_test :: Test where
  "example_test =
     \<lparr>Test.name = ''test_test_process'', Test.static = True, test_self = False,
      test_assembly = False, self_defect_coverage = 9 / 10, assembly_defect_coverage = 1 / 2,
      self_test_cost_per_mm2 = 1 / 100, assembly_test_cost_per_mm2 = 1 / 100,
      self_pattern_count = 1, assembly_pattern_count = 1, self_test_failure_dist = 1,
      assembly_test_failure_dist = 1\<rparr>"

text \<open>A chip object with the given name, netlist and stacked chips, whose other
  attributes are those of the chip of the unit tests; derived attributes are \<open>0\<close>.\<close>

definition example_chip ::
  "string \<Rightarrow> (string \<times> real list list) list \<Rightarrow> string list \<Rightarrow> Chip list \<Rightarrow> Chip" where
  "example_chip name' matrices names stacked =
     Chip \<lparr>Chip_attrs.static = False, parent_chip = None, wafer_process = example_wafer_process,
           assembly_process = example_assembly, test_process = example_test,
           stackup = [example_layer], bb_area = None, bb_cost = None, bb_quality = None,
           bb_power = None, aspect_ratio = 1, x_location = None, y_location = None,
           name = name', core_area = 10, fraction_memory = 2 / 10, fraction_logic = 5 / 10,
           fraction_analog = 3 / 10, reticle_share = 1, quantity = 1000000, buried = False,
           global_adjacency_matrix = matrices, average_bandwidth_utilization = matrices,
           block_names = names, io_list = [example_io], power = 3, core_voltage = 1,
           self_test_sample = (\<lambda>_. 1), assembly_test_sample = (\<lambda>_. 1),
           stack_power = 0, io_power = 0, total_power = 0, nre_design_cost = 0, area = 0,
           self_true_yield = 0, self_test_yield = 0, self_quality = 0, chip_true_yield = 0,
           chip_test_yield = 0, quality = 0, self_cost = 0, cost = 0\<rparr> stacked"

definition example_static_chip :: Chip where
  "example_static_chip = snd (Chip_set_static (example_chip ''test_chip'' [] [] []))"


definition false_string_io :: "IO result" where
  "false_string_io =
     IO_init (Some ''test_io_process'') (Some 1) (Some 2) (Some (1 / 2)) (Some 3) (Some 4)
       (PyStr ''False'') (Some (9 / 10)) (Some 5) True"

definition example_netlist :: "(string \<times> real list list) list" where
  "example_netlist = [(''test_io_process'', [[0, 3], [3, 0]])]"

definition example_stack :: Chip where
  "example_stack =
     example_chip ''A'' example_netlist [''A'', ''B'']
       [example_chip ''B'' example_netlist [''A'', ''B''] []]"

definition false_string_interconnect :: IO where
  "false_string_interconnect = example_io\<lparr>bidirectional := PyStr ''False''\<rparr>"

definition example_leaf :: Chip where
  "example_leaf =
     with_attrs (example_chip ''A'' example_netlist [''A'', ''B''] [])
       ((attrs (example_chip ''A'' example_netlist [''A'', ''B''] []))
          \<lparr>io_list := [false_string_interconnect]\<rparr>)"

definition skewed_leaf :: Chip where
  "skewed_leaf = example_chip ''A'' [(''test_io_process'', [[0, 3], [5, 0]])] [''A'', ''B''] []"


text \<open>A design with no netlist: one interposer carrying one memory die, both with a
  black-box area and cost, built from the catalogue entries above.\<close>

definition example_memory_definition :: chip_definition where
  "example_memory_definition =
     \<lparr>chip_definition.name = ''memory'', bb_area = Some 4, bb_cost = Some 5,
      bb_quality = None, bb_power = None, aspect_ratio = None, x_location = None,
      y_location = None, core_area = 4, fraction_memory = 1, fraction_logic = 0,
      fraction_analog = 0, reticle_share = 1, quantity = 1000000, buried = ''False'',
      assembly_process = ''test_assembly_process'', test_process = ''test_test_process'',
      wafer_process = ''test_wafer_process'', stackup = [(1, ''test_layer_process'')],
      power = 1, core_voltage = 1, self_test_sample = (\<lambda>_. 1),
      assembly_test_sample = (\<lambda>_. 1)\<rparr>"

definition example_interposer_definition :: chip_definition where
  "example_interposer_definition =
     example_memory_definition
       \<lparr>chip_definition.name := ''interposer'', chip_definition.bb_area := Some 100,
        chip_definition.bb_cost := Some 7, chip_definition.core_area := 10,
        chip_definition.power := 2\<rparr>"

definition example_design :: design where
  "example_design =
     \<lparr>wafer_process_list = [example_wafer_process],
      assembly_process_list = [example_assembly], test_process_list = [example_test],
      layers = [example_layer], ios = [example_io], adjacency_matrix_definitions = [],
      average_bandwidth_utilization = [], block_names = [], design.static = True\<rparr>"

definition example_memory_tree :: etree where
  "example_memory_tree = Element example_memory_definition []"

definition example_interposer_tree :: etree where
  "example_interposer_tree = Element example_interposer_definition [example_memory_tree]"

text \<open>The two chips that the constructor builds from this design.\<close>

definition example_memory :: Chip where
  "example_memory =
     Chip ((stored_attributes example_design (Some example_assembly) example_memory_definition
              example_wafer_process example_assembly example_test [example_layer] False)
           \<lparr>Chip_attrs.static := True, total_power := 1, nre_design_cost := 6 / 5, area := 4,
            self_true_yield := (100543 / 100000) powr (- 2), self_test_yield := 1,
            self_quality := (100543 / 100000) powr (- 2),
            chip_true_yield := (100543 / 100000) powr (- 2) * 12248677 / 12500000,
            chip_test_yield := 1,
            quality := (100543 / 100000) powr (- 2) * 12248677 / 12500000,
            self_cost := 5, cost := 1259 / 250\<rparr>) []"

definition example_interposer :: Chip where
  "example_interposer =
     Chip ((stored_attributes example_design None example_interposer_definition
              example_wafer_process example_assembly example_test [example_layer] False)
           \<lparr>Chip_attrs.static := True, stack_power := 1, total_power := 3,
            nre_design_cost := 3, area := 100,
            self_true_yield := (40543 / 40000) powr (- 2), self_test_yield := 1,
            self_quality := (40543 / 40000) powr (- 2),
            chip_true_yield :=
              (40543 / 40000) powr (- 2)
                * ((100543 / 100000) powr (- 2) * 12248677 / 12500000)
                * (987 / 1000 * (1 - 3 / 10000 * (196 / 25))) * (98 / 100),
            chip_test_yield := 1,
            quality :=
              (40543 / 40000) powr (- 2)
                * ((100543 / 100000) powr (- 2) * 12248677 / 12500000)
                * (987 / 1000 * (1 - 3 / 10000 * (196 / 25))) * (98 / 100),
            self_cost := 7, cost := 1305161 / 98550\<rparr>) [example_memory]"


section \<open>Properties\<close>

subsection \<open>Arithmetic helpers\<close>

lemma and_then_Inr [simp]: "and_then (Inr v) f = f v"
  by (simp add: and_then_def)

lemma and_then_Inl [simp]: "and_then (Inl e) f = Inl e"
  by (simp add: and_then_def)

lemma and_then_eq_Inr:
  "and_then m f = Inr y \<longleftrightarrow> (\<exists>v. m = Inr v \<and> f v = Inr y)"
  by (cases m) simp_all

lemma py_pow_zero_exponent [simp]: "py_pow x 0 = Inr 1"
  by (simp add: py_pow_def)

lemma py_pow_pos: "0 < x \<Longrightarrow> py_pow x y = Inr (x powr y)"
  by (simp add: py_pow_def)

subsection \<open>Layer yield\<close>

lemma layer_yield_value:
  assumes "0 < clustering_factor l" "0 \<le> defect_density l * a * critical_area_ratio l"
  shows "layer_yield l a =
    Inr ((1 + defect_density l * a * critical_area_ratio l / clustering_factor l)
           powr (- clustering_factor l))"
proof -
  have "0 < 1 + defect_density l * a * critical_area_ratio l / clustering_factor l"
    using assms by (simp add: add_pos_nonneg)
  then show ?thesis
    using assms by (simp add: layer_yield_def py_div_def py_pow_pos)
qed

text \<open>
  Claim C3, as amended.  For a layer with positive defect density, positive clustering
  factor and positive critical-area ratio, and an area \<open>a \<ge> 0\<close>, \<open>layer_yield a\<close>
  returns \<open>stitching_yield^0 * (1 + defect_density*a*critical_area_ratio/clustering_factor)
  ^ (-clustering_factor)\<close>; the value lies in \<open>(0, 1]\<close>, every larger area has a
  strictly smaller yield, and \<open>layer_yield 0\<close> is \<open>1\<close>.
\<close>

theorem layer_yield_negative_binomial:
  assumes "0 < defect_density l" and "0 < clustering_factor l"
    and "0 < critical_area_ratio l" and "0 \<le> a"
  shows "\<exists>y. layer_yield l a = Inr y
     \<and> y = stitching_yield l ^ 0 *
           (1 + defect_density l * a * critical_area_ratio l / clustering_factor l)
             powr (- clustering_factor l)
     \<and> 0 < y \<and> y \<le> 1
     \<and> (\<forall>b. a < b \<longrightarrow> (\<exists>y'. layer_yield l b = Inr y' \<and> y' < y))
     \<and> layer_yield l 0 = Inr 1"
proof -
  let ?f = "\<lambda>x. (1 + defect_density l * x * critical_area_ratio l / clustering_factor l)
                   powr (- clustering_factor l)"
  have val: "layer_yield l x = Inr (?f x)" if "0 \<le> x" for x
    using assms that by (intro layer_yield_value) simp_all
  have base: "1 \<le> 1 + defect_density l * x * critical_area_ratio l / clustering_factor l"
    if "0 \<le> x" for x using assms that by simp
  have pos: "0 < ?f a" using base[OF assms(4)] by simp
  have le1: "?f a \<le> 1"
    using powr_mono2'[of "- clustering_factor l" 1
        "1 + defect_density l * a * critical_area_ratio l / clustering_factor l"]
      base[OF assms(4)] assms(2) by simp
  have dec: "?f b < ?f a" if "a < b" for b
  proof -
    have "defect_density l * a * critical_area_ratio l / clustering_factor l
        < defect_density l * b * critical_area_ratio l / clustering_factor l"
      using assms that by (simp add: divide_strict_right_mono)
    then show ?thesis
      using base[OF assms(4)] assms(2)
      by (intro powr_less_mono2_neg) simp_all
  qed
  have zero: "layer_yield l 0 = Inr 1" using val[of 0] by simp
  show ?thesis
    using val[OF assms(4)] pos le1 dec zero val assms(4)
    by (intro exI[of _ "?f a"]) force
qed

theorem layer_yield_negative_binomial_witness:
  "0 < defect_density example_layer \<and> 0 < clustering_factor example_layer
   \<and> 0 < critical_area_ratio example_layer \<and> (0::real) \<le> 10
   \<and> (\<exists>y. layer_yield example_layer 10 = Inr y \<and> 0 < y \<and> y \<le> 1
          \<and> (\<forall>b>10. \<exists>y'. layer_yield example_layer b = Inr y' \<and> y' < y))
   \<and> layer_yield example_layer 0 = Inr 1"
  using layer_yield_negative_binomial [of example_layer 10]
  by (simp add: example_layer_def)

text \<open>
  Claim C3 as stated asks only for positive defect density and clustering factor.  A
  layer whose critical-area ratio is zero satisfies both, and its yield is \<open>1\<close> at
  area \<open>0\<close> and at area \<open>1\<close>: it is not strictly decreasing.
\<close>

theorem layer_yield_constant_counterexample:
  "0 < defect_density zero_ratio_layer \<and> 0 < clustering_factor zero_ratio_layer
   \<and> layer_yield zero_ratio_layer 0 = Inr 1 \<and> layer_yield zero_ratio_layer 1 = Inr 1"
  by (simp add: zero_ratio_layer_def example_layer_def layer_yield_def py_div_def py_pow_def)

subsection \<open>Cost per square millimetre\<close>

text \<open>
  Claim C7.  When the diagonal of the square, \<open>(sqrt square_area + dicing_distance) *
  sqrt 2\<close>, exceeds half the usable wafer diameter, \<open>compute_cost_per_mm2\<close> returns the
  sentinel \<open>1e9\<close>: a value, hence neither an exception nor a division by zero.  The
  square root is taken of a non-negative area (\<open>math.sqrt\<close> is not defined below zero).
\<close>

theorem compute_cost_per_mm2_sentinel:
  assumes "0 \<le> square_area"
    and "(sqrt square_area + dicing_distance wp) * sqrt 2
          > (WaferProcess.wafer_diameter wp - 2 * WaferProcess.edge_exclusion wp) / 2"
  shows "compute_cost_per_mm2 l square_area wp = Inr 1000000000"
  using assms by (simp add: compute_cost_per_mm2_def py_sqrt_def Let_def)

theorem compute_cost_per_mm2_sentinel_witness:
  "(0::real) \<le> 10000
   \<and> (sqrt 10000 + dicing_distance example_wafer_process) * sqrt 2
        > (WaferProcess.wafer_diameter example_wafer_process
            - 2 * WaferProcess.edge_exclusion example_wafer_process) / 2
   \<and> compute_cost_per_mm2 example_layer 10000 example_wafer_process = Inr 1000000000"
proof -
  have r: "sqrt 10000 = 100"
    using real_sqrt_abs [of 100] by simp
  have "6 / 5 < sqrt 2"
    by (rule real_less_rsqrt) (simp add: power2_eq_square)
  then have big: "(sqrt 10000 + dicing_distance example_wafer_process) * sqrt 2
        > (WaferProcess.wafer_diameter example_wafer_process
            - 2 * WaferProcess.edge_exclusion example_wafer_process) / 2"
    by (simp add: r example_wafer_process_def)
  show ?thesis
    using big compute_cost_per_mm2_sentinel [of 10000 example_wafer_process example_layer]
    by simp
qed

subsection \<open>Assembly yield\<close>

lemma nonneg_power_of_nat: "0 \<le> x \<Longrightarrow> nonneg_power x (of_nat n) = x ^ n"
proof (cases "x = 0")
  case True
  then show ?thesis by (cases n) (simp_all add: nonneg_power_def)
next
  case False
  assume "0 \<le> x"
  with False have "0 < x" by simp
  then show ?thesis using False by (simp add: nonneg_power_def powr_realpow)
qed

lemma py_pow_nonneg: "0 \<le> x \<Longrightarrow> 0 \<le> y \<Longrightarrow> py_pow x y = Inr (nonneg_power x y)"
  by (auto simp: py_pow_def nonneg_power_def)

lemma nonneg_power_range:
  assumes "0 \<le> x" "x \<le> 1" "0 \<le> y"
  shows "0 \<le> nonneg_power x y \<and> nonneg_power x y \<le> 1"
  using assms powr_mono'[of 0 y x] by (auto simp: nonneg_power_def)

lemma nonneg_power_antimono:
  assumes "0 \<le> x" "x \<le> 1" "0 \<le> y'" "y' \<le> y"
  shows "nonneg_power x y \<le> nonneg_power x y'"
  using assms powr_mono'[of y' y x] by (auto simp: nonneg_power_def)

lemma assembly_yield_value:
  assumes "0 \<le> alignment_yield a" "0 \<le> bonding_yield a" "0 \<le> n" "0 \<le> m"
  shows "assembly_yield a n m ar =
    Inr (nonneg_power (alignment_yield a) n * nonneg_power (bonding_yield a) m
          * (1 - dielectric_bond_defect_density a * ar))"
  using assms by (simp add: assembly_yield_def py_pow_nonneg)

text \<open>
  Claim C4, as amended.  For an assembly process whose alignment and bonding yields lie
  in \<open>[0, 1]\<close> and whose dielectric-bond defect density is non-negative, and for
  non-negative \<open>n_chips\<close>, \<open>n_bonds\<close> and \<open>area\<close> with
  \<open>dielectric_bond_defect_density * area \<le> 1\<close>, \<open>assembly_yield\<close> returns
  \<open>alignment_yield^n_chips * bonding_yield^n_bonds * (1 - dielectric_bond_defect_density*area)\<close>,
  a value in \<open>[0, 1]\<close>; \<open>assembly_yield 0 0 0\<close> is \<open>1\<close>; and lowering any one
  of the three arguments never lowers the yield.
\<close>

theorem assembly_yield_bounds:
  assumes "0 \<le> alignment_yield a" and "alignment_yield a \<le> 1"
    and "0 \<le> bonding_yield a" and "bonding_yield a \<le> 1"
    and "0 \<le> dielectric_bond_defect_density a"
    and "0 \<le> n" and "0 \<le> m" and "0 \<le> ar"
    and "dielectric_bond_defect_density a * ar \<le> 1"
  shows "\<exists>y. assembly_yield a n m ar = Inr y
     \<and> y = nonneg_power (alignment_yield a) n * nonneg_power (bonding_yield a) m
             * (1 - dielectric_bond_defect_density a * ar)
     \<and> 0 \<le> y \<and> y \<le> 1
     \<and> assembly_yield a 0 0 0 = Inr 1
     \<and> (\<forall>n'. 0 \<le> n' \<and> n' \<le> n \<longrightarrow> (\<exists>y'. assembly_yield a n' m ar = Inr y' \<and> y \<le> y'))
     \<and> (\<forall>m'. 0 \<le> m' \<and> m' \<le> m \<longrightarrow> (\<exists>y'. assembly_yield a n m' ar = Inr y' \<and> y \<le> y'))
     \<and> (\<forall>area'. 0 \<le> area' \<and> area' \<le> ar \<longrightarrow>
           (\<exists>y'. assembly_yield a n m area' = Inr y' \<and> y \<le> y'))"
proof -
  let ?A = "\<lambda>n. nonneg_power (alignment_yield a) n"
  let ?B = "\<lambda>m. nonneg_power (bonding_yield a) m"
  let ?D = "\<lambda>ar. 1 - dielectric_bond_defect_density a * ar"
  have val: "assembly_yield a n' m' area' = Inr (?A n' * ?B m' * ?D area')"
    if "0 \<le> n'" "0 \<le> m'" for n' m' area'
    using assms that by (intro assembly_yield_value) simp_all
  have A: "0 \<le> ?A n' \<and> ?A n' \<le> 1" if "0 \<le> n'" for n'
    using nonneg_power_range assms that by blast
  have B: "0 \<le> ?B m' \<and> ?B m' \<le> 1" if "0 \<le> m'" for m'
    using nonneg_power_range assms that by blast
  have D: "0 \<le> ?D ar \<and> ?D ar \<le> 1"
    using assms by simp
  have AB: "0 \<le> ?A n * ?B m \<and> ?A n * ?B m \<le> 1"
    using A[OF assms(6)] B[OF assms(7)] by (simp add: mult_le_one)
  have range: "0 \<le> ?A n * ?B m * ?D ar \<and> ?A n * ?B m * ?D ar \<le> 1"
    using AB D by (simp add: mult_le_one)
  have zero: "assembly_yield a 0 0 0 = Inr 1"
    using val[of 0 0 0] by (simp add: nonneg_power_def)
  have mono_n: "?A n * ?B m * ?D ar \<le> ?A n' * ?B m * ?D ar" if "0 \<le> n'" "n' \<le> n" for n'
  proof -
    have "?A n \<le> ?A n'" using nonneg_power_antimono assms that by blast
    then show ?thesis using B[OF assms(7)] D by (simp add: mult_right_mono)
  qed
  have mono_m: "?A n * ?B m * ?D ar \<le> ?A n * ?B m' * ?D ar" if "0 \<le> m'" "m' \<le> m" for m'
  proof -
    have "?B m \<le> ?B m'" using nonneg_power_antimono assms that by blast
    then show ?thesis using A[OF assms(6)] D by (simp add: mult_left_mono mult_right_mono)
  qed
  have mono_area: "?A n * ?B m * ?D ar \<le> ?A n * ?B m * ?D area'" if "area' \<le> ar" for area'
  proof -
    have "?D ar \<le> ?D area'" using assms(5) that by (simp add: mult_left_mono)
    then show ?thesis using AB by (simp add: mult_left_mono)
  qed
  have dec_n: "\<forall>n'. 0 \<le> n' \<and> n' \<le> n \<longrightarrow>
      (\<exists>y'. assembly_yield a n' m ar = Inr y' \<and> ?A n * ?B m * ?D ar \<le> y')"
    using val mono_n assms(7) by simp
  have dec_m: "\<forall>m'. 0 \<le> m' \<and> m' \<le> m \<longrightarrow>
      (\<exists>y'. assembly_yield a n m' ar = Inr y' \<and> ?A n * ?B m * ?D ar \<le> y')"
    using val mono_m assms(6) by simp
  have dec_area: "\<forall>area'. 0 \<le> area' \<and> area' \<le> ar \<longrightarrow>
      (\<exists>y'. assembly_yield a n m area' = Inr y' \<and> ?A n * ?B m * ?D ar \<le> y')"
    using val mono_area assms(6,7) by simp
  show ?thesis
    using val[OF assms(6) assms(7), of ar] range zero dec_n dec_m dec_area
    by (intro exI[of _ "?A n * ?B m * ?D ar"]) simp
qed

theorem assembly_yield_bounds_witness:
  "0 \<le> alignment_yield example_assembly \<and> alignment_yield example_assembly \<le> 1
   \<and> 0 \<le> bonding_yield example_assembly \<and> bonding_yield example_assembly \<le> 1
   \<and> 0 \<le> dielectric_bond_defect_density example_assembly
   \<and> dielectric_bond_defect_density example_assembly * 10 \<le> 1
   \<and> (\<exists>y. assembly_yield example_assembly 1 1 10 = Inr y
        \<and> y = 987 / 1000 * (999 / 1000) * (997 / 1000) \<and> 0 \<le> y \<and> y \<le> 1
        \<and> (\<forall>n'. 0 \<le> n' \<and> n' \<le> 1 \<longrightarrow>
              (\<exists>y'. assembly_yield example_assembly n' 1 10 = Inr y' \<and> y \<le> y'))
        \<and> (\<forall>m'. 0 \<le> m' \<and> m' \<le> 1 \<longrightarrow>
              (\<exists>y'. assembly_yield example_assembly 1 m' 10 = Inr y' \<and> y \<le> y'))
        \<and> (\<forall>area'. 0 \<le> area' \<and> area' \<le> 10 \<longrightarrow>
              (\<exists>y'. assembly_yield example_assembly 1 1 area' = Inr y' \<and> y \<le> y')))
   \<and> assembly_yield example_assembly 0 0 0 = Inr 1"
proof -
  have h: "0 \<le> alignment_yield example_assembly" "alignment_yield example_assembly \<le> 1"
    "0 \<le> bonding_yield example_assembly" "bonding_yield example_assembly \<le> 1"
    "0 \<le> dielectric_bond_defect_density example_assembly"
    "(0::real) \<le> 1" "(0::real) \<le> 1" "(0::real) \<le> 10"
    "dielectric_bond_defect_density example_assembly * 10 \<le> 1"
    by (simp_all add: example_assembly_def)
  have v: "nonneg_power (alignment_yield example_assembly) 1
         * nonneg_power (bonding_yield example_assembly) 1
         * (1 - dielectric_bond_defect_density example_assembly * 10)
         = 987 / 1000 * (999 / 1000) * (997 / 1000)"
    by (simp add: example_assembly_def nonneg_power_def)
  show ?thesis
    using h assembly_yield_bounds [OF h] unfolding v by blast
qed

text \<open>
  Claim C4 as stated bounds the yield for all non-negative arguments.  With the
  assembly process of the unit tests (defect density \<open>0.0003\<close>) an area of
  \<open>10000\<close> gives the yield \<open>-2\<close>.
\<close>

theorem assembly_yield_negative_counterexample:
  "assembly_yield example_assembly 0 0 10000 = Inr (- 2)"
  by (simp add: assembly_yield_def example_assembly_def)

subsection \<open>The Assembly constructor\<close>

lemma Assembly_init_branches_not_static:
  "Assembly_init_branches b self = Inr self' \<Longrightarrow> \<not> Assembly.static self'"
  by (auto simp: Assembly_init_branches_def and_then_eq_Inr split: if_splits prod.splits)

lemma Assembly_not_fully_defined_cases:
  "Assembly_not_fully_defined self =
     (if Assembly.name self = '''' then Inr True else Inl AttributeError)"
  by (simp add: Assembly_not_fully_defined_def unassigned_list_attribute_def)

text \<open>
  Claim C9.  No call of the \<open>Assembly\<close> constructor returns an object whose
  \<open>static\<close> is true: both branches after the completeness test end with
  \<open>static = False\<close>, and with a non-empty name the test itself raises
  \<open>AttributeError\<close> on \<open>machine_cost_list\<close>, so nothing is returned.
\<close>

theorem Assembly_init_never_static:
  "(\<forall>self. Assembly_init args = Inr self \<longrightarrow> \<not> Assembly.static self)
   \<and> (\<forall>b self self'. Assembly_init_branches b self = Inr self' \<longrightarrow> \<not> Assembly.static self')
   \<and> (Assembly.name args \<noteq> '''' \<longrightarrow> Assembly_init args = Inl AttributeError)"
proof (intro conjI allI impI)
  fix self assume "Assembly_init args = Inr self"
  then show "\<not> Assembly.static self"
    by (auto simp: Assembly_init_def Let_def and_then_eq_Inr
             dest: Assembly_init_branches_not_static)
next
  fix b and self self' :: "real option Assembly"
  assume "Assembly_init_branches b self = Inr self'"
  then show "\<not> Assembly.static self'" by (rule Assembly_init_branches_not_static)
next
  assume "Assembly.name args \<noteq> ''''"
  then show "Assembly_init args = Inl AttributeError"
    by (simp add: Assembly_init_def Let_def Assembly_not_fully_defined_cases)
qed

theorem Assembly_init_never_static_witness:
  "Assembly.static (example_assembly_arguments '''')
   \<and> Assembly_init (example_assembly_arguments '''')
       = Inr ((example_assembly_arguments '''')\<lparr>Assembly.static := False\<rparr>)
   \<and> \<not> Assembly.static ((example_assembly_arguments '''')\<lparr>Assembly.static := False\<rparr>)
   \<and> Assembly.name (example_assembly_arguments ''test_assembly_process'') \<noteq> ''''
   \<and> Assembly_init (example_assembly_arguments ''test_assembly_process'') = Inl AttributeError
   \<and> (\<exists>self'. Assembly_init_branches False (example_assembly_arguments ''test_assembly_process'')
                  = Inr self' \<and> \<not> Assembly.static self')"
proof -
  have 1: "Assembly_init (example_assembly_arguments '''')
       = Inr ((example_assembly_arguments '''')\<lparr>Assembly.static := False\<rparr>)"
    by (simp add: Assembly_init_def Assembly_not_fully_defined_cases Assembly_init_branches_def
          example_assembly_arguments_def)
  have 2: "\<exists>self'. Assembly_init_branches False (example_assembly_arguments ''test_assembly_process'')
                  = Inr self'"
    by (simp add: Assembly_init_branches_def example_assembly_arguments_def
          compute_picknplace_cost_per_second_of_def compute_bonding_cost_per_second_of_def
          cost_per_second_of_def need_def py_div_def)
  have 3: "Assembly.name (example_assembly_arguments ''test_assembly_process'') \<noteq> ''''"
    "Assembly.static (example_assembly_arguments '''')"
    by (simp_all add: example_assembly_arguments_def)
  show ?thesis
    using 1 2 3 Assembly_init_never_static [of "example_assembly_arguments ''''"]
      Assembly_init_never_static [of "example_assembly_arguments ''test_assembly_process''"]
    by auto
qed

subsection \<open>Layer cost\<close>

lemma grow_reticle_area_returns:
  assumes "0 < step"
  shows "\<exists>r. grow_reticle_area ra ar step = Some r \<and> ar \<le> r \<and> ra \<le> r"
proof (induction "nat \<lceil>(ar - ra) / step\<rceil>" arbitrary: ra)
  case 0
  then have "(ar - ra) / step \<le> 0" by (simp add: ceiling_le_zero)
  with assms have "\<not> ra < ar" by (simp add: divide_le_0_iff)
  then show ?case by (subst grow_reticle_area.simps) simp
next
  case (Suc k)
  show ?case
  proof (cases "ra < ar")
    case False
    then show ?thesis by (subst grow_reticle_area.simps) simp
  next
    case True
    have "(ar - (ra + step)) / step = (ar - ra) / step - 1"
      using assms by (simp add: field_simps)
    then have "k = nat \<lceil>(ar - (ra + step)) / step\<rceil>"
      using Suc.hyps(2) by simp
    from Suc.hyps(1)[OF this] obtain r
      where "grow_reticle_area (ra + step) ar step = Some r" "ar \<le> r" "ra + step \<le> r"
      by blast
    with True assms show ?thesis
      by (subst grow_reticle_area.simps) simp
  qed
qed

lemma reticle_utilization_returns:
  assumes "0 < ar" "0 < rx * ry"
  shows "\<exists>ru. reticle_utilization l ar rx ry = Inr ru \<and> 0 < ru \<and> ru \<le> 1"
proof -
  from grow_reticle_area_returns[OF assms(2), of "rx * ry" ar] obtain r
    where r: "grow_reticle_area (rx * ry) ar (rx * ry) = Some r" "ar \<le> r" by blast
  have rpos: "0 < r" using assms r by linarith
  have "1 \<le> r / ar" using assms r by simp
  then have n1: "1 \<le> \<lfloor>r / ar\<rfloor>" by linarith
  have nle: "of_int \<lfloor>r / ar\<rfloor> * ar \<le> r"
    using assms(1) by (metis of_int_floor_le pos_le_divide_eq)
  have npos: "0 < of_int \<lfloor>r / ar\<rfloor> * ar"
    using n1 assms(1) by simp
  have "reticle_utilization l ar rx ry = Inr (of_int \<lfloor>r / ar\<rfloor> * ar / r)"
    using r assms rpos by (simp add: reticle_utilization_def py_floordiv_def py_div_def)
  moreover have "0 < of_int \<lfloor>r / ar\<rfloor> * ar / r" using npos rpos by simp
  moreover have "of_int \<lfloor>r / ar\<rfloor> * ar / r \<le> 1" using nle rpos by simp
  ultimately show ?thesis by blast
qed

lemma compute_cost_per_mm2_oversize:
  assumes "0 \<le> square_area"
    and "(sqrt square_area + dicing_distance wp) * sqrt 2
          > (WaferProcess.wafer_diameter wp - 2 * WaferProcess.edge_exclusion wp) / 2"
  shows "compute_cost_per_mm2 l square_area wp = Inr 1000000000"
  using assms by (simp add: compute_cost_per_mm2_def py_sqrt_def Let_def)

lemma example_oversize:
  "compute_cost_per_mm2 l 10000 example_wafer_process = Inr 1000000000"
proof -
  have r: "sqrt 10000 = 100"
    using real_sqrt_abs [of 100] by simp
  have "6 / 5 < sqrt 2"
    by (rule real_less_rsqrt) (simp add: power2_eq_square)
  then have "(sqrt 10000 + dicing_distance example_wafer_process) * sqrt 2
        > (WaferProcess.wafer_diameter example_wafer_process
            - 2 * WaferProcess.edge_exclusion example_wafer_process) / 2"
    by (simp add: r example_wafer_process_def)
  then show ?thesis by (intro compute_cost_per_mm2_oversize) simp_all
qed

lemma example_reticle_utilization:
  "reticle_utilization l 10000 32 23 = Inr (10000 / 10304)"
  by (simp add: reticle_utilization_def grow_reticle_area.simps py_floordiv_def py_div_def)

text \<open>
  Claim C6, as amended.  \<open>layer_cost\<close> returns \<open>0\<close> when the area is \<open>0\<close>,
  whatever the litho percent.  For a negative area it exits.  For a positive area on which
  \<open>compute_cost_per_mm2\<close> returns \<open>c\<close>, with \<open>base = area * c\<close>: when the
  litho percent is \<open>0\<close> the result is \<open>base*(1 - litho_percent) +
  base*litho_percent/1\<close>; when it is positive and the reticle has positive area,
  \<open>reticle_utilization\<close> returns some \<open>ru > 0\<close> and the result is
  \<open>base*(1 - litho_percent) + base*litho_percent/ru\<close>; when it is negative the call
  exits.  For a positive area and a negative litho percent no value is ever returned.
\<close>

theorem layer_cost_cases:
  "layer_cost l 0 wp = Inr 0
   \<and> (ar < 0 \<longrightarrow> layer_cost l ar wp = Inl SystemExit)
   \<and> (0 < ar \<and> compute_cost_per_mm2 l ar wp = Inr c \<and> litho_percent l = 0 \<longrightarrow>
        layer_cost l ar wp
          = Inr (ar * c * (1 - litho_percent l) + ar * c * litho_percent l / 1))
   \<and> (0 < ar \<and> compute_cost_per_mm2 l ar wp = Inr c \<and> 0 < litho_percent l
        \<and> 0 < reticle_x wp * reticle_y wp \<longrightarrow>
        (\<exists>ru. reticle_utilization l ar (reticle_x wp) (reticle_y wp) = Inr ru \<and> 0 < ru
           \<and> layer_cost l ar wp
               = Inr (ar * c * (1 - litho_percent l) + ar * c * litho_percent l / ru)))
   \<and> (0 < ar \<and> litho_percent l < 0 \<longrightarrow>
        (\<forall>v. layer_cost l ar wp \<noteq> Inr v)
        \<and> (compute_cost_per_mm2 l ar wp = Inr c \<longrightarrow> layer_cost l ar wp = Inl SystemExit))"
proof (intro conjI impI)
  show "layer_cost l 0 wp = Inr 0" by (simp add: layer_cost_def)
next
  assume "ar < 0"
  then show "layer_cost l ar wp = Inl SystemExit" by (simp add: layer_cost_def)
next
  assume "0 < ar \<and> compute_cost_per_mm2 l ar wp = Inr c \<and> litho_percent l = 0"
  then show "layer_cost l ar wp
      = Inr (ar * c * (1 - litho_percent l) + ar * c * litho_percent l / 1)"
    by (simp add: layer_cost_def py_div_def)
next
  assume a: "0 < ar \<and> compute_cost_per_mm2 l ar wp = Inr c \<and> 0 < litho_percent l
        \<and> 0 < reticle_x wp * reticle_y wp"
  then obtain ru where ru: "reticle_utilization l ar (reticle_x wp) (reticle_y wp) = Inr ru"
    "0 < ru" using reticle_utilization_returns by blast
  then have "layer_cost l ar wp
      = Inr (ar * c * (1 - litho_percent l) + ar * c * litho_percent l / ru)"
    using a by (simp add: layer_cost_def py_div_def Let_def)
  with ru show "\<exists>ru. reticle_utilization l ar (reticle_x wp) (reticle_y wp) = Inr ru \<and> 0 < ru
           \<and> layer_cost l ar wp
               = Inr (ar * c * (1 - litho_percent l) + ar * c * litho_percent l / ru)"
    by blast
next
  assume a: "0 < ar \<and> litho_percent l < 0"
  show "\<forall>v. layer_cost l ar wp \<noteq> Inr v"
    using a by (cases "compute_cost_per_mm2 l ar wp") (simp_all add: layer_cost_def)
next
  assume a: "0 < ar \<and> litho_percent l < 0" and "compute_cost_per_mm2 l ar wp = Inr c"
  then show "layer_cost l ar wp = Inl SystemExit"
    by (simp add: layer_cost_def)
qed

theorem layer_cost_cases_witness:
  "layer_cost example_layer 0 example_wafer_process = Inr 0
   \<and> layer_cost example_layer (- 1) example_wafer_process = Inl SystemExit
   \<and> layer_cost (example_layer\<lparr>litho_percent := 0\<rparr>) 10000 example_wafer_process
       = Inr (10000 * 1000000000)
   \<and> layer_cost example_layer 10000 example_wafer_process
       = Inr (10000 * 1000000000 * (1 - 3 / 10)
              + 10000 * 1000000000 * (3 / 10) / (10000 / 10304))
   \<and> layer_cost negative_litho_layer 10000 example_wafer_process = Inl SystemExit"
proof -
  let ?wp = example_wafer_process
  have c: "compute_cost_per_mm2 l 10000 ?wp = Inr 1000000000" for l
    by (rule example_oversize)
  have ru: "reticle_utilization example_layer 10000 (reticle_x ?wp) (reticle_y ?wp)
              = Inr (10000 / 10304)"
    using example_reticle_utilization by (simp add: example_wafer_process_def)
  have lp: "litho_percent example_layer = 3 / 10" "litho_percent negative_litho_layer = - 1"
    "0 < reticle_x ?wp * reticle_y ?wp"
    by (simp_all add: example_layer_def negative_litho_layer_def example_wafer_process_def)
  have 1: "layer_cost example_layer 0 ?wp = Inr 0"
    and 2: "layer_cost example_layer (- 1) ?wp = Inl SystemExit"
    using layer_cost_cases [of example_layer ?wp "- 1" 0] by simp_all
  have 3: "layer_cost (example_layer\<lparr>litho_percent := 0\<rparr>) 10000 ?wp
             = Inr (10000 * 1000000000)"
    using layer_cost_cases [of "example_layer\<lparr>litho_percent := 0\<rparr>" ?wp 10000 1000000000] c
    by simp
  obtain r where r: "reticle_utilization example_layer 10000 (reticle_x ?wp) (reticle_y ?wp)
        = Inr r"
    "layer_cost example_layer 10000 ?wp
       = Inr (10000 * 1000000000 * (1 - litho_percent example_layer)
              + 10000 * 1000000000 * litho_percent example_layer / r)"
    using layer_cost_cases [of example_layer ?wp 10000 1000000000] c lp(3)
    by (auto simp: lp(1))
  have "r = 10000 / 10304" using r(1) ru by simp
  then have 4: "layer_cost example_layer 10000 ?wp
       = Inr (10000 * 1000000000 * (1 - 3 / 10)
              + 10000 * 1000000000 * (3 / 10) / (10000 / 10304))"
    using r(2) by (simp only: lp(1))
  have 5: "layer_cost negative_litho_layer 10000 ?wp = Inl SystemExit"
    using layer_cost_cases [of negative_litho_layer ?wp 10000 1000000000] c
    by (simp add: lp(2))
  show ?thesis using 1 2 3 4 5 by blast
qed

text \<open>
  Claim C6 as stated lets every negative litho percent end the program.  At area
  \<open>0\<close> the first branch returns \<open>0\<close> before the litho percent is looked at.
\<close>

theorem layer_cost_zero_area_counterexample:
  "litho_percent negative_litho_layer < 0
   \<and> layer_cost negative_litho_layer 0 example_wafer_process = Inr 0"
  by (simp add: negative_litho_layer_def layer_cost_def)

subsection \<open>Setters of a static object\<close>

lemma WaferProcess_static_setters:
  assumes "WaferProcess.static wp"
  shows "WaferProcess_set_name wp s = (1, wp)"
    and "WaferProcess_set_wafer_diameter wp x = (1, wp)"
    and "WaferProcess_set_edge_exclusion wp x = (1, wp)"
    and "WaferProcess_set_wafer_process_yield wp x = (1, wp)"
    and "WaferProcess_set_dicing_distance wp x = (1, wp)"
    and "WaferProcess_set_reticle_x wp x = (1, wp)"
    and "WaferProcess_set_reticle_y wp x = (1, wp)"
    and "WaferProcess_set_wafer_fill_grid wp v = (1, wp)"
    and "WaferProcess_set_nre_front_end_cost_per_mm2_memory wp x = (1, wp)"
    and "WaferProcess_set_nre_back_end_cost_per_mm2_memory wp x = (1, wp)"
    and "WaferProcess_set_nre_front_end_cost_per_mm2_logic wp x = (1, wp)"
    and "WaferProcess_set_nre_back_end_cost_per_mm2_logic wp x = (1, wp)"
    and "WaferProcess_set_nre_front_end_cost_per_mm2_analog wp x = (1, wp)"
    and "WaferProcess_set_nre_back_end_cost_per_mm2_analog wp x = (1, wp)"
  using assms
  by (simp_all add: WaferProcess_set_name_def
      WaferProcess_set_wafer_diameter_def
      WaferProcess_set_edge_exclusion_def
      WaferProcess_set_wafer_process_yield_def
      WaferProcess_set_dicing_distance_def
      WaferProcess_set_reticle_x_def
      WaferProcess_set_reticle_y_def
      WaferProcess_set_wafer_fill_grid_def
      WaferProcess_set_nre_front_end_cost_per_mm2_memory_def
      WaferProcess_set_nre_back_end_cost_per_mm2_memory_def
      WaferProcess_set_nre_front_end_cost_per_mm2_logic_def
      WaferProcess_set_nre_back_end_cost_per_mm2_logic_def
      WaferProcess_set_nre_front_end_cost_per_mm2_analog_def
      WaferProcess_set_nre_back_end_cost_per_mm2_analog_def)

lemma IO_static_setters:
  assumes "IO.static io"
  shows "IO_set_type io s = (1, io)"
    and "IO_set_rx_area io x = (1, io)"
    and "IO_set_tx_area io x = (1, io)"
    and "IO_set_shoreline io x = (1, io)"
    and "IO_set_bandwidth io x = (1, io)"
    and "IO_set_wire_count io n = (1, io)"
    and "IO_set_bidirectional io v = (1, io)"
    and "IO_set_energy_per_bit io x = (1, io)"
    and "IO_set_reach io x = (1, io)"
  using assms
  by (simp_all add: IO_set_type_def
      IO_set_rx_area_def
      IO_set_tx_area_def
      IO_set_shoreline_def
      IO_set_bandwidth_def
      IO_set_wire_count_def
      IO_set_bidirectional_def
      IO_set_energy_per_bit_def
      IO_set_reach_def)

lemma Layer_static_setters:
  assumes "Layer.static l"
  shows "Layer_set_name l s = (1, l)"
    and "Layer_set_active l b = (1, l)"
    and "Layer_set_cost_per_mm2 l x = (1, l)"
    and "Layer_set_defect_density l x = (1, l)"
    and "Layer_set_critical_area_ratio l x = (1, l)"
    and "Layer_set_clustering_factor l x = (1, l)"
    and "Layer_set_litho_percent l x = (1, l)"
    and "Layer_set_mask_cost l x = (1, l)"
    and "Layer_set_stitching_yield l x = (1, l)"
  using assms
  by (simp_all add: Layer_set_name_def
      Layer_set_active_def
      Layer_set_cost_per_mm2_def
      Layer_set_defect_density_def
      Layer_set_critical_area_ratio_def
      Layer_set_clustering_factor_def
      Layer_set_litho_percent_def
      Layer_set_mask_cost_def
      Layer_set_stitching_yield_def)

lemma Assembly_static_setters:
  assumes "Assembly.static a"
  shows "Assembly_set_name a s = (1, a)"
    and "Assembly_set_materials_cost_per_mm2 a r = (1, a)"
    and "Assembly_set_picknplace_machine_cost a r = (1, a)"
    and "Assembly_set_picknplace_machine_lifetime a r = (1, a)"
    and "Assembly_set_picknplace_machine_uptime a r = (1, a)"
    and "Assembly_set_picknplace_technician_yearly_cost a r = (1, a)"
    and "Assembly_set_picknplace_time a r = (1, a)"
    and "Assembly_set_picknplace_group a r = (1, a)"
    and "Assembly_set_bonding_machine_cost a r = (1, a)"
    and "Assembly_set_bonding_machine_lifetime a r = (1, a)"
    and "Assembly_set_bonding_machine_uptime a r = (1, a)"
    and "Assembly_set_bonding_technician_yearly_cost a r = (1, a)"
    and "Assembly_set_bonding_time a r = (1, a)"
    and "Assembly_set_bonding_group a r = (1, a)"
    and "Assembly_set_die_separation a r = (1, a)"
    and "Assembly_set_edge_exclusion a r = (1, a)"
    and "Assembly_set_bonding_pitch a r = (1, a)"
    and "Assembly_set_max_pad_current_density a r = (1, a)"
    and "Assembly_set_alignment_yield a r = (1, a)"
    and "Assembly_set_bonding_yield a r = (1, a)"
    and "Assembly_set_dielectric_bond_defect_density a r = (1, a)"
  using assms
  by (simp_all add: Assembly_set_name_def
      Assembly_set_materials_cost_per_mm2_def
      Assembly_set_picknplace_machine_cost_def
      Assembly_set_picknplace_machine_lifetime_def
      Assembly_set_picknplace_machine_uptime_def
      Assembly_set_picknplace_technician_yearly_cost_def
      Assembly_set_picknplace_time_def
      Assembly_set_picknplace_group_def
      Assembly_set_bonding_machine_cost_def
      Assembly_set_bonding_machine_lifetime_def
      Assembly_set_bonding_machine_uptime_def
      Assembly_set_bonding_technician_yearly_cost_def
      Assembly_set_bonding_time_def
      Assembly_set_bonding_group_def
      Assembly_set_die_separation_def
      Assembly_set_edge_exclusion_def
      Assembly_set_bonding_pitch_def
      Assembly_set_max_pad_current_density_def
      Assembly_set_alignment_yield_def
      Assembly_set_bonding_yield_def
      Assembly_set_dielectric_bond_defect_density_def)

lemma Test_static_setters:
  assumes "Test.static t"
  shows "Test_set_name t s = (1, t)"
    and "Test_set_test_self t b = (1, t)"
    and "Test_set_test_assembly t b = (1, t)"
    and "Test_set_self_defect_coverage t x = (1, t)"
    and "Test_set_assembly_defect_coverage t x = (1, t)"
    and "Test_set_self_test_cost_per_mm2 t x = (1, t)"
    and "Test_set_assembly_test_cost_per_mm2 t x = (1, t)"
    and "Test_set_self_pattern_count t n = (1, t)"
    and "Test_set_assembly_pattern_count t n = (1, t)"
    and "Test_set_self_test_failure_dist t n = (1, t)"
    and "Test_set_assembly_test_failure_dist t n = (1, t)"
  using assms
  by (simp_all add: Test_set_name_def
      Test_set_test_self_def
      Test_set_test_assembly_def
      Test_set_self_defect_coverage_def
      Test_set_assembly_defect_coverage_def
      Test_set_self_test_cost_per_mm2_def
      Test_set_assembly_test_cost_per_mm2_def
      Test_set_self_pattern_count_def
      Test_set_assembly_pattern_count_def
      Test_set_self_test_failure_dist_def
      Test_set_assembly_test_failure_dist_def)

lemma Chip_static_setters:
  assumes "Chip_attrs.static (attrs c)"
  shows "Chip_set_name c s = (1, c)"
    and "Chip_set_aspect_ratio c x = (1, c)"
    and "Chip_set_x_location c xo = (1, c)"
    and "Chip_set_y_location c xo = (1, c)"
    and "Chip_set_core_area c x = (1, c)"
    and "Chip_set_fraction_memory c x = (1, c)"
    and "Chip_set_fraction_logic c x = (1, c)"
    and "Chip_set_fraction_analog c x = (1, c)"
    and "Chip_set_reticle_share c x = (1, c)"
    and "Chip_set_buried c b = (1, c)"
    and "Chip_set_self_cost c x = (1, c)"
    and "Chip_set_cost c x = (1, c)"
    and "Chip_set_self_true_yield c x = (1, c)"
    and "Chip_set_chip_true_yield c x = (1, c)"
    and "Chip_set_self_test_yield c x = (1, c)"
    and "Chip_set_chip_test_yield c x = (1, c)"
    and "Chip_set_self_quality c x = (1, c)"
    and "Chip_set_quality c x = (1, c)"
    and "Chip_set_assembly_process c a2 = (1, c)"
    and "Chip_set_stackup c ls = (1, c)"
    and "Chip_set_test_process c t2 = (1, c)"
    and "Chip_set_power c x = (1, c)"
    and "Chip_set_core_voltage c x = (1, c)"
    and "Chip_set_io_power c x = (1, c)"
    and "Chip_set_total_power c x = (1, c)"
    and "Chip_set_quantity c n = (1, c)"
    and "Chip_set_chip_definitions c es = Inr (1, c)"
  using assms
  by (simp_all add: Chip_set_name_def
      Chip_set_aspect_ratio_def
      Chip_set_x_location_def
      Chip_set_y_location_def
      Chip_set_core_area_def
      Chip_set_fraction_memory_def
      Chip_set_fraction_logic_def
      Chip_set_fraction_analog_def
      Chip_set_reticle_share_def
      Chip_set_buried_def
      Chip_set_self_cost_def
      Chip_set_cost_def
      Chip_set_self_true_yield_def
      Chip_set_chip_true_yield_def
      Chip_set_self_test_yield_def
      Chip_set_chip_test_yield_def
      Chip_set_self_quality_def
      Chip_set_quality_def
      Chip_set_assembly_process_def
      Chip_set_stackup_def
      Chip_set_test_process_def
      Chip_set_power_def
      Chip_set_core_voltage_def
      Chip_set_io_power_def
      Chip_set_total_power_def
      Chip_set_quantity_def
      Chip_set_chip_definitions_def)

text \<open>
  Claim C8, as amended.  On an object whose \<open>static\<close> flag is set (wafer process,
  interconnect type, layer, assembly process, test process, chip), every setter that
  stores a value given by the caller returns \<open>1\<close> and returns the object unchanged,
  without raising.  The setters that take no value and recompute an attribute
  (\<open>set_area\<close> and \<open>set_nre_design_cost\<close> of a chip, the two
  \<open>set_..._cost_per_second\<close> of an assembly process) do not look at the flag: when
  they return, they return \<open>0\<close>.
\<close>

theorem static_setters_fail:
  assumes "WaferProcess.static wp" and "IO.static io" and "Layer.static l"
    and "Assembly.static a" and "Test.static t" and "Chip_attrs.static (attrs c)"
  shows "WaferProcess_set_name wp s = (1, wp)
     \<and> WaferProcess_set_wafer_diameter wp x = (1, wp)
     \<and> WaferProcess_set_edge_exclusion wp x = (1, wp)
     \<and> WaferProcess_set_wafer_process_yield wp x = (1, wp)
     \<and> WaferProcess_set_dicing_distance wp x = (1, wp)
     \<and> WaferProcess_set_reticle_x wp x = (1, wp)
     \<and> WaferProcess_set_reticle_y wp x = (1, wp)
     \<and> WaferProcess_set_wafer_fill_grid wp v = (1, wp)
     \<and> WaferProcess_set_nre_front_end_cost_per_mm2_memory wp x = (1, wp)
     \<and> WaferProcess_set_nre_back_end_cost_per_mm2_memory wp x = (1, wp)
     \<and> WaferProcess_set_nre_front_end_cost_per_mm2_logic wp x = (1, wp)
     \<and> WaferProcess_set_nre_back_end_cost_per_mm2_logic wp x = (1, wp)
     \<and> WaferProcess_set_nre_front_end_cost_per_mm2_analog wp x = (1, wp)
     \<and> WaferProcess_set_nre_back_end_cost_per_mm2_analog wp x = (1, wp)
     \<and> IO_set_type io s = (1, io)
     \<and> IO_set_rx_area io x = (1, io)
     \<and> IO_set_tx_area io x = (1, io)
     \<and> IO_set_shoreline io x = (1, io)
     \<and> IO_set_bandwidth io x = (1, io)
     \<and> IO_set_wire_count io n = (1, io)
     \<and> IO_set_bidirectional io v = (1, io)
     \<and> IO_set_energy_per_bit io x = (1, io)
     \<and> IO_set_reach io x = (1, io)
     \<and> Layer_set_name l s = (1, l)
     \<and> Layer_set_active l b = (1, l)
     \<and> Layer_set_cost_per_mm2 l x = (1, l)
     \<and> Layer_set_defect_density l x = (1, l)
     \<and> Layer_set_critical_area_ratio l x = (1, l)
     \<and> Layer_set_clustering_factor l x = (1, l)
     \<and> Layer_set_litho_percent l x = (1, l)
     \<and> Layer_set_mask_cost l x = (1, l)
     \<and> Layer_set_stitching_yield l x = (1, l)
     \<and> Assembly_set_name a s = (1, a)
     \<and> Assembly_set_materials_cost_per_mm2 a r = (1, a)
     \<and> Assembly_set_picknplace_machine_cost a r = (1, a)
     \<and> Assembly_set_picknplace_machine_lifetime a r = (1, a)
     \<and> Assembly_set_picknplace_machine_uptime a r = (1, a)
     \<and> Assembly_set_picknplace_technician_yearly_cost a r = (1, a)
     \<and> Assembly_set_picknplace_time a r = (1, a)
     \<and> Assembly_set_picknplace_group a r = (1, a)
     \<and> Assembly_set_bonding_machine_cost a r = (1, a)
     \<and> Assembly_set_bonding_machine_lifetime a r = (1, a)
     \<and> Assembly_set_bonding_machine_uptime a r = (1, a)
     \<and> Assembly_set_bonding_technician_yearly_cost a r = (1, a)
     \<and> Assembly_set_bonding_time a r = (1, a)
     \<and> Assembly_set_bonding_group a r = (1, a)
     \<and> Assembly_set_die_separation a r = (1, a)
     \<and> Assembly_set_edge_exclusion a r = (1, a)
     \<and> Assembly_set_bonding_pitch a r = (1, a)
     \<and> Assembly_set_max_pad_current_density a r = (1, a)
     \<and> Assembly_set_alignment_yield a r = (1, a)
     \<and> Assembly_set_bonding_yield a r = (1, a)
     \<and> Assembly_set_dielectric_bond_defect_density a r = (1, a)
     \<and> Test_set_name t s = (1, t)
     \<and> Test_set_test_self t b = (1, t)
     \<and> Test_set_test_assembly t b = (1, t)
     \<and> Test_set_self_defect_coverage t x = (1, t)
     \<and> Test_set_assembly_defect_coverage t x = (1, t)
     \<and> Test_set_self_test_cost_per_mm2 t x = (1, t)
     \<and> Test_set_assembly_test_cost_per_mm2 t x = (1, t)
     \<and> Test_set_self_pattern_count t n = (1, t)
     \<and> Test_set_assembly_pattern_count t n = (1, t)
     \<and> Test_set_self_test_failure_dist t n = (1, t)
     \<and> Test_set_assembly_test_failure_dist t n = (1, t)
     \<and> Chip_set_name c s = (1, c)
     \<and> Chip_set_aspect_ratio c x = (1, c)
     \<and> Chip_set_x_location c xo = (1, c)
     \<and> Chip_set_y_location c xo = (1, c)
     \<and> Chip_set_core_area c x = (1, c)
     \<and> Chip_set_fraction_memory c x = (1, c)
     \<and> Chip_set_fraction_logic c x = (1, c)
     \<and> Chip_set_fraction_analog c x = (1, c)
     \<and> Chip_set_reticle_share c x = (1, c)
     \<and> Chip_set_buried c b = (1, c)
     \<and> Chip_set_self_cost c x = (1, c)
     \<and> Chip_set_cost c x = (1, c)
     \<and> Chip_set_self_true_yield c x = (1, c)
     \<and> Chip_set_chip_true_yield c x = (1, c)
     \<and> Chip_set_self_test_yield c x = (1, c)
     \<and> Chip_set_chip_test_yield c x = (1, c)
     \<and> Chip_set_self_quality c x = (1, c)
     \<and> Chip_set_quality c x = (1, c)
     \<and> Chip_set_assembly_process c a2 = (1, c)
     \<and> Chip_set_stackup c ls = (1, c)
     \<and> Chip_set_test_process c t2 = (1, c)
     \<and> Chip_set_power c x = (1, c)
     \<and> Chip_set_core_voltage c x = (1, c)
     \<and> Chip_set_io_power c x = (1, c)
     \<and> Chip_set_total_power c x = (1, c)
     \<and> Chip_set_quantity c n = (1, c)
     \<and> Chip_set_chip_definitions c es = Inr (1, c)
     \<and> fst (Chip_set_nre_design_cost c) = 0
     \<and> (\<forall>r c'. Chip_set_area c = Inr (r, c') \<longrightarrow> r = 0)
     \<and> (\<forall>r a'. Assembly_set_picknplace_cost_per_second a1 = Inr (r, a') \<longrightarrow> r = 0)
     \<and> (\<forall>r a'. Assembly_set_bonding_cost_per_second a1 = Inr (r, a') \<longrightarrow> r = 0)"
proof -
  have unguarded: "fst (Chip_set_nre_design_cost c) = 0
     \<and> (\<forall>r c'. Chip_set_area c = Inr (r, c') \<longrightarrow> r = 0)
     \<and> (\<forall>r a'. Assembly_set_picknplace_cost_per_second a1 = Inr (r, a') \<longrightarrow> r = 0)
     \<and> (\<forall>r a'. Assembly_set_bonding_cost_per_second a1 = Inr (r, a') \<longrightarrow> r = 0)"
    by (auto simp: Chip_set_nre_design_cost_def Chip_set_area_def
          Assembly_set_picknplace_cost_per_second_def Assembly_set_bonding_cost_per_second_def
          and_then_eq_Inr)
  show ?thesis
    using unguarded
    by (simp add: WaferProcess_static_setters [OF assms(1)] IO_static_setters [OF assms(2)]
          Layer_static_setters [OF assms(3)] Assembly_static_setters [OF assms(4)]
          Test_static_setters [OF assms(5)] Chip_static_setters [OF assms(6)])
qed

theorem static_setters_fail_witness:
  "WaferProcess.static example_wafer_process \<and> IO.static example_io
   \<and> Layer.static example_layer \<and> Assembly.static example_assembly
   \<and> Test.static example_test \<and> Chip_attrs.static (attrs example_static_chip)
   \<and> WaferProcess_set_name example_wafer_process ''other'' = (1, example_wafer_process)
   \<and> IO_set_bidirectional example_io (PyStr ''False'') = (1, example_io)
   \<and> Layer_set_litho_percent example_layer 0 = (1, example_layer)
   \<and> Assembly_set_bonding_pitch example_assembly 1 = (1, example_assembly)
   \<and> Test_set_test_self example_test True = (1, example_test)
   \<and> Chip_set_core_area example_static_chip 20 = (1, example_static_chip)
   \<and> fst (Chip_set_nre_design_cost example_static_chip) = 0"
proof -
  have h: "WaferProcess.static example_wafer_process" "IO.static example_io"
    "Layer.static example_layer" "Assembly.static example_assembly"
    "Test.static example_test" "Chip_attrs.static (attrs example_static_chip)"
    by (simp_all add: example_wafer_process_def example_io_def example_layer_def
          example_assembly_def example_test_def example_static_chip_def Chip_set_static_def
          with_attrs_def)
  show ?thesis
    using h static_setters_fail [OF h, where s = "''other''" and v = "PyStr ''False''"
        and x = 0 and r = 1 and b = True]
      static_setters_fail [OF h, where x = 20]
    by simp
qed

text \<open>
  Claim C8 as stated covers every setter.  The assembly process of the unit tests is
  static, and its \<open>set_picknplace_cost_per_second\<close> returns \<open>0\<close> and stores a
  cost per second in it.
\<close>

theorem static_setter_recomputes_counterexample:
  "Assembly.static example_assembly
   \<and> Assembly_set_picknplace_cost_per_second example_assembly
       = Inr (0, example_assembly\<lparr>picknplace_cost_per_second := Some (5 / 438)\<rparr>)
   \<and> example_assembly\<lparr>picknplace_cost_per_second := Some (5 / 438)\<rparr> \<noteq> example_assembly"
  by (simp add: example_assembly_def Assembly_set_picknplace_cost_per_second_def
        compute_picknplace_cost_per_second_def compute_picknplace_cost_per_second_of_def
        cost_per_second_of_def py_div_def)

subsection \<open>Loops that add up\<close>

lemma for_each_eq_Inr_Cons:
  "for_each body (x # xs) s = Inr s' \<longleftrightarrow> (\<exists>s1. body x s = Inr s1 \<and> for_each body xs s1 = Inr s')"
  by (simp add: and_then_eq_Inr)

lemma py_index_eq_Inr: "py_index xs i = Inr v \<longleftrightarrow> i < length xs \<and> v = xs ! i"
  by (auto simp: py_index_def)

lemma for_each_fst_sum:
  assumes "for_each body xs s = Inr s'"
    and "\<And>x s s1. x \<in> set xs \<Longrightarrow> body x s = Inr s1 \<Longrightarrow> fst s1 = fst s + f x"
  shows "fst s' = fst s + sum_list (map f xs)"
  using assms
proof (induction xs arbitrary: s)
  case Nil
  then show ?case by simp
next
  case (Cons x xs)
  from Cons.prems(1) have "\<exists>s1. body x s = Inr s1 \<and> for_each body xs s1 = Inr s'"
    by (simp only: for_each_eq_Inr_Cons)
  then obtain s1 where s1: "body x s = Inr s1" "for_each body xs s1 = Inr s'"
    by blast
  have "fst s1 = fst s + f x" using Cons.prems(2)[of x s s1] s1 by simp
  moreover have "fst s' = fst s1 + sum_list (map f xs)"
    using Cons.IH[OF s1(2)] Cons.prems(2) by simp
  ultimately show ?case by (simp add: add.assoc)
qed

lemma sum_list_scaled_external:
  "(\<Sum>j \<leftarrow> js. if P j then 0 else g j * (k::real)) = (\<Sum>j \<leftarrow> js. if P j then 0 else g j) * k"
  by (induction js) (simp_all add: algebra_simps)

lemma for_each_sum:
  assumes "\<And>x s. x \<in> set xs \<Longrightarrow> body x s = Inr (s + f x)"
  shows "for_each body xs s = Inr (s + sum_list (map f xs))"
  using assms by (induction xs arbitrary: s) (simp_all add: add.assoc)

subsection \<open>Area of the interconnect pads\<close>

lemma io_after_search_find:
  "\<exists>io \<in> set ios'. IO.type io = t \<Longrightarrow>
   io_after_search ios' t b = List.find (\<lambda>io. IO.type io = t) ios'"
  by (induction ios' arbitrary: b) auto

lemma io_of_type_interconnect:
  assumes "\<exists>io \<in> set ios'. IO.type io = t"
  shows "io_of_type ios' t = Inr (interconnect_of ios' t)"
proof -
  from assms have "List.find (\<lambda>io. IO.type io = t) ios' \<noteq> None"
    by (auto simp: find_None_iff)
  then obtain io where "List.find (\<lambda>io. IO.type io = t) ios' = Some io"
    by auto
  then show ?thesis
    using io_after_search_find[OF assms, of None]
    by (simp add: io_of_type_def interconnect_of_def)
qed

lemma first_block_index_less:
  assumes "first_block_index names n = Some bi"
  shows "bi < length names"
proof -
  from assms obtain rest where "filter (\<lambda>i. names ! i = n) [0..<length names] = bi # rest"
    by (auto simp: first_block_index_def split: list.splits)
  then have "bi \<in> set (filter (\<lambda>i. names ! i = n) [0..<length names])"
    by (metis list.set_intros(1))
  then show ?thesis by simp
qed

lemma sum_list_row: "sum_list (row :: real list) = (\<Sum>j \<leftarrow> [0..<length row]. row ! j)"
  by (simp add: map_nth)

lemma row_weighted:
  assumes "length (M ! bi) = n" and "\<forall>j<n. M ! j ! bi = M ! bi ! j"
  shows "sum_list (M ! bi) * tx + sum_list (M ! bi) * (rx::real)
       = (\<Sum>j \<leftarrow> [0..<n]. M ! bi ! j * tx + M ! j ! bi * rx)"
proof -
  have "(\<Sum>j \<leftarrow> [0..<n]. M ! bi ! j * tx + M ! j ! bi * rx)
      = (\<Sum>j \<leftarrow> [0..<n]. M ! bi ! j * (tx + rx))"
    using assms(2) by (intro arg_cong[where f = sum_list] map_cong) (simp_all add: algebra_simps)
  also have "\<dots> = (\<Sum>j \<leftarrow> [0..<n]. M ! bi ! j) * (tx + rx)"
    by (simp add: sum_list_mult_const)
  also have "\<dots> = sum_list (M ! bi) * (tx + rx)"
    using assms(1) sum_list_row[of "M ! bi"] by simp
  finally show ?thesis by (simp add: algebra_simps)
qed

lemma get_io_area_all_blocks:
  assumes "first_block_index (Chip_attrs.block_names (attrs self)) (get_name self) = Some bi"
    and "\<forall>(io_type, M) \<in> set (global_adjacency_matrix (attrs self)).
           length M = length (Chip_attrs.block_names (attrs self))
           \<and> length (M ! bi) = length (Chip_attrs.block_names (attrs self))
           \<and> (\<forall>j < length (Chip_attrs.block_names (attrs self)). M ! j ! bi = M ! bi ! j)
           \<and> (\<exists>io \<in> set (io_list (attrs self)). IO.type io = io_type)"
  shows "get_io_area self = Inr (all_blocks_io_area self bi)"
proof -
  let ?n = "length (Chip_attrs.block_names (attrs self))"
  let ?ios = "io_list (attrs self)"
  let ?f = "\<lambda>(io_type, M). \<Sum>j \<leftarrow> [0..<?n].
            M ! bi ! j * tx_area (interconnect_of ?ios io_type)
          + M ! j ! bi * rx_area (interconnect_of ?ios io_type)"
  have bi: "bi < ?n" using assms(1) by (rule first_block_index_less)
  have "for_each (\<lambda>(io_type, matrix) io_area.
              let found = io_of_type ?ios io_type in
              and_then (py_index matrix bi) (\<lambda>row.
              and_then found (\<lambda>io.
              and_then (py_index (py_slice_all matrix) bi) (\<lambda>column.
              Inr (io_area + (sum_list (py_slice_all row) * tx_area io
                              + sum_list column * rx_area io))))))
            (global_adjacency_matrix (attrs self)) 0
        = Inr (0 + sum_list (map ?f (global_adjacency_matrix (attrs self))))"
  proof (rule for_each_sum)
    fix x s assume x: "x \<in> set (global_adjacency_matrix (attrs self))"
    obtain t M where tm: "x = (t, M)" by (cases x)
    from assms(2) x tm have h: "length M = ?n" "length (M ! bi) = ?n"
      "\<forall>j < ?n. M ! j ! bi = M ! bi ! j" "\<exists>io \<in> set ?ios. IO.type io = t"
      by auto
    show "(case x of (io_type, matrix) \<Rightarrow> \<lambda>io_area.
              let found = io_of_type ?ios io_type in
              and_then (py_index matrix bi) (\<lambda>row.
              and_then found (\<lambda>io.
              and_then (py_index (py_slice_all matrix) bi) (\<lambda>column.
              Inr (io_area + (sum_list (py_slice_all row) * tx_area io
                              + sum_list column * rx_area io)))))) s
          = Inr (s + ?f x)"
      using bi h(1) row_weighted[OF h(2) h(3)] io_of_type_interconnect[OF h(4)]
      by (simp add: tm py_index_def py_slice_all_def)
  qed
  then show ?thesis
    using assms(1) by (simp add: get_io_area_def all_blocks_io_area_def)
qed

lemma example_stack_fields:
  "Chip_attrs.block_names (attrs example_stack) = [''A'', ''B'']"
  "get_name example_stack = ''A''"
  "global_adjacency_matrix (attrs example_stack) = [(''test_io_process'', [[0, 3], [3, 0]])]"
  "io_list (attrs example_stack) = [example_io]"
  "subtree_names example_stack = [''A'', ''B'']"
  by (simp_all add: example_stack_def example_chip_def example_netlist_def)

lemma upt_2: "[0..<2] = [0, Suc 0]"
  by (simp add: upt_rec)

lemma example_first: "first_block_index [''A'', ''B''] ''A'' = Some 0"
  by (simp add: first_block_index_def upt_2)

lemma example_stack_io_area:
  "get_io_area example_stack = Inr 9"
  by (simp add: get_io_area_def example_stack_fields example_first io_of_type_def
        py_index_def py_slice_all_def example_io_def)

lemma example_stack_ext: "external_io_area example_stack 0 = 0"
  by (simp add: external_io_area_def example_stack_fields upt_2)

text \<open>
  Claim C5, as amended.  For a chip whose name is in the block-name list, when every
  interconnect type of the netlist is defined in the interconnect list and every matrix
  is square over the block names with its row at the chip's index equal to its column at
  that index, \<open>get_io_area\<close> returns the sum, over every interconnect type and over
  every block (those inside the chip's own subtree included), of the row entries at the
  chip's index weighted by the tx pad area plus the column entries weighted by the rx pad
  area.
\<close>

theorem get_io_area_counts_every_block:
  assumes "first_block_index (Chip_attrs.block_names (attrs self)) (get_name self) = Some bi"
    and "\<forall>(io_type, M) \<in> set (global_adjacency_matrix (attrs self)).
           length M = length (Chip_attrs.block_names (attrs self))
           \<and> length (M ! bi) = length (Chip_attrs.block_names (attrs self))
           \<and> (\<forall>j < length (Chip_attrs.block_names (attrs self)). M ! j ! bi = M ! bi ! j)
           \<and> (\<exists>io \<in> set (io_list (attrs self)). IO.type io = io_type)"
  shows "get_io_area self = Inr (all_blocks_io_area self bi)"
  using assms by (rule get_io_area_all_blocks)

theorem get_io_area_counts_every_block_witness:
  "first_block_index (Chip_attrs.block_names (attrs example_stack)) (get_name example_stack)
     = Some 0
   \<and> global_adjacency_matrix (attrs example_stack) = [(''test_io_process'', [[0, 3], [3, 0]])]
   \<and> get_io_area example_stack = Inr (all_blocks_io_area example_stack 0)
   \<and> all_blocks_io_area example_stack 0 = 9"
proof -
  have 1: "first_block_index (Chip_attrs.block_names (attrs example_stack))
             (get_name example_stack) = Some 0"
    by (simp add: example_stack_fields example_first)
  have 2: "\<forall>(io_type, M) \<in> set (global_adjacency_matrix (attrs example_stack)).
           length M = length (Chip_attrs.block_names (attrs example_stack))
           \<and> length (M ! 0) = length (Chip_attrs.block_names (attrs example_stack))
           \<and> (\<forall>j < length (Chip_attrs.block_names (attrs example_stack)). M ! j ! 0 = M ! 0 ! j)
           \<and> (\<exists>io \<in> set (io_list (attrs example_stack)). IO.type io = io_type)"
    by (auto simp: example_stack_fields example_io_def less_Suc_eq)
  have 3: "all_blocks_io_area example_stack 0 = 9"
    by (simp add: all_blocks_io_area_def example_stack_fields upt_2 interconnect_of_def
          example_io_def)
  show ?thesis
    using get_io_area_counts_every_block [OF 1 2] 1 3
    by (simp add: example_stack_fields)
qed

text \<open>
  Claim C5 as stated leaves out the blocks inside the chip's own subtree.  Chip \<open>A\<close>
  with the stacked chip \<open>B\<close> and three wires each way between them has no wire to
  a block outside its subtree, and \<open>get_io_area\<close> returns \<open>9\<close>.
\<close>

theorem get_io_area_internal_blocks_counterexample:
  "first_block_index (Chip_attrs.block_names (attrs example_stack)) (get_name example_stack)
     = Some 0
   \<and> get_io_area example_stack = Inr 9 \<and> external_io_area example_stack 0 = 0"
  by (simp add: example_stack_fields example_first example_stack_io_area example_stack_ext)

text \<open>
  The column \<open>matrix[:][block_index]\<close> of the source is the row again: with three
  wires sent and five received the area is \<open>3*2 + 3*1\<close>, not \<open>3*2 + 5*1\<close>.
\<close>

lemma get_io_area_reads_row_twice:
  "get_io_area skewed_leaf = Inr 9 \<and> all_blocks_io_area skewed_leaf 0 = 11"
  by (simp add: skewed_leaf_def example_chip_def get_io_area_def all_blocks_io_area_def
        example_first io_of_type_def py_index_def py_slice_all_def example_io_def upt_2
        interconnect_of_def)

subsection \<open>The bidirectional flag of an interconnect\<close>

lemma get_signal_count_single_type:
  assumes "get_signal_count self il = Inr (sc, d)"
    and "last_block_index (Chip_attrs.block_names (attrs self)) (get_name self) = Some bi"
    and "global_adjacency_matrix (attrs self) = [(ty, M)]"
    and "io_of_type (io_list (attrs self)) ty = Inr io"
  shows "sc = counted_wires M bi (internal_indices (Chip_attrs.block_names (attrs self)) il)
              * of_int (wire_count io)
              * (if truthy (get_bidirectional io) then 1 / 2 else 1)"
proof -
  let ?I = "internal_indices (Chip_attrs.block_names (attrs self)) il"
  let ?f = "if truthy (get_bidirectional io) then 1 / 2 else (1::real)"
  let ?body = "\<lambda>j (signal_count, signal_with_reach_count).
                  if j \<in> set ?I
                  then Inr (signal_count, signal_with_reach_count)
                  else
                    and_then (py_index (M ! bi) j) (\<lambda>sent.
                    and_then (py_index M j) (\<lambda>row_j.
                    and_then (py_index row_j bi) (\<lambda>received.
                    let wires = (sent + received) * of_int (wire_count io) * ?f
                    in Inr (signal_count + wires,
                            dict_add signal_with_reach_count (reach io) wires))))"
  from assms have run: "bi < length M"
    "for_each ?body [0..<length (M ! bi)] (0, []) = Inr (sc, d)"
    by (auto simp: get_signal_count_def Let_def and_then_eq_Inr py_index_eq_Inr py_slice_all_def)
  have step: "fst s1 = fst s
        + (if j \<in> set ?I then 0 else (M ! bi ! j + M ! j ! bi) * of_int (wire_count io) * ?f)"
    if "?body j s = Inr s1" for j s s1
    using that
    by (cases s) (auto simp: and_then_eq_Inr py_index_eq_Inr Let_def split: if_splits)
  have "fst (sc, d) = fst (0::real, []::(real \<times> real) list)
      + (\<Sum>j \<leftarrow> [0..<length (M ! bi)].
           if j \<in> set ?I then 0 else (M ! bi ! j + M ! j ! bi) * of_int (wire_count io) * ?f)"
    using run(2) step by (rule for_each_fst_sum)
  then show ?thesis
    by (simp add: counted_wires_def sum_list_scaled_external [symmetric] mult.assoc
             del: truthy.simps)
qed

lemma IO_init_eq_Inr:
  "IO_init t rx tx sh bw wc b e r st = Inr io \<Longrightarrow> bidirectional io = b"
  by (auto simp: IO_init_def Let_def split: if_splits)

text \<open>
  Claim C10.  An \<open>IO\<close> object that the constructor returns holds in
  \<open>bidirectional\<close> the constructor's argument as it was passed, not the parsed
  boolean.  Built with the string \<open>False\<close> it is truthy, and \<open>get_signal_count\<close>
  of a chip whose netlist has one interconnect type, served by this object, counts the
  external wires times the wire count times \<open>0.5\<close>.
\<close>

theorem IO_bidirectional_is_raw_argument:
  "(IO_init t rx tx sh bw wc b e r st = Inr io \<longrightarrow> get_bidirectional io = b)
   \<and> (IO_init t rx tx sh bw wc (PyStr ''False'') e r st = Inr io \<longrightarrow>
        truthy (get_bidirectional io)
        \<and> (\<forall>self il sc d bi ty M.
              get_signal_count self il = Inr (sc, d)
              \<and> last_block_index (Chip_attrs.block_names (attrs self)) (get_name self) = Some bi
              \<and> global_adjacency_matrix (attrs self) = [(ty, M)]
              \<and> io_list (attrs self) = [io]
              \<longrightarrow> sc = counted_wires M bi
                          (internal_indices (Chip_attrs.block_names (attrs self)) il)
                        * of_int (wire_count io) * (1 / 2)))"
proof (intro conjI impI allI)
  assume "IO_init t rx tx sh bw wc b e r st = Inr io"
  then show "get_bidirectional io = b"
    by (simp add: get_bidirectional_def IO_init_eq_Inr)
next
  assume a: "IO_init t rx tx sh bw wc (PyStr ''False'') e r st = Inr io"
  then show "truthy (get_bidirectional io)"
    by (simp add: get_bidirectional_def IO_init_eq_Inr)
next
  fix self il sc d bi ty M
  assume a: "IO_init t rx tx sh bw wc (PyStr ''False'') e r st = Inr io"
    and b: "get_signal_count self il = Inr (sc, d)
              \<and> last_block_index (Chip_attrs.block_names (attrs self)) (get_name self) = Some bi
              \<and> global_adjacency_matrix (attrs self) = [(ty, M)]
              \<and> io_list (attrs self) = [io]"
  have t: "truthy (get_bidirectional io)"
    using a by (simp add: get_bidirectional_def IO_init_eq_Inr)
  have "io_of_type (io_list (attrs self)) ty = Inr io"
    using b by (simp add: io_of_type_def)
  with b t show "sc = counted_wires M bi
                          (internal_indices (Chip_attrs.block_names (attrs self)) il)
                        * of_int (wire_count io) * (1 / 2)"
    using get_signal_count_single_type [of self il sc d bi ty M io] by simp
qed

lemma false_string_io_built: "false_string_io = Inr false_string_interconnect"
  by (simp add: false_string_io_def IO_init_def false_string_interconnect_def example_io_def)

lemma example_leaf_fields:
  "Chip_attrs.block_names (attrs example_leaf) = [''A'', ''B'']"
  "get_name example_leaf = ''A''"
  "global_adjacency_matrix (attrs example_leaf) = [(''test_io_process'', [[0, 3], [3, 0]])]"
  "io_list (attrs example_leaf) = [false_string_interconnect]"
  "get_chip_list example_leaf = [Block ''A'']"
  by (simp_all add: example_leaf_def example_chip_def example_netlist_def with_attrs_def)

lemma example_last: "last_block_index [''A'', ''B''] ''A'' = Some 0"
  by (simp add: last_block_index_def upt_2)

lemma example_internal: "internal_indices [''A'', ''B''] [Block ''A''] = [0]"
  by (simp add: internal_indices_def upt_2)

lemma example_leaf_signal_count:
  "get_signal_count example_leaf (get_chip_list example_leaf) = Inr (12, [(5, 12)])"
  apply (simp add: example_leaf_fields)
  apply (simp add: get_signal_count_def)
  apply (simp add: example_leaf_fields example_last example_internal)
  apply (simp add: io_of_type_def py_index_def py_slice_all_def false_string_interconnect_def
        example_io_def get_bidirectional_def upt_2 dict_add_def)
  done

theorem IO_bidirectional_is_raw_argument_witness:
  "IO_init (Some ''test_io_process'') (Some 1) (Some 2) (Some (1 / 2)) (Some 3) (Some 4)
       (PyStr ''False'') (Some (9 / 10)) (Some 5) True = Inr false_string_interconnect
   \<and> get_bidirectional false_string_interconnect = PyStr ''False''
   \<and> truthy (get_bidirectional false_string_interconnect)
   \<and> get_signal_count example_leaf (get_chip_list example_leaf) = Inr (12, [(5, 12)])
   \<and> (12::real) = counted_wires [[0, 3], [3, 0]] 0 [0] * of_int 4 * (1 / 2)"
proof -
  have 1: "IO_init (Some ''test_io_process'') (Some 1) (Some 2) (Some (1 / 2)) (Some 3) (Some 4)
       (PyStr ''False'') (Some (9 / 10)) (Some 5) True = Inr false_string_interconnect"
    using false_string_io_built by (simp add: false_string_io_def)
  have 2: "get_signal_count example_leaf (get_chip_list example_leaf) = Inr (12, [(5, 12)])
      \<and> last_block_index (Chip_attrs.block_names (attrs example_leaf)) (get_name example_leaf)
          = Some 0
      \<and> global_adjacency_matrix (attrs example_leaf) = [(''test_io_process'', [[0, 3], [3, 0]])]
      \<and> io_list (attrs example_leaf) = [false_string_interconnect]"
    using example_leaf_signal_count by (simp add: example_leaf_fields example_last)
  have 3: "wire_count false_string_interconnect = 4"
    by (simp add: false_string_interconnect_def example_io_def)
  from IO_bidirectional_is_raw_argument
         [of "Some ''test_io_process''" "Some 1" "Some 2" "Some (1 / 2)" "Some 3" "Some 4"
             "PyStr ''False''" "Some (9 / 10)" "Some 5" True false_string_interconnect] 1
  have a: "get_bidirectional false_string_interconnect = PyStr ''False''"
    and b: "truthy (get_bidirectional false_string_interconnect)"
    and c: "\<forall>self il sc d bi ty M.
              get_signal_count self il = Inr (sc, d)
              \<and> last_block_index (Chip_attrs.block_names (attrs self)) (get_name self) = Some bi
              \<and> global_adjacency_matrix (attrs self) = [(ty, M)]
              \<and> io_list (attrs self) = [false_string_interconnect]
              \<longrightarrow> sc = counted_wires M bi
                          (internal_indices (Chip_attrs.block_names (attrs self)) il)
                        * of_int (wire_count false_string_interconnect) * (1 / 2)"
    by blast+
  from c 2 have "(12::real) = counted_wires [[0, 3], [3, 0]] 0
                          (internal_indices (Chip_attrs.block_names (attrs example_leaf))
                             (get_chip_list example_leaf))
                        * of_int (wire_count false_string_interconnect) * (1 / 2)"
    by blast
  then have "(12::real) = counted_wires [[0, 3], [3, 0]] 0 [0] * of_int 4 * (1 / 2)"
    by (simp only: example_leaf_fields example_internal 3)
  with 1 2 a b show ?thesis by blast
qed

subsection \<open>The chip constructor\<close>

lemma attrs_with_attrs [simp]: "attrs (with_attrs s a) = a"
  and chips_with_attrs [simp]: "chips (with_attrs s a) = chips s"
  by (simp_all add: with_attrs_def)

lemma fold_times_prod_list:
  "fold (\<lambda>x q. q * f x) xs (a::real) = a * prod_list (map f xs)"
  by (induction xs arbitrary: a) (simp_all add: mult.assoc)

lemma fold_plus_sum_list:
  "fold (\<lambda>x q. q + f x) xs (a::real) = a + sum_list (map f xs)"
  by (induction xs arbitrary: a) (simp_all add: add.assoc)

lemma quality_yield_prod: "quality_yield s = prod_list (map get_quality (chips s))"
  by (simp add: quality_yield_def fold_times_prod_list)

lemma and_then_InrE:
  assumes "and_then m f = Inr y"
  obtains v where "m = Inr v" and "f v = Inr y"
  using assms by (auto simp: and_then_eq_Inr)

lemma Chip_init_power_frame:
  assumes "Chip_init_power s = Inr s'" and "\<not> Chip_attrs.static (attrs s)"
  shows "\<not> Chip_attrs.static (attrs s') \<and> chips s' = chips s"
  using assms
  by (auto simp: Chip_init_power_def Let_def and_then_eq_Inr Chip_set_stack_power_def
        Chip_set_io_power_def Chip_set_total_power_def Chip_set_nre_design_cost_def)

lemma Chip_init_area_frame:
  assumes "Chip_init_area s = Inr s'" and "\<not> Chip_attrs.static (attrs s)"
  shows "\<not> Chip_attrs.static (attrs s') \<and> chips s' = chips s"
  using assms
  by (auto simp: Chip_init_area_def Let_def and_then_eq_Inr Chip_set_area_def
        Chip_set_self_true_yield_def Chip_set_self_test_yield_def Chip_set_self_quality_def)

lemma Chip_init_yield_result:
  assumes "Chip_init_yield s = Inr s'" and "\<not> Chip_attrs.static (attrs s)"
  shows "\<exists>y t q. compute_chip_yield s = Inr y
     \<and> s' = Chip ((attrs s)\<lparr>chip_true_yield := y, chip_test_yield := t, quality := q\<rparr>) (chips s)"
  using assms
  by (auto simp: Chip_init_yield_def Let_def and_then_eq_Inr Chip_set_chip_true_yield_def
        Chip_set_chip_test_yield_def Chip_set_quality_def with_attrs_def)

lemma Chip_init_cost_result:
  assumes "Chip_init_cost st s = Inr s'" and "\<not> Chip_attrs.static (attrs s)"
  shows "\<exists>sc cc. compute_self_cost s = Inr sc
     \<and> compute_cost (Chip ((attrs s)\<lparr>self_cost := sc\<rparr>) (chips s)) = Inr cc
     \<and> s' = Chip ((attrs s)\<lparr>self_cost := sc, cost := cc, Chip_attrs.static := st\<rparr>) (chips s)"
  using assms
  by (auto simp: Chip_init_cost_def Let_def and_then_eq_Inr Chip_set_self_cost_def
        Chip_set_cost_def with_attrs_def)

text \<open>What a successful constructor call leaves behind: the chip \<open>s\<close> as it was
  when the yield was computed, and the attributes assigned after that.\<close>

lemma Chip_init_stages:
  assumes "Chip_init d parent e = Inr c"
  shows "\<exists>s y t q sc cc. \<not> Chip_attrs.static (attrs s)
     \<and> compute_chip_yield s = Inr y
     \<and> compute_cost (Chip ((attrs s)\<lparr>chip_true_yield := y, chip_test_yield := t, quality := q,
                                    self_cost := sc\<rparr>) (chips s)) = Inr cc
     \<and> c = Chip ((attrs s)\<lparr>chip_true_yield := y, chip_test_yield := t, quality := q,
                            self_cost := sc, cost := cc, Chip_attrs.static := design.static d\<rparr>)
               (chips s)"
proof -
  obtain node kids where e: "e = Element node kids" by (cases e)
  from assms have "\<exists>wp ap tp st cs b s1 s2 s3.
        Chip_init_power (Chip (stored_attributes d parent node wp ap tp st b) cs) = Inr s1
      \<and> Chip_init_area s1 = Inr s2 \<and> Chip_init_yield s2 = Inr s3
      \<and> Chip_init_cost (design.static d) s3 = Inr c"
    unfolding e Chip_init.simps
    apply (elim and_then_InrE)
    apply (simp split: if_splits)
     apply (elim and_then_InrE, blast)+
    done
  then obtain wp ap tp st cs b s1 s2 s3
    where s1: "Chip_init_power (Chip (stored_attributes d parent node wp ap tp st b) cs) = Inr s1"
      and s2: "Chip_init_area s1 = Inr s2"
      and s3: "Chip_init_yield s2 = Inr s3"
      and c: "Chip_init_cost (design.static d) s3 = Inr c"
    by blast
  define s0 where "s0 = Chip (stored_attributes d parent node wp ap tp st b) cs"
  have s0: "\<not> Chip_attrs.static (attrs s0)"
    by (simp add: s0_def stored_attributes_def)
  note s1 = s1[folded s0_def]
  have n1: "\<not> Chip_attrs.static (attrs s1)" using Chip_init_power_frame[OF s1 s0] by simp
  have n2: "\<not> Chip_attrs.static (attrs s2)" using Chip_init_area_frame[OF s2 n1] by simp
  from Chip_init_yield_result[OF s3 n2] obtain y t q
    where y: "compute_chip_yield s2 = Inr y"
      and s3': "s3 = Chip ((attrs s2)\<lparr>chip_true_yield := y, chip_test_yield := t, quality := q\<rparr>)
                       (chips s2)"
    by blast
  have n3: "\<not> Chip_attrs.static (attrs s3)" using n2 by (simp add: s3')
  from Chip_init_cost_result[OF c n3] obtain sc cc
    where "compute_cost (Chip ((attrs s3)\<lparr>self_cost := sc\<rparr>) (chips s3)) = Inr cc"
      and "c = Chip ((attrs s3)\<lparr>self_cost := sc, cost := cc,
                               Chip_attrs.static := design.static d\<rparr>) (chips s3)"
    by blast
  then have "compute_cost (Chip ((attrs s2)\<lparr>chip_true_yield := y, chip_test_yield := t,
                 quality := q, self_cost := sc\<rparr>) (chips s2)) = Inr cc"
    and "c = Chip ((attrs s2)\<lparr>chip_true_yield := y, chip_test_yield := t, quality := q,
                            self_cost := sc, cost := cc, Chip_attrs.static := design.static d\<rparr>)
               (chips s2)"
    by (simp_all add: s3')
  with n2 y show ?thesis by blast
qed

lemma chip_true_yield_of_init:
  assumes "Chip_init d parent e = Inr c"
  shows "\<exists>signal_count stacked_die_area ay.
      get_chips_signal_count c = Inr signal_count
    \<and> get_stacked_die_area c = Inr stacked_die_area
    \<and> assembly_yield (get_assembly_process c) (of_nat (get_chips_len c)) signal_count
          stacked_die_area = Inr ay
    \<and> get_chip_true_yield c
        = get_self_quality c * prod_list (map get_quality (chips c)) * ay
            * get_wafer_process_yield c"
proof -
  from Chip_init_stages[OF assms] obtain s y t q sc cc
    where y: "compute_chip_yield s = Inr y"
      and c: "c = Chip ((attrs s)\<lparr>chip_true_yield := y, chip_test_yield := t, quality := q,
                            self_cost := sc, cost := cc, Chip_attrs.static := design.static d\<rparr>)
               (chips s)"
    by blast
  from y obtain signal_count stacked_die_area ay
    where parts: "get_chips_signal_count s = Inr signal_count"
      "get_stacked_die_area s = Inr stacked_die_area"
      "assembly_yield (get_assembly_process s) (of_nat (get_chips_len s)) signal_count
          stacked_die_area = Inr ay"
      "y = get_self_quality s * (quality_yield s * ay * get_wafer_process_yield s)"
    by (auto simp: compute_chip_yield_def Let_def and_then_eq_Inr)
  have "get_chip_list c = get_chip_list s"
    by (cases s) (simp add: c)
  then have "get_chips_signal_count c = get_chips_signal_count s"
    by (simp add: get_chips_signal_count_def) (simp add: c)
  moreover have "get_stacked_die_area c = get_stacked_die_area s"
    by (simp add: c get_stacked_die_area_def cong: if_cong)
  moreover have "get_chip_true_yield c
        = get_self_quality c * prod_list (map get_quality (chips c)) * ay
            * get_wafer_process_yield c"
    using parts(4) by (simp add: c quality_yield_prod)
  ultimately show ?thesis
    using parts(1,2,3) by (simp add: c)
qed

lemma cost_of_init:
  assumes "Chip_init d parent e = Inr c"
  shows "\<exists>stacked_die_area ac atc.
      get_stacked_die_area c = Inr stacked_die_area
    \<and> assembly_cost (get_assembly_process c) (of_nat (get_chips_len c)) stacked_die_area = Inr ac
    \<and> compute_assembly_test_cost (get_test_process c) c = Inr atc
    \<and> get_chip_test_yield c \<noteq> 0
    \<and> get_cost c = (get_self_cost c + sum_list (map get_cost (chips c)) + ac + atc)
                      / get_chip_test_yield c"
proof -
  from Chip_init_stages[OF assms] obtain s y t q sc cc
    where cc: "compute_cost (Chip ((attrs s)\<lparr>chip_true_yield := y, chip_test_yield := t,
                 quality := q, self_cost := sc\<rparr>) (chips s)) = Inr cc"
      and c: "c = Chip ((attrs s)\<lparr>chip_true_yield := y, chip_test_yield := t, quality := q,
                            self_cost := sc, cost := cc, Chip_attrs.static := design.static d\<rparr>)
               (chips s)"
    by blast
  let ?s = "Chip ((attrs s)\<lparr>chip_true_yield := y, chip_test_yield := t,
                 quality := q, self_cost := sc\<rparr>) (chips s)"
  from cc obtain stacked_die_area ac atc
    where parts: "get_stacked_die_area ?s = Inr stacked_die_area"
      "assembly_cost (get_assembly_process ?s) (of_nat (get_chips_len ?s)) stacked_die_area
         = Inr ac"
      "compute_assembly_test_cost (get_test_process ?s) ?s = Inr atc"
      "py_div (get_self_cost ?s + sum_list (map get_cost (chips ?s)) + ac + atc)
         (get_chip_test_yield ?s) = Inr cc"
    by (auto simp: compute_cost_def Let_def and_then_eq_Inr fold_plus_sum_list)
  have 1: "get_stacked_die_area c = get_stacked_die_area ?s"
    by (simp add: c get_stacked_die_area_def cong: if_cong)
  have 2: "compute_assembly_test_cost (get_test_process c) c
         = compute_assembly_test_cost (get_test_process ?s) ?s"
    by (simp add: c compute_assembly_test_cost_def cong: if_cong)
  from parts(4) have 3: "t \<noteq> 0" "cc = (sc + sum_list (map get_cost (chips s)) + ac + atc) / t"
    by (auto simp: py_div_def split: if_splits)
  show ?thesis
    using parts(1,2,3) 3 unfolding 1 2
    by (simp add: c)
qed

subsection \<open>The example design\<close>

lemma example_lookups:
  "find_wafer_process ''test_wafer_process'' [example_wafer_process] = Inr example_wafer_process"
  "find_assembly_process ''test_assembly_process'' [example_assembly] = Inr example_assembly"
  "find_test_process ''test_test_process'' [example_test] = Inr example_test"
  "build_stackup [(1, ''test_layer_process'')] [example_layer] = Inr [example_layer]"
  by (simp_all add: find_wafer_process_def find_assembly_process_def find_test_process_def
        find_process_def build_stackup_def example_wafer_process_def example_assembly_def
        example_test_def example_layer_def)

lemmas init_defs = Chip_init_power_def stored_attributes_def
      Chip_set_stack_power_def compute_stack_power_def
      get_signal_power_def Chip_set_io_power_def Chip_set_total_power_def
      Chip_set_nre_design_cost_def compute_nre_design_cost_def compute_nre_front_end_cost_def
      compute_nre_back_end_cost_def internal_indices_def Let_def with_attrs_def
      Chip_init_area_def Chip_set_area_def compute_area_def compute_layer_aware_yield_def
      get_io_area_def first_block_index_def Chip_set_self_true_yield_def
      Chip_set_self_test_yield_def compute_self_test_yield_def compute_self_quality_def
      Chip_set_self_quality_def py_div_def
      Chip_init_yield_def compute_chip_yield_def quality_yield_def get_chips_signal_count_def
      get_stacked_die_area_def expandedArea_def py_sqrt_def Chip_set_chip_true_yield_def
      Chip_set_chip_test_yield_def compute_assembly_test_yield_def compute_assembly_quality_def
      Chip_set_quality_def
      Chip_init_cost_def compute_self_cost_def Chip_set_self_cost_def compute_cost_def
      compute_assembly_test_cost_def Chip_set_cost_def

lemma example_assembly_fields:
  "die_separation example_assembly = 2 / 10"
  "Assembly.edge_exclusion example_assembly = 3 / 10"
  by (simp_all add: example_assembly_def)

lemma example_test_fields:
  "test_self example_test = False" "test_assembly example_test = False"
  by (simp_all add: example_test_def)

lemma example_wafer_process_fields:
  "nre_front_end_cost_per_mm2_memory example_wafer_process = 1 / 10"
  "nre_back_end_cost_per_mm2_memory example_wafer_process = 2 / 10"
  "wafer_process_yield example_wafer_process = 98 / 100"
  by (simp_all add: example_wafer_process_def)

lemma example_layer_yield:
  "layer_yield example_layer 4 = Inr ((100543 / 100000) powr (- 2))"
  "layer_yield example_layer 10 = Inr ((40543 / 40000) powr (- 2))"
  by (simp_all add: layer_yield_def py_div_def py_pow_def example_layer_def)

lemma example_assembly_yield:
  "assembly_yield example_assembly 0 0 x = Inr (1 - 3 / 10000 * x)"
  "assembly_yield example_assembly 1 0 x = Inr (987 / 1000 * (1 - 3 / 10000 * x))"
  by (simp_all add: assembly_yield_def py_pow_def example_assembly_def)

lemma ceiling_half: "\<lceil>(1::real) / 2\<rceil> = 1"
  by (rule ceiling_unique) simp_all

lemma example_assembly_cost:
  "assembly_cost example_assembly 0 x = Inr (x / 10)"
  "assembly_cost example_assembly 1 x = Inr (835 / 1971 + x / 10)"
  by (simp_all add: ceiling_half assembly_cost_def get_picknplace_cost_per_second_def
      get_bonding_cost_per_second_def compute_picknplace_cost_per_second_def
      compute_bonding_cost_per_second_def compute_picknplace_cost_per_second_of_def
      compute_bonding_cost_per_second_of_def cost_per_second_of_def py_div_def
      compute_picknplace_time_def compute_bonding_time_def example_assembly_def)

lemma sqrt_values: "sqrt (121 / 25) = 11 / 5"
  using real_sqrt_abs [of "11 / 5"] by (simp add: power2_eq_square)

lemmas example_values = example_assembly_fields example_test_fields
  example_wafer_process_fields example_layer_yield example_assembly_yield
  example_assembly_cost sqrt_values

lemma example_memory_built:
  "Chip_init example_design (Some example_assembly) example_memory_tree = Inr example_memory"
  apply (simp add: example_memory_tree_def)
  apply (simp add: example_design_def example_memory_definition_def example_lookups)
  apply (simp add: init_defs example_design_def example_memory_definition_def example_values
      example_memory_def)
  done

lemma example_memory_fields:
  "get_total_power example_memory = 1" "get_buried example_memory = False"
  "get_area example_memory = 4" "get_aspect_ratio example_memory = 1"
  "get_quality example_memory = (100543 / 100000) powr (- 2) * 12248677 / 12500000"
  "get_cost example_memory = 1259 / 250" "get_core_area example_memory = 4"
  "chips example_memory = []" "get_name example_memory = ''memory''"
  "Chip_attrs.block_names (attrs example_memory) = []"
  by (simp_all add: example_memory_def stored_attributes_def example_memory_definition_def
        example_design_def)

lemma example_interposer_built:
  "Chip_init example_design None example_interposer_tree = Inr example_interposer"
  apply (simp add: example_interposer_tree_def)
  apply (simp add: example_design_def example_interposer_definition_def
      example_memory_definition_def example_lookups)
  apply (simp add: example_memory_built [unfolded example_design_def])
  apply (simp add: init_defs example_design_def example_memory_definition_def example_values
       example_memory_fields get_signal_count_def last_block_index_def
       example_interposer_def example_interposer_definition_def)
  done

lemma example_interposer_fields:
  "chips example_interposer = [example_memory]"
  "get_assembly_process example_interposer = example_assembly"
  "get_test_process example_interposer = example_test"
  "get_self_cost example_interposer = 7"
  "get_cost example_interposer = 1305161 / 98550"
  "get_chip_test_yield example_interposer = 1"
  "get_self_quality example_interposer = (40543 / 40000) powr (- 2)"
  "get_wafer_process_yield example_interposer = 98 / 100"
  "global_adjacency_matrix (attrs example_interposer) = []"
  "get_chip_true_yield example_interposer
     = (40543 / 40000) powr (- 2)
         * ((100543 / 100000) powr (- 2) * 12248677 / 12500000)
         * (987 / 1000 * (1 - 3 / 10000 * (196 / 25))) * (98 / 100)"
  by (simp_all add: example_interposer_def stored_attributes_def example_design_def
        example_wafer_process_fields)

lemma example_interposer_stack:
  "get_stacked_die_area example_interposer = Inr (196 / 25)"
  "get_chips_signal_count example_interposer = Inr 0"
  "map (\<lambda>chip. get_signal_count chip (get_chip_list example_interposer))
     (chips example_interposer) = map Inr [(0, [])]"
  by (simp_all add: get_stacked_die_area_def get_chips_signal_count_def
        example_interposer_fields example_memory_fields example_values expandedArea_def
        py_sqrt_def py_div_def get_signal_count_def last_block_index_def Let_def)

lemma expandedArea_value:
  assumes "expandedArea a b r = Inr v"
  shows "v = (sqrt (a * r) + 2 * b) * (sqrt (a / r) + 2 * b)"
  using assms
  by (auto simp: expandedArea_def py_sqrt_def py_div_def and_then_eq_Inr split: if_splits)

lemma for_each_counted:
  assumes "for_each (\<lambda>x n. and_then (g x) (\<lambda>v. Inr (n + fst v))) xs (a::real) = Inr n"
  shows "\<exists>vs. map g xs = map Inr vs \<and> n = a + sum_list (map fst vs)"
  using assms
proof (induction xs arbitrary: a)
  case Nil
  then show ?case by simp
next
  case (Cons x xs)
  from Cons.prems obtain v where v: "g x = Inr v"
    and rest: "for_each (\<lambda>x n. and_then (g x) (\<lambda>v. Inr (n + fst v))) xs (a + fst v) = Inr n"
    by (auto simp: and_then_eq_Inr)
  from Cons.IH[OF rest] obtain vs where "map g xs = map Inr vs"
    and "n = a + fst v + sum_list (map fst vs)" by blast
  with v have "map g (x # xs) = map Inr (v # vs) \<and> n = a + sum_list (map fst (v # vs))"
    by simp
  then show ?case by blast
qed

text \<open>
  Claim C1.  For every chip \<open>c\<close> returned by the constructor, the stored chip
  true yield is \<open>self_quality\<close> times the product of the qualities of the stacked
  chips times \<open>assembly_yield(number of stacked chips, signal count, stacked die area)\<close>
  times the yield of the wafer process.  The signal count is the sum over the stacked
  chips of \<open>get_signal_count(get_chip_list())[0]\<close>, the internal list being that of
  \<open>c\<close>; the three computations inside return.
\<close>

theorem chip_true_yield_formula:
  assumes "Chip_init d parent e = Inr c"
  shows "\<exists>counted signal_count stacked_die_area ay.
      map (\<lambda>chip. get_signal_count chip (get_chip_list c)) (chips c) = map Inr counted
    \<and> signal_count = sum_list (map fst counted)
    \<and> get_chips_signal_count c = Inr signal_count
    \<and> get_stacked_die_area c = Inr stacked_die_area
    \<and> assembly_yield (get_assembly_process c) (of_nat (get_chips_len c)) signal_count
          stacked_die_area = Inr ay
    \<and> get_chip_true_yield c
        = get_self_quality c * prod_list (map get_quality (chips c)) * ay
            * get_wafer_process_yield c"
proof -
  from chip_true_yield_of_init[OF assms] obtain signal_count stacked_die_area ay
    where parts: "get_chips_signal_count c = Inr signal_count"
      "get_stacked_die_area c = Inr stacked_die_area"
      "assembly_yield (get_assembly_process c) (of_nat (get_chips_len c)) signal_count
          stacked_die_area = Inr ay"
      "get_chip_true_yield c
        = get_self_quality c * prod_list (map get_quality (chips c)) * ay
            * get_wafer_process_yield c"
    by blast
  from parts(1) obtain counted
    where "map (\<lambda>chip. get_signal_count chip (get_chip_list c)) (chips c) = map Inr counted"
      and "signal_count = sum_list (map fst counted)"
    unfolding get_chips_signal_count_def Let_def
    using for_each_counted[of "\<lambda>chip. get_signal_count chip (get_chip_list c)" "chips c" 0
        signal_count]
    by auto
  with parts show ?thesis by blast
qed

theorem chip_true_yield_formula_witness:
  "Chip_init example_design None example_interposer_tree = Inr example_interposer
   \<and> chips example_interposer = [example_memory]
   \<and> get_chips_signal_count example_interposer = Inr 0
   \<and> get_stacked_die_area example_interposer = Inr (196 / 25)
   \<and> (\<exists>ay. assembly_yield (get_assembly_process example_interposer) 1 0 (196 / 25) = Inr ay
        \<and> get_chip_true_yield example_interposer
            = get_self_quality example_interposer * get_quality example_memory * ay
                * get_wafer_process_yield example_interposer)"
proof -
  from chip_true_yield_formula [OF example_interposer_built]
  obtain signal_count stacked_die_area ay
    where sc: "get_chips_signal_count example_interposer = Inr signal_count"
      and sda: "get_stacked_die_area example_interposer = Inr stacked_die_area"
      and ay: "assembly_yield (get_assembly_process example_interposer)
             (of_nat (get_chips_len example_interposer)) signal_count stacked_die_area = Inr ay"
      and y: "get_chip_true_yield example_interposer
             = get_self_quality example_interposer
                 * prod_list (map get_quality (chips example_interposer)) * ay
                 * get_wafer_process_yield example_interposer"
    by blast
  from sc have sc0: "signal_count = 0"
    by (simp only: example_interposer_stack sum.inject)
  from sda have sda0: "stacked_die_area = 196 / 25"
    by (simp only: example_interposer_stack sum.inject)
  from ay y have "assembly_yield (get_assembly_process example_interposer) 1 0 (196 / 25) = Inr ay
      \<and> get_chip_true_yield example_interposer
            = get_self_quality example_interposer * get_quality example_memory * ay
                * get_wafer_process_yield example_interposer"
    unfolding sc0 sda0 by (simp add: example_interposer_fields(1))
  then show ?thesis
    using example_interposer_built example_interposer_stack(1,2) example_interposer_fields(1)
    by blast
qed

lemma stacked_die_area_single:
  assumes "get_stacked_die_area c = Inr stacked_die_area" and "chips c = [child]"
  shows "stacked_die_area =
      (sqrt (if get_buried child then 0
             else (sqrt (get_area child * get_aspect_ratio child)
                     + die_separation (get_assembly_process c))
                  * (sqrt (get_area child / get_aspect_ratio child)
                     + die_separation (get_assembly_process c)))
        + 2 * Assembly.edge_exclusion (get_assembly_process c))\<^sup>2"
proof (cases "get_buried child")
  case True
  with assms have "expandedArea 0 (Assembly.edge_exclusion (get_assembly_process c)) 1
      = Inr stacked_die_area"
    by (simp add: get_stacked_die_area_def)
  from expandedArea_value[OF this] True show ?thesis
    by (simp add: power2_eq_square)
next
  case False
  with assms obtain inner
    where i: "expandedArea (get_area child) (die_separation (get_assembly_process c) / 2)
                (get_aspect_ratio child) = Inr inner"
      and o: "expandedArea inner (Assembly.edge_exclusion (get_assembly_process c)) 1
                = Inr stacked_die_area"
    by (auto simp: get_stacked_die_area_def and_then_eq_Inr)
  from expandedArea_value[OF i] expandedArea_value[OF o] False show ?thesis
    by (simp add: power2_eq_square)
qed

text \<open>
  Claim C2, as amended.  For every chip \<open>c\<close> returned by the constructor with
  exactly one stacked chip, itself without stacked chips, the stored cost is
  \<open>(self_cost + child.cost + assembly_cost(1, stacked_die_area) + assembly_test_cost)
  / chip_test_yield\<close> with a non-zero \<open>chip_test_yield\<close>.  The stacked die area
  is the child's footprint widened by the die separation (nothing for a buried child),
  made square and widened by the edge exclusion; the assembly test cost is \<open>0\<close> when
  the test process does not test the assembly.  The netlist plays no part.
\<close>

theorem cost_of_single_leaf_stack:
  assumes "Chip_init d parent e = Inr c" and "chips c = [child]" and "chips child = []"
  shows "\<exists>stacked_die_area ac atc.
      stacked_die_area =
        (sqrt (if get_buried child then 0
               else (sqrt (get_area child * get_aspect_ratio child)
                       + die_separation (get_assembly_process c))
                    * (sqrt (get_area child / get_aspect_ratio child)
                       + die_separation (get_assembly_process c)))
          + 2 * Assembly.edge_exclusion (get_assembly_process c))\<^sup>2
    \<and> get_stacked_die_area c = Inr stacked_die_area
    \<and> assembly_cost (get_assembly_process c) 1 stacked_die_area = Inr ac
    \<and> compute_assembly_test_cost (get_test_process c) c = Inr atc
    \<and> (\<not> test_assembly (get_test_process c) \<longrightarrow> atc = 0)
    \<and> get_chip_test_yield c \<noteq> 0
    \<and> get_cost c = (get_self_cost c + get_cost child + ac + atc) / get_chip_test_yield c"
proof -
  from cost_of_init[OF assms(1)] obtain stacked_die_area ac atc
    where parts: "get_stacked_die_area c = Inr stacked_die_area"
      "assembly_cost (get_assembly_process c) (of_nat (get_chips_len c)) stacked_die_area
         = Inr ac"
      "compute_assembly_test_cost (get_test_process c) c = Inr atc"
      "get_chip_test_yield c \<noteq> 0"
      "get_cost c = (get_self_cost c + sum_list (map get_cost (chips c)) + ac + atc)
                      / get_chip_test_yield c"
    by blast
  have 1: "assembly_cost (get_assembly_process c) 1 stacked_die_area = Inr ac"
    using parts(2) by (simp add: assms(2))
  have 2: "\<not> test_assembly (get_test_process c) \<longrightarrow> atc = 0"
    using parts(3) by (auto simp: compute_assembly_test_cost_def)
  have 3: "get_cost c = (get_self_cost c + get_cost child + ac + atc) / get_chip_test_yield c"
    using parts(5) by (simp add: assms(2))
  from stacked_die_area_single[OF parts(1) assms(2)] parts(1,3,4) 1 2 3
  show ?thesis by blast
qed

theorem cost_of_single_leaf_stack_witness:
  "Chip_init example_design None example_interposer_tree = Inr example_interposer
   \<and> chips example_interposer = [example_memory] \<and> chips example_memory = []
   \<and> get_stacked_die_area example_interposer = Inr (196 / 25)
   \<and> (196 / 25 :: real) = (sqrt ((sqrt (4 * 1) + 2 / 10) * (sqrt (4 / 1) + 2 / 10)) + 2 * (3 / 10))\<^sup>2
   \<and> assembly_cost (get_assembly_process example_interposer) 1 (196 / 25)
       = Inr (835 / 1971 + 98 / 125)
   \<and> \<not> test_assembly (get_test_process example_interposer)
   \<and> get_cost example_interposer
       = (get_self_cost example_interposer + get_cost example_memory
            + (835 / 1971 + 98 / 125) + 0) / get_chip_test_yield example_interposer"
proof -
  have leaf: "chips example_memory = []" by (simp add: example_memory_fields)
  have untested: "\<not> test_assembly (get_test_process example_interposer)"
    by (simp add: example_interposer_fields example_test_fields)
  from cost_of_single_leaf_stack [OF example_interposer_built example_interposer_fields(1) leaf]
  obtain stacked_die_area ac atc
    where v: "stacked_die_area =
        (sqrt (if get_buried example_memory then 0
               else (sqrt (get_area example_memory * get_aspect_ratio example_memory)
                       + die_separation (get_assembly_process example_interposer))
                    * (sqrt (get_area example_memory / get_aspect_ratio example_memory)
                       + die_separation (get_assembly_process example_interposer)))
          + 2 * Assembly.edge_exclusion (get_assembly_process example_interposer))\<^sup>2"
      and sda: "get_stacked_die_area example_interposer = Inr stacked_die_area"
      and ac: "assembly_cost (get_assembly_process example_interposer) 1 stacked_die_area
                 = Inr ac"
      and atc: "\<not> test_assembly (get_test_process example_interposer) \<longrightarrow> atc = 0"
      and c: "get_cost example_interposer
                = (get_self_cost example_interposer + get_cost example_memory + ac + atc)
                    / get_chip_test_yield example_interposer"
    by blast
  from sda have sda0: "stacked_die_area = 196 / 25"
    by (simp only: example_interposer_stack sum.inject)
  from v have v0: "(196 / 25 :: real)
      = (sqrt ((sqrt (4 * 1) + 2 / 10) * (sqrt (4 / 1) + 2 / 10)) + 2 * (3 / 10))\<^sup>2"
    unfolding sda0
    by (simp only: example_memory_fields example_interposer_fields example_assembly_fields
          if_False)
  from ac have ac0: "ac = 835 / 1971 + 98 / 125"
    unfolding sda0 by (simp add: example_interposer_fields example_assembly_cost)
  from atc untested have atc0: "atc = 0" by simp
  from c have "get_cost example_interposer
       = (get_self_cost example_interposer + get_cost example_memory
            + (835 / 1971 + 98 / 125) + 0) / get_chip_test_yield example_interposer"
    by (simp only: ac0 atc0)
  with example_interposer_built example_interposer_fields(1) leaf example_interposer_stack(1)
    v0 ac [unfolded sda0 ac0] untested
  show ?thesis by blast
qed

text \<open>
  Claim C2 as stated charges the assembly for the child's own area.  In the example the
  memory die has area \<open>4\<close> and the design has no netlist; the die separation
  \<open>0.2\<close> and the edge exclusion \<open>0.3\<close> make the stacked die area
  \<open>7.84\<close>, and the stored cost differs from the stated one by
  \<open>0.1 * 3.84\<close>.
\<close>

theorem cost_with_child_area_counterexample:
  "Chip_init example_design None example_interposer_tree = Inr example_interposer
   \<and> chips example_interposer = [example_memory] \<and> chips example_memory = []
   \<and> adjacency_matrix_definitions example_design = []
   \<and> global_adjacency_matrix (attrs example_interposer) = []
   \<and> get_area example_memory = 4
   \<and> assembly_cost (get_assembly_process example_interposer) 1 (get_area example_memory)
       = Inr (835 / 1971 + 4 / 10)
   \<and> get_cost example_interposer = 1305161 / 98550
   \<and> (get_self_cost example_interposer + get_cost example_memory + (835 / 1971 + 4 / 10))
        / get_chip_test_yield example_interposer = 6336589 / 492750
   \<and> get_cost example_interposer
       \<noteq> (get_self_cost example_interposer + get_cost example_memory + (835 / 1971 + 4 / 10))
            / get_chip_test_yield example_interposer"
proof -
  have "adjacency_matrix_definitions example_design = []"
    by (simp add: example_design_def)
  then show ?thesis
    by (simp add: example_interposer_built example_interposer_fields example_memory_fields
          example_assembly_cost)
qed

end
